(* ===== verification/Prelude.thy ===== *)
theory Prelude
  imports Main "HOL-Library.AList"
begin

text \<open>
  Shared vocabulary of the development. Python dictionaries keep insertion order and an
  assignment \<^verbatim>\<open>d[k] = v\<close> to an existing key keeps the key's position; this is
  exactly \<^const>\<open>AList.update\<close> on an association list, so every dictionary of
  \<^verbatim>\<open>builder.py\<close> is a \<open>'v pydict\<close> below, updated with \<^const>\<open>AList.update\<close>.
  The collection \<open>dict_simps\<close> gathers the facts about these dictionaries that the
  component proofs use.
\<close>

named_theorems dict_simps "facts on Python dictionaries as association lists"

type_synonym 'v pydict = "(string \<times> 'v) list"
type_synonym sdict = "string pydict"

text \<open>Iterating over a dictionary and storing each entry into another one,
  \<^verbatim>\<open>for k in src: dst[k] = f(k, src[k], dst)\<close>, is a left fold of updates.\<close>

definition dict_keys :: "'v pydict \<Rightarrow> string list" where
  "dict_keys d = map fst d"

lemma dict_keys_update [dict_simps]:
  "dict_keys (AList.update k v d) =
     (if k \<in> set (dict_keys d) then dict_keys d else dict_keys d @ [k])"
  by (simp add: dict_keys_def AList.update_keys)

lemma distinct_dict_keys_update [dict_simps]:
  "distinct (dict_keys d) \<Longrightarrow> distinct (dict_keys (AList.update k v d))"
  by (simp add: dict_keys_def AList.distinct_update)

lemma map_of_dict_update [dict_simps]:
  "map_of (AList.update k v d) = (map_of d)(k \<mapsto> v)"
  by (rule AList.update_conv')

lemma dict_update_nonempty [dict_simps]: "AList.update k v d \<noteq> []"
  by (rule AList.update_nonempty)

lemma dict_keys_prefix_update:
  "\<exists>ks. dict_keys (AList.update k v d) = dict_keys d @ ks"
  by (auto simp: dict_keys_update)

text \<open>Two texts that end in a separator absent from both, one a prefix of the other,
  are equal.\<close>

lemma take_sep_prefix:
  "c \<notin> set a \<Longrightarrow> c \<notin> set b \<Longrightarrow> take (Suc (length a)) (b @ c # r) = a @ [c] \<Longrightarrow> a = b"
proof (induction a arbitrary: b)
  case Nil then show ?case by (cases b) auto
next
  case (Cons x a)
  then show ?case by (cases b) auto
qed

text \<open>A loop whose body may raise: the first exception stops it.\<close>

lemma dict_update_fresh:
  "k \<notin> set (dict_keys d) \<Longrightarrow> AList.update k v d = d @ [(k, v)]"
  by (induction d) (auto simp: dict_keys_def)

text \<open>A loop \<^verbatim>\<open>for x in xs: d[f(x)] = g(x)\<close>: the last element with a key decides its
  value.\<close>

lemma map_of_fold_update:
  "map_of (fold (\<lambda>x d. AList.update (f x) (g x) d) xs d) k =
     (case filter (\<lambda>x. f x = k) (rev xs) of [] \<Rightarrow> map_of d k | x # _ \<Rightarrow> Some (g x))"
  by (induction xs arbitrary: d) (auto simp: update_conv' split: list.split)

lemma distinct_fold_update [dict_simps]:
  "distinct (dict_keys d) \<Longrightarrow> distinct (dict_keys (fold (\<lambda>x d. AList.update (f x) (g x) d) xs d))"
  by (induction xs arbitrary: d) (simp_all add: distinct_dict_keys_update)

fun map_exc :: "('a \<Rightarrow> 'e + 'b) \<Rightarrow> 'a list \<Rightarrow> 'e + 'b list" where
  "map_exc f [] = Inr []"
| "map_exc f (x # xs) =
     (case f x of Inl e \<Rightarrow> Inl e | Inr y \<Rightarrow> (case map_exc f xs of Inl e \<Rightarrow> Inl e | Inr ys \<Rightarrow> Inr (y # ys)))"

lemma map_exc_Inr: "(\<And>x. x \<in> set xs \<Longrightarrow> f x = Inr (g x)) \<Longrightarrow> map_exc f xs = Inr (map g xs)"
  by (induction xs) simp_all

lemma set_dict_keys: "set (dict_keys d) = fst ` set d"
  by (simp add: dict_keys_def)

end
