(* ===== verification/PyRuntime.thy ===== *)
theory PyRuntime
  imports Prelude
begin

text \<open>
  The parts of the Python runtime that \<^verbatim>\<open>src/builder.py\<close> relies on, with the
  semantics of CPython 3: the values PyYAML's \<^verbatim>\<open>safe_load\<close> returns, \<^verbatim>\<open>str()\<close>
  and \<^verbatim>\<open>repr()\<close> of them, \<^verbatim>\<open>str.replace\<close>, \<^verbatim>\<open>str.strip\<close>,
  \<^verbatim>\<open>str.split(sep, 1)\<close>, \<^verbatim>\<open>str.join\<close>, the membership test \<^verbatim>\<open>in\<close>,
  subscription and iteration of such values, the dictionary merge
  \<^verbatim>\<open>{**a, **b}\<close> and \<^verbatim>\<open>os.path.expanduser\<close>. Exceptions are values of
  \<open>pyexc\<close>. Characters are bytes: Python's code points beyond ASCII are not
  distinguished from their UTF-8 bytes.
\<close>

section \<open>Exceptions and YAML values\<close>

datatype pyexc = TypeError | KeyError | IndexError | ReError | OSError

text \<open>What \<^verbatim>\<open>yaml.safe_load\<close> produces: strings, integers, booleans, \<^verbatim>\<open>None\<close>,
  lists and mappings with string keys, in document order. Floats, dates and non-string
  keys are not modelled.\<close>

datatype yaml =
    YStr string
  | YInt int
  | YBool bool
  | YNull
  | YList "yaml list"
  | YMap "(string \<times> yaml) list"

text \<open>A loaded mapping has distinct keys (PyYAML builds a \<^verbatim>\<open>dict\<close>).\<close>

fun yaml_wf :: "yaml \<Rightarrow> bool" where
  "yaml_wf (YList xs) = (\<forall>x \<in> set xs. yaml_wf x)"
| "yaml_wf (YMap kvs) = (distinct (map fst kvs) \<and> (\<forall>kv \<in> set kvs. yaml_wf (snd kv)))"
| "yaml_wf _ = True"

section \<open>Text of values: str() and repr()\<close>

definition digit_char :: "nat \<Rightarrow> char" where
  "digit_char d = char_of (48 + d)"

fun nat_str :: "nat \<Rightarrow> string" where
  "nat_str n = (if n < 10 then [digit_char n] else nat_str (n div 10) @ [digit_char (n mod 10)])"

definition int_str :: "int \<Rightarrow> string" where
  "int_str i = (if i < 0 then ''-'' @ nat_str (nat (- i)) else nat_str (nat i))"

definition hex_char :: "nat \<Rightarrow> char" where
  "hex_char d = (if d < 10 then char_of (48 + d) else char_of (87 + d))"

abbreviation squote :: char where "squote \<equiv> CHR 0x27"
abbreviation dquote :: char where "dquote \<equiv> CHR 0x22"
abbreviation bslash :: char where "bslash \<equiv> CHR 0x5C"

text \<open>\<^verbatim>\<open>repr()\<close> of a string: single quotes unless the text holds a single and no
  double quote; the chosen quote, the backslash and control characters escaped.\<close>

definition repr_char :: "char \<Rightarrow> char \<Rightarrow> string" where
  "repr_char q c =
     (if c = q \<or> c = bslash then [bslash, c]
      else if c = CHR 0x09 then [bslash, CHR ''t'']
      else if c = CHR 0x0A then [bslash, CHR ''n'']
      else if c = CHR 0x0D then [bslash, CHR ''r'']
      else if of_char c < (32::nat) \<or> of_char c = (127::nat)
        then [bslash, CHR ''x'', hex_char (of_char c div 16), hex_char (of_char c mod 16)]
      else [c])"

definition str_repr :: "string \<Rightarrow> string" where
  "str_repr s =
     (let q = (if squote \<in> set s \<and> dquote \<notin> set s then dquote else squote)
      in q # concat (map (repr_char q) s) @ [q])"

fun py_join :: "string \<Rightarrow> string list \<Rightarrow> string" where
  "py_join sep [] = []"
| "py_join sep [x] = x"
| "py_join sep (x # xs) = x @ sep @ py_join sep xs"

lemma py_join_Cons: "py_join sep (x # xs) = (if xs = [] then x else x @ sep @ py_join sep xs)"
  by (cases xs) simp_all

fun py_str :: "yaml \<Rightarrow> string" and py_repr :: "yaml \<Rightarrow> string" where
  "py_str (YStr s) = s"
| "py_str (YInt i) = int_str i"
| "py_str (YBool b) = (if b then ''True'' else ''False'')"
| "py_str YNull = ''None''"
| "py_str (YList xs) = ''['' @ py_join '', '' (map py_repr xs) @ '']''"
| "py_str (YMap kvs) =
     ''{'' @ py_join '', '' (map (\<lambda>kv. str_repr (fst kv) @ '': '' @ py_repr (snd kv)) kvs) @ ''}''"
| "py_repr (YStr s) = str_repr s"
| "py_repr (YInt i) = py_str (YInt i)"
| "py_repr (YBool b) = py_str (YBool b)"
| "py_repr YNull = py_str YNull"
| "py_repr (YList xs) = py_str (YList xs)"
| "py_repr (YMap kvs) = py_str (YMap kvs)"

section \<open>String methods\<close>

text \<open>\<^verbatim>\<open>s.replace(old, new)\<close>: every non-overlapping occurrence of \<open>old\<close>, scanned
  left to right, is replaced; the inserted text is not scanned again. An empty \<open>old\<close>
  inserts \<open>new\<close> before every character and at the end.\<close>

function str_replace :: "string \<Rightarrow> string \<Rightarrow> string \<Rightarrow> string" where
  "str_replace old new s =
     (if old = [] then new @ concat (map (\<lambda>c. c # new) s)
      else if s = [] then []
      else if take (length old) s = old then new @ str_replace old new (drop (length old) s)
      else hd s # str_replace old new (tl s))"
  by pat_completeness auto
termination
  by (relation "measure (\<lambda>(old, new, s). length s)") auto

declare str_replace.simps [simp del]

lemma str_replace_Nil [simp]: "str_replace old new [] = (if old = [] then new else [])"
  by (simp add: str_replace.simps)

lemma str_replace_Cons:
  "old \<noteq> [] \<Longrightarrow> str_replace old new (c # s) =
     (if take (length old) (c # s) = old then new @ str_replace old new (drop (length old) (c # s))
      else c # str_replace old new s)"
  by (simp add: str_replace.simps)

lemma str_replace_hit:
  assumes "old \<noteq> []"
  shows "str_replace old new (old @ r) = new @ str_replace old new r"
proof -
  obtain c cs where old: "old = c # cs" using assms by (cases old) auto
  have "str_replace old new (c # (cs @ r)) = new @ str_replace old new (drop (length old) (old @ r))"
    using assms by (subst str_replace_Cons) (simp_all add: old)
  then show ?thesis by (simp add: old)
qed

lemma str_replace_miss:
  "old \<noteq> [] \<Longrightarrow> take (length old) (c # s) \<noteq> old \<Longrightarrow>
     str_replace old new (c # s) = c # str_replace old new s"
  by (subst str_replace_Cons) simp_all

text \<open>Text that does not hold the first character of \<open>old\<close> is copied unchanged.\<close>

lemma str_replace_skip:
  "old \<noteq> [] \<Longrightarrow> hd old \<notin> set s \<Longrightarrow> str_replace old new (s @ r) = s @ str_replace old new r"
proof (induction s)
  case Nil then show ?case by simp
next
  case (Cons c s)
  then have "take (length old) (c # s @ r) \<noteq> old" by (cases old) auto
  with Cons show ?case by (simp add: str_replace_miss)
qed

lemma str_replace_absent:
  "old \<noteq> [] \<Longrightarrow> hd old \<notin> set s \<Longrightarrow> str_replace old new s = s"
  using str_replace_skip [of old s new "[]"] by simp

text \<open>\<^verbatim>\<open>str.isspace\<close> on ASCII: tab to carriage return, the four separators
  0x1C to 0x1F and the space.\<close>

definition py_isspace :: "char \<Rightarrow> bool" where
  "py_isspace c = (let n = (of_char c :: nat) in (9 \<le> n \<and> n \<le> 13) \<or> (28 \<le> n \<and> n \<le> 32))"

definition py_strip :: "string \<Rightarrow> string" where
  "py_strip s = rev (dropWhile py_isspace (rev (dropWhile py_isspace s)))"

text \<open>\<^verbatim>\<open>s.split(sep, 1)\<close> for a one-character separator.\<close>

definition split_once :: "char \<Rightarrow> string \<Rightarrow> string list" where
  "split_once c s =
     (if c \<in> set s then [takeWhile (\<lambda>x. x \<noteq> c) s, tl (dropWhile (\<lambda>x. x \<noteq> c) s)] else [s])"

section \<open>Containers: in, subscription, iteration\<close>

text \<open>\<^verbatim>\<open>key in v\<close> for a string \<open>key\<close>: a key test on a mapping, an element test
  on a list, a substring test on a string, a \<^verbatim>\<open>TypeError\<close> otherwise.\<close>

fun is_substr :: "string \<Rightarrow> string \<Rightarrow> bool" where
  "is_substr k [] = (k = [])"
| "is_substr k (c # s) = (take (length k) (c # s) = k \<or> is_substr k s)"

fun py_contains :: "string \<Rightarrow> yaml \<Rightarrow> pyexc + bool" where
  "py_contains k (YMap kvs) = Inr (k \<in> set (map fst kvs))"
| "py_contains k (YList xs) = Inr (YStr k \<in> set xs)"
| "py_contains k (YStr s) = Inr (is_substr k s)"
| "py_contains k _ = Inl TypeError"

text \<open>Python indexing of a sequence of length \<open>n\<close> by an integer: negative
  indices count from the end, anything else out of range raises.\<close>

definition py_index :: "nat \<Rightarrow> int \<Rightarrow> pyexc + nat" where
  "py_index n i =
     (let j = (if i < 0 then int n + i else i) in if 0 \<le> j \<and> j < int n then Inr (nat j) else Inl IndexError)"

fun py_getitem :: "yaml \<Rightarrow> yaml \<Rightarrow> pyexc + yaml" where
  "py_getitem (YMap kvs) (YStr k) = (case map_of kvs k of Some v \<Rightarrow> Inr v | None \<Rightarrow> Inl KeyError)"
| "py_getitem (YMap kvs) _ = Inl KeyError"
| "py_getitem (YList xs) (YInt i) = map_sum id (\<lambda>j. xs ! j) (py_index (length xs) i)"
| "py_getitem (YList xs) (YBool b) = map_sum id (\<lambda>j. xs ! j) (py_index (length xs) (if b then 1 else 0))"
| "py_getitem (YStr s) (YInt i) = map_sum id (\<lambda>j. YStr [s ! j]) (py_index (length s) i)"
| "py_getitem (YStr s) (YBool b) = map_sum id (\<lambda>j. YStr [s ! j]) (py_index (length s) (if b then 1 else 0))"
| "py_getitem _ _ = Inl TypeError"

text \<open>\<^verbatim>\<open>for x in v\<close>: the keys of a mapping, the elements of a list, the
  characters of a string; \<^verbatim>\<open>None\<close>, integers and booleans are not iterable.\<close>

fun py_iter :: "yaml \<Rightarrow> pyexc + yaml list" where
  "py_iter (YMap kvs) = Inr (map (\<lambda>kv. YStr (fst kv)) kvs)"
| "py_iter (YList xs) = Inr xs"
| "py_iter (YStr s) = Inr (map (\<lambda>c. YStr [c]) s)"
| "py_iter _ = Inl TypeError"

text \<open>\<^verbatim>\<open>for k in v: ... v[k] ...\<close> where each \<open>k\<close> is then stored as a
  dictionary key and concatenated into a string: the pairs of key and item. A key that
  is not a string raises \<^verbatim>\<open>TypeError\<close> here. CPython stores the key and raises
  the \<^verbatim>\<open>TypeError\<close> at the next concatenation \<^verbatim>\<open>'{' + k + '}'\<close>, in the next
  substitution; when the run ends before one (a project without a path, no match) CPython
  prints its error message where the model stops with the exception. Both exit with
  status 1.\<close>

fun key_of :: "yaml \<Rightarrow> pyexc + string" where
  "key_of (YStr k) = Inr k"
| "key_of _ = Inl TypeError"

definition py_items :: "yaml \<Rightarrow> pyexc + (string \<times> yaml) list" where
  "py_items node =
     (case py_iter node of
        Inl e \<Rightarrow> Inl e
      | Inr ks \<Rightarrow> map_exc (\<lambda>k. case py_getitem node k of
                                Inl e \<Rightarrow> Inl e
                              | Inr v \<Rightarrow> map_sum id (\<lambda>s. (s, v)) (key_of k)) ks)"

lemma py_items_YMap:
  assumes "distinct (map fst kvs)"
  shows "py_items (YMap kvs) = Inr kvs"
proof -
  have "map_exc (\<lambda>k. case py_getitem (YMap kvs) k of Inl e \<Rightarrow> Inl e
                 | Inr v \<Rightarrow> map_sum id (\<lambda>s. (s, v)) (key_of k)) (map (\<lambda>kv. YStr (fst kv)) l) = Inr l"
    if "set l \<subseteq> set kvs" for l
    using that
  proof (induction l)
    case Nil then show ?case by simp
  next
    case (Cons kv l)
    then have "map_of kvs (fst kv) = Some (snd kv)"
      using assms by (auto intro: map_of_is_SomeI)
    with Cons show ?case by simp
  qed
  then show ?thesis by (simp add: py_items_def)
qed

text \<open>\<^verbatim>\<open>{**a, **b}\<close>: the entries of \<open>a\<close>, then each entry of \<open>b\<close> stored in
  order, so that \<open>b\<close> wins on a shared key and a shared key keeps its place.\<close>

definition dict_merge :: "'v pydict \<Rightarrow> 'v pydict \<Rightarrow> 'v pydict" where
  "dict_merge a b = fold (\<lambda>kv d. AList.update (fst kv) (snd kv) d) b a"

text \<open>The merge overlays \<open>b\<close> on \<open>a\<close>: a key of \<open>b\<close> takes \<open>b\<close>'s value, the
  others keep \<open>a\<close>'s.\<close>

lemma map_of_dict_merge:
  "distinct (dict_keys b) \<Longrightarrow> map_of (dict_merge a b) = map_of a ++ map_of b"
proof (induction b arbitrary: a)
  case Nil then show ?case by (simp add: dict_merge_def)
next
  case (Cons kv b)
  have db: "distinct (dict_keys b)" and n: "map_of b (fst kv) = None"
    using Cons.prems by (auto simp: dict_keys_def map_of_eq_None_iff)
  have "map_of (dict_merge (AList.update (fst kv) (snd kv) a) b) = map_of (AList.update (fst kv) (snd kv) a) ++ map_of b"
    by (rule Cons.IH [OF db])
  with n show ?case
    by (auto simp: dict_merge_def update_conv' map_add_def fun_eq_iff split: option.split)
qed

section \<open>os.path.expanduser\<close>

text \<open>The POSIX \<^verbatim>\<open>expanduser\<close>: a leading \<^verbatim>\<open>~\<close> up to the first slash names
  the home directory, of the invoking user (\<^verbatim>\<open>$HOME\<close>, else the password entry of
  the user id) or of the named user; an unknown user leaves the path unchanged. Trailing
  slashes of the home directory are dropped, and an empty result becomes \<^verbatim>\<open>/\<close>.\<close>

record home_info =
  env_home :: "string option"
  uid_home :: "string option"
  user_home :: "string \<Rightarrow> string option"

definition home_join :: "string \<Rightarrow> string \<Rightarrow> string" where
  "home_join d tail =
     (let r = rev (dropWhile (\<lambda>x. x = CHR ''/'') (rev d)) @ tail in if r = [] then ''/'' else r)"

definition expanduser :: "home_info \<Rightarrow> string \<Rightarrow> string" where
  "expanduser h path =
     (if path = [] \<or> hd path \<noteq> CHR ''~'' then path
      else
        let name = takeWhile (\<lambda>x. x \<noteq> CHR ''/'') (tl path);
            tail = dropWhile (\<lambda>x. x \<noteq> CHR ''/'') (tl path);
            home = (if name = [] then (if env_home h = None then uid_home h else env_home h)
                    else user_home h name)
        in (case home of None \<Rightarrow> path | Some d \<Rightarrow> home_join d tail))"

end
