(* ===== verification/Substitution.thy ===== *)
theory Substitution
  imports PyRuntime
begin

text \<open>
  The variable resolver, \<^verbatim>\<open>replace_with_variables\<close> of \<^verbatim>\<open>src/builder.py\<close>
  (lines 23--28): for every user variable and then for every computed variable, in
  dictionary order, each literal occurrence of \<^verbatim>\<open>{name}\<close> is replaced by the value.
  The spec's contract (\<open>\<section>\<close>4.1) is a single-pass, two-tier lookup: user
  variables first, computed variables second, no re-expansion of inserted text. That
  contract is stated over an abstract template, a list of literal chunks and
  placeholders, and the code is proved to refine it on templates whose braces all belong
  to placeholders and whose values hold no opening brace; outside these hypotheses the
  code re-expands inserted text, which the last group of lemmas shows.
\<close>

section \<open>The resolver\<close>

definition placeholder :: "string \<Rightarrow> string" where
  "placeholder k = CHR ''{'' # k @ ''}''"

text \<open>One loop of \<^verbatim>\<open>replace_with_variables\<close>: \<^verbatim>\<open>for v in d: value =
  str(value).replace('{' + v + '}', d[v])\<close>.\<close>

fun subst_vars :: "sdict \<Rightarrow> string \<Rightarrow> string" where
  "subst_vars [] s = s"
| "subst_vars (kv # d) s = subst_vars d (str_replace (placeholder (fst kv)) (snd kv) s)"

definition replace_with_variables :: "string \<Rightarrow> sdict \<Rightarrow> sdict \<Rightarrow> string" where
  "replace_with_variables value variables user_variables =
     subst_vars variables (subst_vars user_variables value)"

section \<open>The contract: single-pass, two-tier lookup\<close>

datatype tpart = Lit string | Ph string

definition braces_free :: "string \<Rightarrow> bool" where
  "braces_free k \<longleftrightarrow> CHR ''{'' \<notin> set k \<and> CHR ''}'' \<notin> set k"

fun render_part :: "tpart \<Rightarrow> string" where
  "render_part (Lit s) = s"
| "render_part (Ph k) = placeholder k"

definition render :: "tpart list \<Rightarrow> string" where
  "render ps = concat (map render_part ps)"

text \<open>A template is well formed when literal text holds no opening brace and every
  placeholder name is free of braces.\<close>

fun part_ok :: "tpart \<Rightarrow> bool" where
  "part_ok (Lit s) = (CHR ''{'' \<notin> set s)"
| "part_ok (Ph k) = braces_free k"

definition lookup2 :: "sdict \<Rightarrow> sdict \<Rightarrow> string \<Rightarrow> string option" where
  "lookup2 user vars k = (case map_of user k of Some u \<Rightarrow> Some u | None \<Rightarrow> map_of vars k)"

fun expand_part :: "(string \<Rightarrow> string option) \<Rightarrow> tpart \<Rightarrow> string" where
  "expand_part look (Lit s) = s"
| "expand_part look (Ph k) = (case look k of Some v \<Rightarrow> v | None \<Rightarrow> placeholder k)"

definition resolve_spec :: "sdict \<Rightarrow> sdict \<Rightarrow> tpart list \<Rightarrow> string" where
  "resolve_spec user vars ps = concat (map (expand_part (lookup2 user vars)) ps)"

text \<open>A dictionary is admissible for the contract when its names are free of braces and
  its values hold no opening brace.\<close>

definition dict_ok :: "sdict \<Rightarrow> bool" where
  "dict_ok d \<longleftrightarrow> list_all (\<lambda>kv. braces_free (fst kv) \<and> CHR ''{'' \<notin> set (snd kv)) d"

section \<open>Refinement\<close>

lemma placeholder_ne [simp]: "placeholder k \<noteq> []"
  by (simp add: placeholder_def)

lemma hd_placeholder [simp]: "hd (placeholder k) = CHR ''{''"
  by (simp add: placeholder_def)

lemma placeholder_eq_prefix:
  assumes "braces_free k" "braces_free k'"
    and "take (length (placeholder k)) (CHR ''{'' # (k' @ ''}'' @ r)) = placeholder k"
  shows "k = k'"
proof -
  from assms(3) have "take (Suc (length k)) (k' @ CHR ''}'' # r) = k @ [CHR ''}'']"
    unfolding placeholder_def by simp
  with assms(1,2) show ?thesis
    unfolding braces_free_def by (rule_tac take_sep_prefix) auto
qed

text \<open>One pass over a placeholder: its own name is replaced, any other name is copied.\<close>

lemma str_replace_placeholder:
  assumes "braces_free k" "braces_free k'"
  shows "str_replace (placeholder k) v (placeholder k' @ r) =
           (if k = k' then v else placeholder k') @ str_replace (placeholder k) v r"
proof (cases "k = k'")
  case True
  have "str_replace (placeholder k) v (placeholder k @ r) = v @ str_replace (placeholder k) v r"
    by (rule str_replace_hit) simp
  with True show ?thesis by simp
next
  case False
  have ne: "take (length (placeholder k)) (CHR ''{'' # (k' @ ''}'' @ r)) \<noteq> placeholder k"
    using assms False placeholder_eq_prefix by blast
  have skip: "str_replace (placeholder k) v ((k' @ ''}'') @ r) = (k' @ ''}'') @ str_replace (placeholder k) v r"
    using assms by (intro str_replace_skip) (auto simp: braces_free_def)
  have "str_replace (placeholder k) v (CHR ''{'' # ((k' @ ''}'') @ r)) =
          CHR ''{'' # str_replace (placeholder k) v ((k' @ ''}'') @ r)"
    using ne by (intro str_replace_miss) simp_all
  with skip False show ?thesis by (simp add: placeholder_def)
qed

fun subst_part :: "string \<Rightarrow> string \<Rightarrow> tpart \<Rightarrow> tpart" where
  "subst_part k v (Ph k') = (if k = k' then Lit v else Ph k')"
| "subst_part k v (Lit s) = Lit s"

lemma str_replace_render:
  assumes "list_all part_ok ps" "braces_free k"
  shows "str_replace (placeholder k) v (render ps) = render (map (subst_part k v) ps)"
  using assms(1)
proof (induction ps)
  case Nil
  then show ?case by (simp add: render_def)
next
  case (Cons p ps)
  then have IH: "str_replace (placeholder k) v (render ps) = render (map (subst_part k v) ps)"
    by simp
  show ?case
  proof (cases p)
    case (Lit s)
    with Cons.prems have "CHR ''{'' \<notin> set s" by simp
    then have "str_replace (placeholder k) v (s @ render ps) = s @ str_replace (placeholder k) v (render ps)"
      by (intro str_replace_skip) simp_all
    with Lit IH show ?thesis by (simp add: render_def)
  next
    case (Ph k')
    with Cons.prems assms(2) have "str_replace (placeholder k) v (placeholder k' @ render ps) =
        (if k = k' then v else placeholder k') @ str_replace (placeholder k) v (render ps)"
      by (intro str_replace_placeholder) simp_all
    with Ph IH show ?thesis by (simp add: render_def)
  qed
qed

fun resolve_part :: "sdict \<Rightarrow> tpart \<Rightarrow> tpart" where
  "resolve_part d (Ph k) = (case map_of d k of Some v \<Rightarrow> Lit v | None \<Rightarrow> Ph k)"
| "resolve_part d (Lit s) = Lit s"

lemma part_ok_subst_part:
  "part_ok p \<Longrightarrow> CHR ''{'' \<notin> set v \<Longrightarrow> part_ok (subst_part k v p)"
  by (cases p) simp_all

lemma resolve_part_Cons:
  "resolve_part (kv # d) p = resolve_part d (subst_part (fst kv) (snd kv) p)"
  by (cases p) auto

text \<open>A whole loop of the resolver rewrites each placeholder to its first value in the
  dictionary, once.\<close>

lemma subst_vars_render:
  assumes "list_all part_ok ps" "dict_ok d"
  shows "subst_vars d (render ps) = render (map (resolve_part d) ps)"
  using assms
proof (induction d arbitrary: ps)
  case Nil
  have "resolve_part [] p = p" for p by (cases p) simp_all
  then show ?case by simp
next
  case (Cons kv d)
  then have ok: "braces_free (fst kv)" "CHR ''{'' \<notin> set (snd kv)" "dict_ok d"
    by (simp_all add: dict_ok_def)
  have "subst_vars (kv # d) (render ps) = subst_vars d (render (map (subst_part (fst kv) (snd kv)) ps))"
    using Cons.prems(1) ok(1) by (simp add: str_replace_render)
  also have "\<dots> = render (map (resolve_part d) (map (subst_part (fst kv) (snd kv)) ps))"
    using Cons.prems(1) ok by (intro Cons.IH) (auto simp: list_all_iff intro: part_ok_subst_part)
  finally show ?case by (simp add: resolve_part_Cons comp_def)
qed

lemma dict_ok_map_of:
  "dict_ok d \<Longrightarrow> map_of d k = Some v \<Longrightarrow> CHR ''{'' \<notin> set v"
  by (auto simp: dict_ok_def list_all_iff dest!: map_of_SomeD)

lemma resolve_part_ok:
  "part_ok p \<Longrightarrow> dict_ok d \<Longrightarrow> part_ok (resolve_part d p)"
  by (cases p) (auto dest: dict_ok_map_of split: option.splits)

lemma render_resolve_twice:
  "render (map (resolve_part vars) (map (resolve_part user) ps)) = resolve_spec user vars ps"
proof -
  have "render_part (resolve_part vars (resolve_part user p)) = expand_part (lookup2 user vars) p" for p
    by (cases p) (auto simp: lookup2_def split: option.splits)
  then show ?thesis by (simp add: render_def resolve_spec_def comp_def)
qed

lemma subst_vars_no_brace:
  "CHR ''{'' \<notin> set t \<Longrightarrow> subst_vars d t = t"
  by (induction d) (simp_all add: str_replace_absent)

text \<open>The two loops on a well-formed template: the user pass resolves the user names and
  leaves a well-formed template, which the computed pass then resolves.\<close>

lemma replace_render_resolve:
  assumes "list_all part_ok ps" "dict_ok user" "dict_ok vars"
  shows "replace_with_variables (render ps) vars user = resolve_spec user vars ps"
proof -
  have "subst_vars user (render ps) = render (map (resolve_part user) ps)"
    using assms(1,2) by (rule subst_vars_render)
  moreover have "list_all part_ok (map (resolve_part user) ps)"
    using assms(1,2) by (auto simp: list_all_iff intro: resolve_part_ok)
  ultimately have "replace_with_variables (render ps) vars user =
      render (map (resolve_part vars) (map (resolve_part user) ps))"
    using assms(3) by (simp add: replace_with_variables_def subst_vars_render)
  with render_resolve_twice [of vars user ps] show ?thesis by simp
qed

section \<open>Properties of the resolver\<close>

text \<open>C7: on a template whose braces all belong to placeholders with brace-free names, and
  with user and computed values free of opening braces, \<^verbatim>\<open>replace_with_variables\<close>
  is the spec's single-pass two-tier substitution: each \<^verbatim>\<open>{name}\<close> becomes the user
  value if there is one, else the computed value, else stays as it is.\<close>

theorem replace_refines_spec:
  assumes "list_all part_ok ps" "dict_ok user" "dict_ok vars"
  shows "replace_with_variables (render ps) vars user = resolve_spec user vars ps"
  using assms by (rule replace_render_resolve)

theorem replace_refines_spec_witness:
  "list_all part_ok [Lit ''/home/'', Ph ''os'', Lit ''/'', Ph ''bt''] \<and>
   dict_ok [(''os'', ''mac'')] \<and> dict_ok [(''os'', ''linux''), (''bt'', ''Release'')] \<and>
   replace_with_variables (render [Lit ''/home/'', Ph ''os'', Lit ''/'', Ph ''bt''])
     [(''os'', ''linux''), (''bt'', ''Release'')] [(''os'', ''mac'')] = ''/home/mac/Release''"
proof -
  have ok: "list_all part_ok [Lit ''/home/'', Ph ''os'', Lit ''/'', Ph ''bt'']"
    "dict_ok [(''os'', ''mac'')]" "dict_ok [(''os'', ''linux''), (''bt'', ''Release'')]"
    by (simp_all add: dict_ok_def braces_free_def)
  from replace_refines_spec [OF ok] ok show ?thesis
    by (simp add: resolve_spec_def lookup2_def placeholder_def)
qed

text \<open>C11: a template without an opening brace is returned unchanged, whatever the
  variables.\<close>

theorem replace_no_placeholder:
  "CHR ''{'' \<notin> set t \<Longrightarrow> replace_with_variables t vars user = t"
  by (simp add: replace_with_variables_def subst_vars_no_brace)

theorem replace_no_placeholder_witness:
  "CHR ''{'' \<notin> set ''make -j4'' \<and>
   replace_with_variables ''make -j4'' [(''os'', ''fedora'')] [(''j'', ''8'')] = ''make -j4''"
  using replace_no_placeholder [of "''make -j4''" "[(''os'', ''fedora'')]" "[(''j'', ''8'')]"]
  by simp

text \<open>C12: substitution is not single-pass. A computed value that holds the placeholder of
  a later computed variable is expanded again, so the spec's own example
  \<open>{a: "{b}", b: "X"}\<close> resolves \<^verbatim>\<open>{a}\<close> to \<^verbatim>\<open>X\<close>, not to
  \<^verbatim>\<open>{b}\<close>.\<close>

theorem replace_reexpands_later:
  assumes "braces_free a" "braces_free b" "a \<noteq> b" "CHR ''{'' \<notin> set x"
  shows "replace_with_variables (placeholder a) [(a, placeholder b), (b, x)] [] = x"
proof -
  have "str_replace (placeholder a) (placeholder b) (placeholder a @ []) = placeholder b @ []"
    using str_replace_placeholder [OF assms(1,1), of "placeholder b" "[]"] by simp
  moreover have "str_replace (placeholder b) x (placeholder b @ []) = x @ []"
    using str_replace_placeholder [OF assms(2,2), of x "[]"] by simp
  moreover have "str_replace (placeholder b) x x = x"
    using assms(4) by (intro str_replace_absent) simp_all
  ultimately show ?thesis by (simp add: replace_with_variables_def)
qed

theorem replace_reexpands_later_witness:
  "replace_with_variables ''{a}'' [(''a'', ''{b}''), (''b'', ''X'')] [] = ''X''"
proof -
  have "replace_with_variables (placeholder ''a'') [(''a'', placeholder ''b''), (''b'', ''X'')] [] = ''X''"
    by (rule replace_reexpands_later) (simp_all add: braces_free_def)
  then show ?thesis by (simp add: placeholder_def)
qed

text \<open>C26: user variables are substituted again: a user value that holds the placeholder
  of a computed variable is expanded by the second loop, although the spec
  (\<open>\<section>\<close>3) says user variables are never themselves substituted.\<close>

theorem replace_user_value_reexpanded:
  assumes "braces_free a" "braces_free b" "CHR ''{'' \<notin> set x"
  shows "replace_with_variables (placeholder a) [(b, x)] [(a, placeholder b)] = x"
proof -
  have "str_replace (placeholder a) (placeholder b) (placeholder a @ []) = placeholder b @ []"
    using str_replace_placeholder [OF assms(1,1), of "placeholder b" "[]"] by simp
  moreover have "str_replace (placeholder b) x (placeholder b @ []) = x @ []"
    using str_replace_placeholder [OF assms(2,2), of x "[]"] by simp
  ultimately show ?thesis by (simp add: replace_with_variables_def)
qed

theorem replace_user_value_reexpanded_witness:
  "replace_with_variables ''{tc}'' [(''bt'', ''Release'')] [(''tc'', ''{bt}'')] = ''Release''"
proof -
  have "replace_with_variables (placeholder ''tc'') [(''bt'', ''Release'')] [(''tc'', placeholder ''bt'')] = ''Release''"
    by (rule replace_user_value_reexpanded) (simp_all add: braces_free_def)
  then show ?thesis by (simp add: placeholder_def)
qed

end
