(* ===== verification/Config.thy ===== *)
theory Config
  imports Substitution
begin

text \<open>
  The configuration extractor of \<^verbatim>\<open>src/builder.py\<close>: \<^verbatim>\<open>extract_variables\<close>
  (lines 31--35) and \<^verbatim>\<open>extract_environment\<close> (lines 38--42). Both take a node of
  the loaded YAML document; if the node has the key, every entry of the mapping under it
  is resolved with \<^const>\<open>replace_with_variables\<close> and stored, in declaration order, into
  the target dictionary, which the Python code mutates in place and returns. Here the
  target's new contents are returned; the orchestrator stores them back into the one
  dictionary object the code aliases. A malformed node raises \<^verbatim>\<open>TypeError\<close>.
\<close>

section \<open>Operations\<close>

text \<open>The loop of \<^verbatim>\<open>extract_variables\<close>: each value is resolved against the
  variables stored so far, including those of this node declared before it.\<close>

fun store_variables :: "(string \<times> yaml) list \<Rightarrow> sdict \<Rightarrow> sdict \<Rightarrow> sdict" where
  "store_variables [] variables user_variables = variables"
| "store_variables (kv # kvs) variables user_variables =
     store_variables kvs
       (AList.update (fst kv) (replace_with_variables (py_str (snd kv)) variables user_variables) variables)
       user_variables"

text \<open>The loop of \<^verbatim>\<open>extract_environment\<close>: values are resolved against the
  variables, never against the environment being built.\<close>

fun store_environment :: "(string \<times> yaml) list \<Rightarrow> sdict \<Rightarrow> sdict \<Rightarrow> sdict \<Rightarrow> sdict" where
  "store_environment [] environment variables user_variables = environment"
| "store_environment (kv # kvs) environment variables user_variables =
     store_environment kvs
       (AList.update (fst kv) (replace_with_variables (py_str (snd kv)) variables user_variables) environment)
       variables user_variables"

text \<open>\<^verbatim>\<open>if key in root: for var in root[key]: ...\<close>: the entries under a key, none
  when the key is absent.\<close>

definition node_entries :: "string \<Rightarrow> yaml \<Rightarrow> pyexc + (string \<times> yaml) list option" where
  "node_entries key root =
     (case py_contains key root of
        Inl e \<Rightarrow> Inl e
      | Inr False \<Rightarrow> Inr None
      | Inr True \<Rightarrow>
          (case py_getitem root (YStr key) of
             Inl e \<Rightarrow> Inl e
           | Inr node \<Rightarrow> map_sum id Some (py_items node)))"

definition extract_variables :: "yaml \<Rightarrow> sdict \<Rightarrow> sdict \<Rightarrow> pyexc + sdict" where
  "extract_variables root variables user_variables =
     (case node_entries ''variables'' root of
        Inl e \<Rightarrow> Inl e
      | Inr None \<Rightarrow> Inr variables
      | Inr (Some kvs) \<Rightarrow> Inr (store_variables kvs variables user_variables))"

definition extract_environment :: "yaml \<Rightarrow> sdict \<Rightarrow> sdict \<Rightarrow> sdict \<Rightarrow> pyexc + sdict" where
  "extract_environment root environment variables user_variables =
     (case node_entries ''environment'' root of
        Inl e \<Rightarrow> Inl e
      | Inr None \<Rightarrow> Inr environment
      | Inr (Some kvs) \<Rightarrow> Inr (store_environment kvs environment variables user_variables))"

section \<open>Characteristic equations\<close>

lemma node_entries_absent:
  "key \<notin> set (map fst kvs) \<Longrightarrow> node_entries key (YMap kvs) = Inr None"
  by (simp add: node_entries_def)

lemma node_entries_present:
  assumes "map_of kvs key = Some (YMap ents)" "distinct (map fst ents)"
  shows "node_entries key (YMap kvs) = Inr (Some ents)"
proof -
  have "key \<in> fst ` set kvs" using map_of_SomeD [OF assms(1)] by force
  with assms show ?thesis by (simp add: node_entries_def py_items_YMap)
qed

lemma extract_variables_Some:
  "node_entries ''variables'' root = Inr (Some kvs) \<Longrightarrow>
     extract_variables root variables user = Inr (store_variables kvs variables user)"
  by (simp add: extract_variables_def)

lemma extract_environment_Some:
  "node_entries ''environment'' root = Inr (Some kvs) \<Longrightarrow>
     extract_environment root env variables user = Inr (store_environment kvs env variables user)"
  by (simp add: extract_environment_def)

section \<open>Order and frame\<close>

text \<open>The key order of a dictionary after storing a list of keys: a key already present
  keeps its place, a new key goes to the end.\<close>

definition keys_after :: "string list \<Rightarrow> string list \<Rightarrow> string list" where
  "keys_after ks0 ks = fold (\<lambda>k acc. if k \<in> set acc then acc else acc @ [k]) ks ks0"

lemma dict_keys_store_variables:
  "dict_keys (store_variables kvs vars user) = keys_after (dict_keys vars) (map fst kvs)"
  by (induction kvs arbitrary: vars) (simp_all add: keys_after_def dict_keys_update)

lemma dict_keys_store_environment:
  "dict_keys (store_environment kvs env vars user) = keys_after (dict_keys env) (map fst kvs)"
  by (induction kvs arbitrary: env) (simp_all add: keys_after_def dict_keys_update)

lemma distinct_store_variables [dict_simps]:
  "distinct (dict_keys vars) \<Longrightarrow> distinct (dict_keys (store_variables kvs vars user))"
  by (induction kvs arbitrary: vars) (simp_all add: distinct_dict_keys_update)

lemma distinct_store_environment [dict_simps]:
  "distinct (dict_keys env) \<Longrightarrow> distinct (dict_keys (store_environment kvs env vars user))"
  by (induction kvs arbitrary: env) (simp_all add: distinct_dict_keys_update)

lemma store_variables_nonempty [dict_simps]:
  "vars \<noteq> [] \<Longrightarrow> store_variables kvs vars user \<noteq> []"
  by (induction kvs arbitrary: vars) (simp_all add: dict_update_nonempty)

lemma map_of_store_environment:
  "map_of (store_environment kvs env vars user) k =
     (case map_of (rev kvs) k of
        Some v \<Rightarrow> Some (replace_with_variables (py_str v) vars user)
      | None \<Rightarrow> map_of env k)"
  by (induction kvs arbitrary: env)
     (auto simp: map_of_dict_update map_of_append split: option.splits)

lemma keys_after_prefix: "\<exists>ks. keys_after ks0 l = ks0 @ ks"
proof (induction l arbitrary: ks0)
  case Nil then show ?case by (simp add: keys_after_def)
next
  case (Cons k l)
  obtain ks where "keys_after (if k \<in> set ks0 then ks0 else ks0 @ [k]) l =
      (if k \<in> set ks0 then ks0 else ks0 @ [k]) @ ks"
    using Cons.IH by blast
  then show ?case by (auto simp: keys_after_def)
qed

lemma store_variables_snoc:
  "store_variables (kvs @ [(k, v)]) vars user =
     AList.update k (replace_with_variables (py_str v) (store_variables kvs vars user) user) (store_variables kvs vars user)"
  by (induction kvs arbitrary: vars) simp_all

lemma extract_variables_cases:
  "extract_variables root vars user = Inr vars' \<Longrightarrow>
     vars' = vars \<or> (\<exists>kvs. vars' = store_variables kvs vars user)"
  by (auto simp: extract_variables_def split: sum.splits option.splits)

section \<open>Properties of the extractor\<close>

text \<open>C20: declarations are resolved in order, each against the variables stored so far:
  adding a declaration \<open>k: v\<close> at the end of a document's \<^verbatim>\<open>variables\<close> mapping
  stores \<open>k\<close> with \<open>v\<close> resolved against the result of the declarations before it,
  whatever the other keys of the document. The spec's extractor resolves every
  declaration against the scope it was given.\<close>

theorem extract_variables_declaration_order:
  assumes "distinct (map fst (kvs @ [(k, v)]))"
  shows "extract_variables (YMap ((''variables'', YMap (kvs @ [(k, v)])) # rs)) vars user =
     map_sum id (\<lambda>vars1. AList.update k (replace_with_variables (py_str v) vars1 user) vars1)
       (extract_variables (YMap ((''variables'', YMap kvs) # rs)) vars user)"
proof -
  have "node_entries ''variables'' (YMap ((''variables'', YMap (kvs @ [(k, v)])) # rs)) = Inr (Some (kvs @ [(k, v)]))"
    using assms by (intro node_entries_present) simp_all
  moreover have "node_entries ''variables'' (YMap ((''variables'', YMap kvs) # rs)) = Inr (Some kvs)"
    using assms by (intro node_entries_present) simp_all
  ultimately show ?thesis by (simp add: extract_variables_Some store_variables_snoc)
qed

theorem extract_variables_declaration_order_witness:
  "distinct (map fst ([(''a'', YInt 1)] @ [(''b'', YStr ''{a}2'')])) \<and>
   extract_variables (YMap [(''variables'', YMap ([(''a'', YInt 1)] @ [(''b'', YStr ''{a}2'')]))]) [] [] =
     Inr [(''a'', ''1''), (''b'', ''12'')]"
proof -
  have h: "distinct (map fst ([(''a'', YInt 1)] @ [(''b'', YStr ''{a}2'')]))" by simp
  have p: "node_entries ''variables'' (YMap [(''variables'', YMap [(''a'', YInt 1)])]) = Inr (Some [(''a'', YInt 1)])"
    by (rule node_entries_present) simp_all
  have "extract_variables (YMap [(''variables'', YMap [(''a'', YInt 1)])]) [] [] = Inr [(''a'', ''1'')]"
    by (simp add: extract_variables_Some [OF p] replace_with_variables_def int_str_def digit_char_def
        char_of_def bit_simps)
  with extract_variables_declaration_order [OF h, of "[]" "[]" "[]"] h show ?thesis
    by (simp add: replace_with_variables_def placeholder_def str_replace_Cons)
qed

text \<open>C21: a node without a \<^verbatim>\<open>variables\<close> key leaves the variables as they are.\<close>

theorem extract_variables_absent:
  "''variables'' \<notin> set (map fst kvs) \<Longrightarrow> extract_variables (YMap kvs) vars user = Inr vars"
  by (simp add: extract_variables_def node_entries_absent)

theorem extract_variables_absent_witness:
  "''variables'' \<notin> set (map fst [(''path'', YStr ''/tmp'')]) \<and>
   extract_variables (YMap [(''path'', YStr ''/tmp'')]) [(''os'', ''fedora'')] [] = Inr [(''os'', ''fedora'')]"
  using extract_variables_absent [of "[(''path'', YStr ''/tmp'')]" "[(''os'', ''fedora'')]" "[]"]
  by simp

text \<open>C22: extraction keeps the dictionary well formed and its order stable: keys stay
  distinct, keys already present keep their places, new keys follow them.\<close>

theorem extract_variables_keys:
  assumes "distinct (dict_keys vars)" "extract_variables root vars user = Inr vars'"
  shows "distinct (dict_keys vars') \<and> (\<exists>ks. dict_keys vars' = dict_keys vars @ ks)"
  using extract_variables_cases [OF assms(2)]
proof
  assume "vars' = vars"
  with assms(1) show ?thesis by auto
next
  assume "\<exists>kvs. vars' = store_variables kvs vars user"
  then obtain kvs where v: "vars' = store_variables kvs vars user" by blast
  have "distinct (dict_keys vars')"
    unfolding v by (rule distinct_store_variables [OF assms(1)])
  moreover have "\<exists>ks. dict_keys vars' = dict_keys vars @ ks"
    unfolding v dict_keys_store_variables by (rule keys_after_prefix)
  ultimately show ?thesis ..
qed

theorem extract_variables_keys_witness:
  "distinct (dict_keys [(''os'', ''fedora''), (''bt'', ''Release'')]) \<and>
   extract_variables (YMap [(''variables'', YMap [(''bt'', YStr ''Debug''), (''x'', YStr ''1'')])])
     [(''os'', ''fedora''), (''bt'', ''Release'')] [] =
     Inr [(''os'', ''fedora''), (''bt'', ''Debug''), (''x'', ''1'')] \<and>
   distinct (dict_keys [(''os'', ''fedora''), (''bt'', ''Debug''), (''x'', ''1'')]) \<and>
   (\<exists>ks. dict_keys [(''os'', ''fedora''), (''bt'', ''Debug''), (''x'', ''1'')] =
      dict_keys [(''os'', ''fedora''), (''bt'', ''Release'')] @ ks)"
proof -
  have d: "distinct (dict_keys [(''os'', ''fedora''), (''bt'', ''Release'')])"
    by (simp add: dict_keys_def)
  have e: "extract_variables (YMap [(''variables'', YMap [(''bt'', YStr ''Debug''), (''x'', YStr ''1'')])])
     [(''os'', ''fedora''), (''bt'', ''Release'')] [] =
     Inr [(''os'', ''fedora''), (''bt'', ''Debug''), (''x'', ''1'')]"
    by (simp add: extract_variables_def node_entries_def py_items_def replace_with_variables_def
        placeholder_def str_replace_Cons)
  from extract_variables_keys [OF d e] d e show ?thesis by simp
qed

text \<open>C23: \<^verbatim>\<open>extract_environment\<close> stores, for every declared name, its last
  declared template resolved against the variables (never against the environment);
  names it does not declare keep their values.\<close>

theorem extract_environment_lookup:
  assumes "node_entries ''environment'' root = Inr (Some kvs)"
    and "extract_environment root env vars user = Inr env'"
  shows "map_of env' k =
       (case map_of (rev kvs) k of
          Some v \<Rightarrow> Some (replace_with_variables (py_str v) vars user)
        | None \<Rightarrow> map_of env k)"
proof -
  from assms have "env' = store_environment kvs env vars user"
    by (simp add: extract_environment_Some)
  then show ?thesis by (simp only: map_of_store_environment)
qed

theorem extract_environment_lookup_witness:
  "node_entries ''environment'' (YMap [(''environment'', YMap [(''CC'', YStr ''gcc-{os}'')])]) =
     Inr (Some [(''CC'', YStr ''gcc-{os}'')]) \<and>
   extract_environment (YMap [(''environment'', YMap [(''CC'', YStr ''gcc-{os}'')])])
     [(''CC'', ''clang''), (''HOME'', ''/root'')] [(''os'', ''fedora'')] [] =
     Inr [(''CC'', ''gcc-fedora''), (''HOME'', ''/root'')] \<and>
   map_of [(''CC'', ''gcc-fedora''), (''HOME'', ''/root'')] ''CC'' =
     Some (replace_with_variables (py_str (YStr ''gcc-{os}'')) [(''os'', ''fedora'')] [])"
proof -
  have n: "node_entries ''environment'' (YMap [(''environment'', YMap [(''CC'', YStr ''gcc-{os}'')])]) =
     Inr (Some [(''CC'', YStr ''gcc-{os}'')])"
    by (rule node_entries_present) simp_all
  have e: "extract_environment (YMap [(''environment'', YMap [(''CC'', YStr ''gcc-{os}'')])])
     [(''CC'', ''clang''), (''HOME'', ''/root'')] [(''os'', ''fedora'')] [] =
     Inr [(''CC'', ''gcc-fedora''), (''HOME'', ''/root'')]"
    using n by (simp add: extract_environment_Some replace_with_variables_def placeholder_def
        str_replace_Cons)
  from extract_environment_lookup [OF n e, of "''CC''"] n e show ?thesis by simp
qed

end
