(* ===== verification/Steps.thy ===== *)
theory Steps
  imports Config
begin

text \<open>
  The step planner of \<^verbatim>\<open>src/builder.py\<close>: \<^verbatim>\<open>banner\<close> (lines 16--20),
  \<^verbatim>\<open>get_build_steps\<close> and \<^verbatim>\<open>get_test_steps\<close> (lines 54--67, defined but never
  called by \<^verbatim>\<open>main\<close>), and the loop that \<^verbatim>\<open>build\<close> and \<^verbatim>\<open>test\<close> run to
  assemble one shell command from a phase's steps (lines 87--95 and 107--115): each step
  is resolved, preceded by its banner and chained with \<^verbatim>\<open>&&\<close>, and the tokens are
  joined with spaces. The shell that runs the string is not part of the program: the
  theorems describe the string, and the quoting of the banner, which decides how a shell
  splits it.
\<close>

section \<open>Banner\<close>

text \<open>The two characters \<^verbatim>\<open>\n\<close> that the Python literal \<^verbatim>\<open>'\\n'\<close> denotes;
  \<^verbatim>\<open>echo -e\<close> turns them into a line break.\<close>

definition esc_n :: string where
  "esc_n = [bslash, CHR ''n'']"

definition banner_title :: "string \<Rightarrow> string" where
  "banner_title text = (if length text > 110 then take 110 text else text)"

definition banner_sep :: "string \<Rightarrow> string" where
  "banner_sep t = ''########'' @ map (\<lambda>_. CHR ''#'') t"

definition banner :: "string \<Rightarrow> string" where
  "banner text =
     (let t = banner_title text; sep = banner_sep t
      in ''echo -e '' @ [squote] @ esc_n @ sep @ esc_n @ ''### '' @ t @ '' ###'' @ esc_n @ sep @ esc_n @ [squote])"

section \<open>Steps of a phase\<close>

text \<open>\<^verbatim>\<open>get_build_steps\<close> / \<^verbatim>\<open>get_test_steps\<close>: the items under the key, none
  when it is absent.\<close>

definition get_steps :: "string \<Rightarrow> yaml \<Rightarrow> pyexc + yaml list" where
  "get_steps key root =
     (case py_contains key root of
        Inl e \<Rightarrow> Inl e
      | Inr False \<Rightarrow> Inr []
      | Inr True \<Rightarrow> (case py_getitem root (YStr key) of Inl e \<Rightarrow> Inl e | Inr node \<Rightarrow> py_iter node))"

definition get_build_steps :: "yaml \<Rightarrow> pyexc + yaml list" where
  "get_build_steps root = get_steps ''build'' root"

definition get_test_steps :: "yaml \<Rightarrow> pyexc + yaml list" where
  "get_test_steps root = get_steps ''test'' root"

section \<open>The command of a phase\<close>

text \<open>One iteration of the loop in \<^verbatim>\<open>build\<close>/\<^verbatim>\<open>test\<close>: \<^verbatim>\<open>if len(cmd) > 0:
  cmd.append('&&')\<close>, then the banner, \<^verbatim>\<open>&&\<close> and the step.\<close>

definition add_step :: "string list \<Rightarrow> string \<Rightarrow> string list" where
  "add_step cmd step = (if length cmd > 0 then cmd @ [''&&''] else cmd) @ [banner step, ''&&'', step]"

fun pipeline_loop :: "yaml list \<Rightarrow> sdict \<Rightarrow> sdict \<Rightarrow> string list \<Rightarrow> string list" where
  "pipeline_loop [] variables user_variables cmd = cmd"
| "pipeline_loop (st # sts) variables user_variables cmd =
     pipeline_loop sts variables user_variables
       (add_step cmd (replace_with_variables (py_str st) variables user_variables))"

definition pipeline_command :: "yaml list \<Rightarrow> sdict \<Rightarrow> sdict \<Rightarrow> string" where
  "pipeline_command steps variables user_variables =
     py_join '' '' (pipeline_loop steps variables user_variables [])"

section \<open>Reference: the commands of a phase\<close>

text \<open>The commands a phase runs, in order: the banner of each resolved step, then the
  step.\<close>

definition phase_cmds :: "yaml list \<Rightarrow> sdict \<Rightarrow> sdict \<Rightarrow> string list" where
  "phase_cmds steps variables user_variables =
     concat (map (\<lambda>st. let s = replace_with_variables (py_str st) variables user_variables in [banner s, s]) steps)"

fun sep_list :: "'a \<Rightarrow> 'a list \<Rightarrow> 'a list" where
  "sep_list s [] = []"
| "sep_list s [x] = [x]"
| "sep_list s (x # y # xs) = x # s # sep_list s (y # xs)"

section \<open>The loop builds the separated command list\<close>

lemma add_step_nonempty [simp]: "add_step cmd s \<noteq> []"
  by (simp add: add_step_def)

lemma pipeline_loop_acc:
  "cmd \<noteq> [] \<Longrightarrow> pipeline_loop sts v u cmd =
     cmd @ concat (map (\<lambda>st. let s = replace_with_variables (py_str st) v u in [''&&'', banner s, ''&&'', s]) sts)"
  by (induction sts arbitrary: cmd) (simp_all add: add_step_def Let_def)

lemma sep_list_Cons: "sep_list s (x # xs) = x # concat (map (\<lambda>y. [s, y]) xs)"
  by (induction xs arbitrary: x) simp_all

lemma pipeline_loop_sep_list:
  "pipeline_loop sts v u [] = sep_list ''&&'' (phase_cmds sts v u)"
proof (cases sts)
  case Nil
  then show ?thesis by (simp add: phase_cmds_def)
next
  case (Cons st rest)
  have "concat (map (\<lambda>y. [''&&'', y]) (concat (map (\<lambda>st. let s = replace_with_variables (py_str st) v u in [banner s, s]) rest))) =
        concat (map (\<lambda>st. let s = replace_with_variables (py_str st) v u in [''&&'', banner s, ''&&'', s]) rest)"
    by (induction rest) (simp_all add: Let_def)
  with Cons show ?thesis
    by (simp add: phase_cmds_def pipeline_loop_acc sep_list_Cons add_step_def Let_def)
qed

lemma sep_list_nonempty: "xs \<noteq> [] \<Longrightarrow> sep_list s xs \<noteq> []"
  by (cases xs) (simp_all add: sep_list_Cons)

lemma py_join_sep_list:
  "py_join '' '' (sep_list ''&&'' xs) = py_join '' && '' xs"
  by (induction "''&&''" xs rule: sep_list.induct) (simp_all add: py_join_Cons sep_list_nonempty)

section \<open>Commands of a phase\<close>

lemma phase_cmds_append [simp]:
  "phase_cmds (xs @ ys) v u = phase_cmds xs v u @ phase_cmds ys v u"
  by (simp add: phase_cmds_def)

lemma phase_cmds_Cons [simp]:
  "phase_cmds (st # sts) v u =
     banner (replace_with_variables (py_str st) v u) # replace_with_variables (py_str st) v u # phase_cmds sts v u"
  by (simp add: phase_cmds_def Let_def)

lemma phase_cmds_Nil [simp]: "phase_cmds [] v u = []"
  by (simp add: phase_cmds_def)

text \<open>A single-quoted shell word: the shell reads everything up to the next quote as
  literal text, so the word is the whole argument only if its body holds no quote.\<close>

definition sq_word :: "string \<Rightarrow> bool" where
  "sq_word w \<longleftrightarrow> 2 \<le> length w \<and> hd w = squote \<and> last w = squote \<and> squote \<notin> set (butlast (tl w))"

lemma banner_arg:
  "drop 8 (banner s) = squote # (esc_n @ banner_sep (banner_title s) @ esc_n @ ''### '' @ banner_title s @
     '' ###'' @ esc_n @ banner_sep (banner_title s) @ esc_n) @ [squote]"
  by (simp add: banner_def Let_def)

lemma squote_notin_banner_parts:
  "squote \<notin> set esc_n" "squote \<notin> set (banner_sep t)"
  by (auto simp: esc_n_def banner_sep_def)

section \<open>Properties of the step planner\<close>

text \<open>C6: the command string \<^verbatim>\<open>build\<close>/\<^verbatim>\<open>test\<close> assemble is the banner of each
  resolved step followed by the step, all joined by \<^verbatim>\<open> && \<close>, in step order;
  an empty step list gives the empty command.\<close>

theorem pipeline_command_eq:
  "pipeline_command steps v u = py_join '' && '' (phase_cmds steps v u)"
  by (simp add: pipeline_command_def pipeline_loop_sep_list py_join_sep_list)

text \<open>C24: the banner shows the step cut to its first 110 characters, between separator
  lines of \<^verbatim>\<open>#\<close> eight longer than the cut text; so a banner is
  \<open>42 + 3 * min (length s) 110\<close> characters long, at most 372, however long the step.\<close>

theorem banner_bounds:
  "banner s = ''echo -e '' @ [squote] @ esc_n @ replicate (8 + min (length s) 110) CHR ''#'' @ esc_n @
     ''### '' @ take 110 s @ '' ###'' @ esc_n @ replicate (8 + min (length s) 110) CHR ''#'' @ esc_n @ [squote] \<and>
   length (banner s) = 42 + 3 * min (length s) 110"
proof -
  have t: "banner_title s = take 110 s" by (simp add: banner_title_def)
  have "map (\<lambda>_. CHR ''#'') (take 110 s) = replicate (min (length s) 110) CHR ''#''"
    by (simp add: map_replicate_const)
  then have sep: "banner_sep (take 110 s) = replicate (8 + min (length s) 110) CHR ''#''"
    by (simp add: banner_sep_def replicate_add [symmetric] numeral_eq_Suc)
  have "banner s = ''echo -e '' @ [squote] @ esc_n @ replicate (8 + min (length s) 110) CHR ''#'' @ esc_n @
     ''### '' @ take 110 s @ '' ###'' @ esc_n @ replicate (8 + min (length s) 110) CHR ''#'' @ esc_n @ [squote]"
    by (simp only: banner_def Let_def sep t)
  moreover from this have "length (banner s) = 42 + 3 * min (length s) 110"
    by (simp add: esc_n_def)
  ultimately show ?thesis by blast
qed

text \<open>C25: the banner passes the title to \<^verbatim>\<open>echo\<close> inside single quotes
  without escaping: its argument is one quoted word exactly when the (cut) step holds no
  single quote, so a step such as \<^verbatim>\<open>echo "it's"\<close> breaks the quoting of the whole
  command.\<close>

theorem banner_quoting:
  "sq_word (drop 8 (banner s)) \<longleftrightarrow> squote \<notin> set (banner_title s)"
  by (simp only: banner_arg) (auto simp: sq_word_def squote_notin_banner_parts butlast_append)

end
