(* ===== verification/Cli.thy ===== *)
theory Cli
  imports PyRuntime
begin

text \<open>
  The command line of \<^verbatim>\<open>src/builder.py\<close>. The parser that
  \<^verbatim>\<open>main\<close> builds with \<^verbatim>\<open>argparse\<close> (lines 124--131) is library code: its
  result is the record \<open>cli\<close>, and \<open>default_cli\<close> holds the defaults it sets when
  an option is not given. The code that \<^verbatim>\<open>main\<close> runs on the result is modelled:
  \<^verbatim>\<open>get_system_name\<close> (lines 118--119) and the loop over the \<^verbatim>\<open>-v\<close> arguments
  (lines 134--138) that builds the user variables, raising \<^verbatim>\<open>IndexError\<close> on an
  argument without \<^verbatim>\<open>=\<close>.
\<close>

section \<open>Arguments and user variables\<close>

record cli =
  no_build :: bool
  test_flag :: bool
  variable :: "string list option"
  operating_system :: string
  build_type :: string

definition get_system_name :: string where
  "get_system_name = ''fedora''"

text \<open>The defaults of the argument parser: no flag, no \<^verbatim>\<open>-v\<close>, the system name and
  \<^verbatim>\<open>Release\<close>.\<close>

definition default_cli :: cli where
  "default_cli = \<lparr>no_build = False, test_flag = False, variable = None,
                  operating_system = get_system_name, build_type = ''Release''\<rparr>"

text \<open>\<^verbatim>\<open>s = v.split('=', 1); user_variables[s[0]] = str(s[1]).strip()\<close>.\<close>

fun parse_user_loop :: "string list \<Rightarrow> sdict \<Rightarrow> pyexc + sdict" where
  "parse_user_loop [] d = Inr d"
| "parse_user_loop (v # vs) d =
     (let s = split_once CHR ''='' v
      in if length s < 2 then Inl IndexError
         else parse_user_loop vs (AList.update (s ! 0) (py_strip (s ! 1)) d))"

definition parse_user_variables :: "string list option \<Rightarrow> pyexc + sdict" where
  "parse_user_variables vs = (case vs of None \<Rightarrow> Inr [] | Some xs \<Rightarrow> parse_user_loop xs [])"


text \<open>The two halves of a \<^verbatim>\<open>-v\<close> argument that holds \<^verbatim>\<open>=\<close>:
  \<^verbatim>\<open>s[0]\<close> and \<^verbatim>\<open>str(s[1]).strip()\<close>.\<close>

definition arg_name :: "string \<Rightarrow> string" where
  "arg_name v = takeWhile (\<lambda>c. c \<noteq> CHR ''='') v"

definition arg_value :: "string \<Rightarrow> string" where
  "arg_value v = py_strip (tl (dropWhile (\<lambda>c. c \<noteq> CHR ''='') v))"

section \<open>Lemmas\<close>

lemma parse_user_loop_step:
  "CHR ''='' \<in> set v \<Longrightarrow>
     parse_user_loop (v # vs) d = parse_user_loop vs (AList.update (arg_name v) (arg_value v) d)"
  by (simp add: split_once_def arg_name_def arg_value_def)

lemma parse_user_loop_ok:
  "list_all (\<lambda>v. CHR ''='' \<in> set v) vs \<Longrightarrow>
     parse_user_loop vs d = Inr (fold (\<lambda>v d. AList.update (arg_name v) (arg_value v) d) vs d)"
  by (induction vs arbitrary: d) (simp_all add: parse_user_loop_step del: parse_user_loop.simps(2))

lemma parse_user_loop_index_error:
  "v \<in> set vs \<Longrightarrow> CHR ''='' \<notin> set v \<Longrightarrow> parse_user_loop vs d = Inl IndexError"
proof (induction vs arbitrary: d)
  case Nil then show ?case by simp
next
  case (Cons x vs)
  show ?case
  proof (cases "CHR ''='' \<in> set x")
    case True
    with Cons show ?thesis by (auto simp: parse_user_loop_step simp del: parse_user_loop.simps(2))
  next
    case False
    then show ?thesis by (simp add: split_once_def)
  qed
qed

lemma arg_name_value_print:
  "CHR ''='' \<notin> set n \<Longrightarrow> arg_name (n @ CHR ''='' # v) = n \<and> arg_value (n @ CHR ''='' # v) = py_strip v"
  by (induction n) (auto simp: arg_name_def arg_value_def)

section \<open>Properties of the command line\<close>

text \<open>C18: the user variables are the \<^verbatim>\<open>-v\<close> arguments read as \<^verbatim>\<open>name=value\<close>,
  split at the first \<^verbatim>\<open>=\<close> with the value stripped of surrounding whitespace; when a
  name is given twice the last value wins, and the names are distinct.\<close>

theorem parse_user_variables_last_wins:
  assumes "list_all (\<lambda>v. CHR ''='' \<in> set v) vs"
  shows "\<exists>d. parse_user_variables (Some vs) = Inr d \<and> distinct (dict_keys d) \<and>
           (\<forall>n. map_of d n = (case filter (\<lambda>v. arg_name v = n) (rev vs) of
                                 [] \<Rightarrow> None | v # _ \<Rightarrow> Some (arg_value v)))"
proof -
  have "distinct (dict_keys (fold (\<lambda>v d. AList.update (arg_name v) (arg_value v) d) vs []))"
    by (rule distinct_fold_update) (simp add: dict_keys_def)
  with assms show ?thesis
    by (simp add: parse_user_variables_def parse_user_loop_ok map_of_fold_update split: list.split)
qed

theorem parse_user_variables_last_wins_witness:
  "list_all (\<lambda>v. CHR ''='' \<in> set v) [''a=1'', ''b= 2 '', ''a=x=y''] \<and>
   (\<exists>d. parse_user_variables (Some [''a=1'', ''b= 2 '', ''a=x=y'']) = Inr d \<and> distinct (dict_keys d) \<and>
      map_of d ''a'' = Some ''x=y'' \<and> map_of d ''b'' = Some ''2'' \<and> map_of d ''c'' = None)"
proof -
  have h: "list_all (\<lambda>v. CHR ''='' \<in> set v) [''a=1'', ''b= 2 '', ''a=x=y'']" by simp
  from parse_user_variables_last_wins [OF h] obtain d where
    d: "parse_user_variables (Some [''a=1'', ''b= 2 '', ''a=x=y'']) = Inr d" "distinct (dict_keys d)"
    and m: "\<forall>n. map_of d n = (case filter (\<lambda>v. arg_name v = n) (rev [''a=1'', ''b= 2 '', ''a=x=y'']) of
                                 [] \<Rightarrow> None | v # _ \<Rightarrow> Some (arg_value v))"
    by blast
  have "map_of d ''a'' = Some ''x=y'' \<and> map_of d ''b'' = Some ''2'' \<and> map_of d ''c'' = None"
    using m by (simp add: arg_name_def arg_value_def py_strip_def py_isspace_def)
  with h d show ?thesis by blast
qed

text \<open>C19: printing a dictionary of user variables as \<^verbatim>\<open>-v name=value\<close> arguments
  and parsing them back gives the dictionary, when its names hold no \<^verbatim>\<open>=\<close> and its
  values no surrounding whitespace.\<close>

theorem parse_user_variables_roundtrip:
  assumes "distinct (dict_keys d)"
    and "list_all (\<lambda>(n, v). CHR ''='' \<notin> set n \<and> py_strip v = v) d"
  shows "parse_user_variables (Some (map (\<lambda>(n, v). n @ ''='' @ v) d)) = Inr d"
proof -
  have "set (dict_keys d) \<inter> set (dict_keys acc) = {} \<Longrightarrow>
        parse_user_loop (map (\<lambda>(n, v). n @ ''='' @ v) d) acc = Inr (acc @ d)" for acc
    using assms
  proof (induction d arbitrary: acc)
    case Nil then show ?case by simp
  next
    case (Cons nv d)
    obtain n v where nv: "nv = (n, v)" by fastforce
    have "CHR ''='' \<in> set (n @ ''='' @ v)" by simp
    moreover have "n \<notin> set (dict_keys acc)" using Cons.prems(1) nv by (auto simp: dict_keys_def)
    moreover have "set (dict_keys d) \<inter> set (dict_keys (acc @ [(n, v)])) = {}"
      using Cons.prems(1,2) nv by (auto simp: dict_keys_def)
    ultimately show ?case
      using Cons.IH [of "acc @ [(n, v)]"] Cons.prems(2,3) nv
      by (simp add: parse_user_loop_step arg_name_value_print dict_update_fresh dict_keys_def
          del: parse_user_loop.simps(2))
  qed
  from this [of "[]"] show ?thesis by (simp add: parse_user_variables_def dict_keys_def)
qed

theorem parse_user_variables_roundtrip_witness:
  "distinct (dict_keys [(''os'', ''arch''), (''flags'', ''-O2 -g'')]) \<and>
   list_all (\<lambda>(n, v). CHR ''='' \<notin> set n \<and> py_strip v = v) [(''os'', ''arch''), (''flags'', ''-O2 -g'')] \<and>
   parse_user_variables (Some [''os=arch'', ''flags=-O2 -g'']) = Inr [(''os'', ''arch''), (''flags'', ''-O2 -g'')]"
proof -
  have h1: "distinct (dict_keys [(''os'', ''arch''), (''flags'', ''-O2 -g'')])"
    by (simp add: dict_keys_def)
  have h2: "list_all (\<lambda>(n, v). CHR ''='' \<notin> set n \<and> py_strip v = v) [(''os'', ''arch''), (''flags'', ''-O2 -g'')]"
    by (simp add: py_strip_def py_isspace_def)
  from parse_user_variables_roundtrip [OF h1 h2] h1 h2 show ?thesis by simp
qed

end
