(* ===== verification/Regex.thy ===== *)
theory Regex
  imports PyRuntime "HOL-Library.Sublist"
begin

text \<open>
  The part of Python's \<^verbatim>\<open>re\<close> module that \<^verbatim>\<open>get_path\<close> uses (lines 48--50 of
  \<^verbatim>\<open>src/builder.py\<close>): \<^verbatim>\<open>re.compile(path).match(os.getcwd())\<close> and
  \<^verbatim>\<open>match.group()\<close>, following CPython 3.11's \<^verbatim>\<open>sre_parse\<close> and \<^verbatim>\<open>_sre\<close>.
  \<^item> Syntax: literals, \<^verbatim>\<open>.\<close>, character sets, the escapes, the anchors
    \<^verbatim>\<open>^ $ \A \Z \b \B\<close>, groups \<^verbatim>\<open>( )\<close>, \<^verbatim>\<open>(?: )\<close>, \<^verbatim>\<open>(?P<name> )\<close>,
    \<^verbatim>\<open>(?> )\<close>, alternation, and the greedy, lazy and possessive quantifiers
    \<^verbatim>\<open>* + ? {m,n}\<close>. The parser raises \<^verbatim>\<open>re.error\<close> where \<^verbatim>\<open>sre_parse\<close> does.
    Backreferences, lookaround, comments, conditionals, inline flags and the
    \<^verbatim>\<open>\u \U \N\<close> escapes are outside the model: for them the parser says so
    (\<open>PUnsup\<close>) instead of guessing.
  \<^item> Matching: the list of the ends of all matches in the order a backtracking matcher
    tries them, so the first is the one \<^verbatim>\<open>match\<close> returns. A greedy or lazy star
    stops iterating after an iteration that matched the empty string, as \<^verbatim>\<open>_sre\<close>
    does, and an atomic group or possessive quantifier keeps only its first match. A
    bounded repeat \<^verbatim>\<open>{m,n}\<close> is unrolled into \<open>m\<close> copies and \<open>n - m\<close> nested
    optional copies.
  \<^item> Characters are bytes. The classes \<^verbatim>\<open>\d \w \s\<close> and word boundaries are
    their ASCII parts: letters beyond ASCII are not word characters here.
\<close>

section \<open>Syntax\<close>

datatype citem = CRange char char | CDigit bool | CWord bool | CSpace bool

datatype assertion = ABol | AEol | AStart | AEnd | AWordB | ANotWordB

datatype rx =
    RChar char
  | RAny
  | RClass bool "citem list"
  | RAssert assertion
  | REmpty
  | RSeq rx rx
  | RAlt rx rx
  | RStar bool rx
  | RAtomic rx

section \<open>Matching\<close>

definition is_digit :: "char \<Rightarrow> bool" where
  "is_digit c = (let n = (of_char c :: nat) in 48 \<le> n \<and> n \<le> 57)"

definition is_word :: "char \<Rightarrow> bool" where
  "is_word c = (let n = (of_char c :: nat) in
     (48 \<le> n \<and> n \<le> 57) \<or> (65 \<le> n \<and> n \<le> 90) \<or> (97 \<le> n \<and> n \<le> 122) \<or> n = 95)"

fun in_citem :: "char \<Rightarrow> citem \<Rightarrow> bool" where
  "in_citem c (CRange a b) = ((of_char a :: nat) \<le> of_char c \<and> (of_char c :: nat) \<le> of_char b)"
| "in_citem c (CDigit b) = (is_digit c = b)"
| "in_citem c (CWord b) = (is_word c = b)"
| "in_citem c (CSpace b) = (py_isspace c = b)"

definition class_match :: "bool \<Rightarrow> citem list \<Rightarrow> char \<Rightarrow> bool" where
  "class_match neg items c = (list_ex (in_citem c) items \<noteq> neg)"

definition word_at :: "string \<Rightarrow> nat \<Rightarrow> bool" where
  "word_at s i = (i < length s \<and> is_word (s ! i))"

fun assert_holds :: "assertion \<Rightarrow> string \<Rightarrow> nat \<Rightarrow> bool" where
  "assert_holds ABol s i = (i = 0)"
| "assert_holds AStart s i = (i = 0)"
| "assert_holds AEnd s i = (i = length s)"
| "assert_holds AEol s i = (i = length s \<or> (Suc i = length s \<and> s ! i = CHR 0x0A))"
| "assert_holds AWordB s i = ((0 < i \<and> word_at s (i - 1)) \<noteq> word_at s i)"
| "assert_holds ANotWordB s i = (s \<noteq> [] \<and> (0 < i \<and> word_at s (i - 1)) = word_at s i)"

text \<open>\<open>ends r s i\<close>: the positions where a match of \<open>r\<close> starting at \<open>i\<close> can end, in
  the order the backtracking matcher tries them. The guard \<open>i < j \<and> j \<le> length s\<close>
  of the star holds of every end of a non-empty iteration (lemma \<open>ends_bounds\<close>); it
  makes the recursion visibly terminating.\<close>

function ends :: "rx \<Rightarrow> string \<Rightarrow> nat \<Rightarrow> nat list" where
  "ends (RChar c) s i = (if i < length s \<and> s ! i = c then [Suc i] else [])"
| "ends RAny s i = (if i < length s \<and> s ! i \<noteq> CHR 0x0A then [Suc i] else [])"
| "ends (RClass neg cs) s i = (if i < length s \<and> class_match neg cs (s ! i) then [Suc i] else [])"
| "ends (RAssert a) s i = (if assert_holds a s i then [i] else [])"
| "ends REmpty s i = [i]"
| "ends (RSeq a b) s i = concat (map (\<lambda>j. ends b s j) (ends a s i))"
| "ends (RAlt a b) s i = ends a s i @ ends b s i"
| "ends (RStar g r) s i =
     (let more = concat (map (\<lambda>j. if i < j \<and> j \<le> length s then ends (RStar g r) s j else [j]) (ends r s i))
      in if g then more @ [i] else i # more)"
| "ends (RAtomic r) s i = take 1 (ends r s i)"
  by pat_completeness auto
termination
  by (relation "measures [\<lambda>(r, s, i). size r, \<lambda>(r, s, i). length s - i]") auto

text \<open>The star's equation unfolds itself under the \<open>map\<close>; it is used through
  \<open>ends_RStar_set\<close> and by evaluation.\<close>

declare ends.simps(8) [simp del]

lemma ends_RStar_set:
  "set (ends (RStar g r) s i) =
     insert i (set (concat (map (\<lambda>k. if i < k \<and> k \<le> length s then ends (RStar g r) s k else [k]) (ends r s i))))"
proof -
  have e: "ends (RStar g r) s i =
     (let more = concat (map (\<lambda>k. if i < k \<and> k \<le> length s then ends (RStar g r) s k else [k]) (ends r s i))
      in if g then more @ [i] else i # more)"
    by (rule ends.simps(8))
  show ?thesis
    unfolding e Let_def by (cases g) (simp_all only: if_True if_False set_append list.set Un_insert_right Un_empty_right)
qed

lemma ends_RStar_mem:
  "j \<in> set (ends (RStar g r) s i) \<longleftrightarrow>
     j = i \<or> (\<exists>k \<in> set (ends r s i). j \<in> set (if i < k \<and> k \<le> length s then ends (RStar g r) s k else [k]))"
  by (simp only: ends_RStar_set insert_iff set_concat set_map image_image UN_iff)

text \<open>\<^verbatim>\<open>re.compile(p).match(t)\<close> on a compiled pattern: no match, or the text
  \<^verbatim>\<open>group()\<close> returns.\<close>

definition rx_match :: "rx \<Rightarrow> string \<Rightarrow> string option" where
  "rx_match r t = (case ends r t 0 of [] \<Rightarrow> None | j # _ \<Rightarrow> Some (take j t))"


section \<open>Parsing\<close>

text \<open>The outcome of \<^verbatim>\<open>re.compile\<close>: the pattern, \<^verbatim>\<open>re.error\<close>, or syntax
  outside the modelled part.\<close>

datatype pres = POk rx | PErr | PUnsup

definition is_octdigit :: "char \<Rightarrow> bool" where
  "is_octdigit c = (let n = (of_char c :: nat) in 48 \<le> n \<and> n \<le> 55)"

definition is_hexdigit :: "char \<Rightarrow> bool" where
  "is_hexdigit c = (let n = (of_char c :: nat) in
     (48 \<le> n \<and> n \<le> 57) \<or> (65 \<le> n \<and> n \<le> 70) \<or> (97 \<le> n \<and> n \<le> 102))"

definition hex_val :: "char \<Rightarrow> nat" where
  "hex_val c = (let n = (of_char c :: nat) in if n \<le> 57 then n - 48 else if n \<le> 70 then n - 55 else n - 87)"

definition is_ascii_letter :: "char \<Rightarrow> bool" where
  "is_ascii_letter c = (let n = (of_char c :: nat) in (65 \<le> n \<and> n \<le> 90) \<or> (97 \<le> n \<and> n \<le> 122))"

definition digit_val :: "char \<Rightarrow> nat" where
  "digit_val c = (of_char c :: nat) - 48"

definition octal_val :: "string \<Rightarrow> nat" where
  "octal_val ds = foldl (\<lambda>v d. 8 * v + digit_val d) 0 ds"

definition decimal_val :: "string \<Rightarrow> nat" where
  "decimal_val ds = foldl (\<lambda>v d. 10 * v + digit_val d) 0 ds"

text \<open>The one-letter escapes of \<^verbatim>\<open>sre_parse.ESCAPES\<close> other than \<^verbatim>\<open>\b\<close>,
  which means backspace only inside a set.\<close>

definition control_escape :: "char \<Rightarrow> char option" where
  "control_escape d =
     (if d = CHR ''a'' then Some (CHR 0x07) else if d = CHR ''f'' then Some (CHR 0x0C)
      else if d = CHR ''n'' then Some (CHR 0x0A) else if d = CHR ''r'' then Some (CHR 0x0D)
      else if d = CHR ''t'' then Some (CHR 0x09) else if d = CHR ''v'' then Some (CHR 0x0B) else None)"

definition category_escape :: "char \<Rightarrow> citem option" where
  "category_escape d =
     (if d = CHR ''d'' then Some (CDigit True) else if d = CHR ''D'' then Some (CDigit False)
      else if d = CHR ''w'' then Some (CWord True) else if d = CHR ''W'' then Some (CWord False)
      else if d = CHR ''s'' then Some (CSpace True) else if d = CHR ''S'' then Some (CSpace False) else None)"

text \<open>An escape inside a set (\<^verbatim>\<open>_class_escape\<close>), on the text after the backslash:
  a character or a category, and the number of characters it takes.\<close>

datatype cesc = CLit char | CCat citem

datatype 'a eres = EOk 'a nat | EErr | EUnsup

definition class_escape :: "string \<Rightarrow> cesc eres" where
  "class_escape cs =
     (case cs of
        [] \<Rightarrow> EErr
      | d # t \<Rightarrow>
          (case category_escape d of Some ci \<Rightarrow> EOk (CCat ci) 1 | None \<Rightarrow>
          (case control_escape d of Some c \<Rightarrow> EOk (CLit c) 1 | None \<Rightarrow>
           if d = CHR ''b'' then EOk (CLit (CHR 0x08)) 1
           else if d = CHR ''x'' then
             (if 2 \<le> length t \<and> is_hexdigit (t ! 0) \<and> is_hexdigit (t ! 1)
              then EOk (CLit (char_of (16 * hex_val (t ! 0) + hex_val (t ! 1)))) 3 else EErr)
           else if d \<in> set ''uUN'' then EUnsup
           else if is_octdigit d then
             (let ds = d # takeWhile is_octdigit (take 2 t)
              in if octal_val ds > 255 then EErr else EOk (CLit (char_of (octal_val ds))) (length ds))
           else if is_digit d \<or> is_ascii_letter d then EErr
           else EOk (CLit d) 1)))"

text \<open>An escape outside a set (\<^verbatim>\<open>_escape\<close>): an item of the pattern, whether it
  is an anchor (which cannot be repeated), and the characters it takes.\<close>

datatype itag = IPlain | IAssert | IRepeat

definition escape :: "string \<Rightarrow> (rx \<times> itag) eres" where
  "escape cs =
     (case cs of
        [] \<Rightarrow> EErr
      | d # t \<Rightarrow>
          (case category_escape d of Some ci \<Rightarrow> EOk (RClass False [ci], IPlain) 1 | None \<Rightarrow>
           if d = CHR ''A'' then EOk (RAssert AStart, IAssert) 1
           else if d = CHR ''Z'' then EOk (RAssert AEnd, IAssert) 1
           else if d = CHR ''b'' then EOk (RAssert AWordB, IAssert) 1
           else if d = CHR ''B'' then EOk (RAssert ANotWordB, IAssert) 1
           else (case control_escape d of Some c \<Rightarrow> EOk (RChar c, IPlain) 1 | None \<Rightarrow>
           if d = CHR ''x'' then
             (if 2 \<le> length t \<and> is_hexdigit (t ! 0) \<and> is_hexdigit (t ! 1)
              then EOk (RChar (char_of (16 * hex_val (t ! 0) + hex_val (t ! 1))), IPlain) 3 else EErr)
           else if d \<in> set ''uUN'' then EUnsup
           else if d = CHR ''0'' then
             (let ds = d # takeWhile is_octdigit (take 2 t)
              in EOk (RChar (char_of (octal_val ds)), IPlain) (length ds))
           else if is_digit d then
             (if 2 \<le> length t \<and> is_octdigit d \<and> is_octdigit (t ! 0) \<and> is_octdigit (t ! 1)
              then (if octal_val [d, t ! 0, t ! 1] > 255 then EErr
                    else EOk (RChar (char_of (octal_val [d, t ! 0, t ! 1])), IPlain) 3)
              else EUnsup)
           else if is_ascii_letter d then EErr
           else EOk (RChar d, IPlain) 1)))"


text \<open>The items of a set after \<^verbatim>\<open>[\<close> (and \<^verbatim>\<open>^\<close>), up to the closing
  \<^verbatim>\<open>]\<close>: a \<^verbatim>\<open>]\<close> that comes first is a literal, a \<^verbatim>\<open>-\<close> between two
  characters makes a range, a \<^verbatim>\<open>-\<close> before the closing \<^verbatim>\<open>]\<close> is a literal.
  The count is the characters read so far.\<close>

fun citem_of :: "cesc \<Rightarrow> citem" where
  "citem_of (CLit c) = CRange c c"
| "citem_of (CCat ci) = ci"

definition set_item :: "string \<Rightarrow> cesc eres" where
  "set_item cs =
     (case cs of [] \<Rightarrow> EErr
      | c # t \<Rightarrow> if c = bslash then (case class_escape t of EOk e k \<Rightarrow> EOk e (Suc k) | EErr \<Rightarrow> EErr | EUnsup \<Rightarrow> EUnsup)
                 else EOk (CLit c) 1)"

function set_loop :: "string \<Rightarrow> citem list \<Rightarrow> nat \<Rightarrow> (citem list) eres" where
  "set_loop cs acc n =
     (if cs = [] then EErr
      else if hd cs = CHR '']'' \<and> acc \<noteq> [] then EOk (rev acc) (Suc n)
      else
        (case set_item cs of
           EErr \<Rightarrow> EErr | EUnsup \<Rightarrow> EUnsup
         | EOk code1 k \<Rightarrow>
             (let r = drop k cs in
              if r \<noteq> [] \<and> hd r = CHR ''-'' then
                (if tl r = [] then EErr
                 else if hd (tl r) = CHR '']'' then EOk (rev (CRange CHR ''-'' CHR ''-'' # citem_of code1 # acc)) (n + k + 2)
                 else
                   (case set_item (tl r) of
                      EErr \<Rightarrow> EErr | EUnsup \<Rightarrow> EUnsup
                    | EOk code2 k2 \<Rightarrow>
                        (case (code1, code2) of
                           (CLit lo, CLit hi) \<Rightarrow>
                             if (of_char hi :: nat) < of_char lo then EErr
                             else set_loop (drop (k + 1 + k2) cs) (CRange lo hi # acc) (n + k + 1 + k2)
                         | _ \<Rightarrow> EErr)))
              else set_loop r (citem_of code1 # acc) (n + k))))"
  by pat_completeness auto
termination
proof (relation "measure (\<lambda>(cs, acc, n). length cs)", goal_cases)
  case 1 then show ?case by simp
next
  case (2 cs acc n x11 k r x11a x12 x1 x2)
  then have "0 < k"
    by (auto simp: set_item_def split: list.splits if_splits eres.splits)
  with 2 show ?case by simp
next
  case (3 cs acc n x11 k r)
  then have "0 < k"
    by (auto simp: set_item_def split: list.splits if_splits eres.splits)
  with 3 show ?case by simp
qed

definition parse_set :: "string \<Rightarrow> (bool \<times> citem list) eres" where
  "parse_set cs =
     (if cs \<noteq> [] \<and> hd cs = CHR ''^''
      then (case set_loop (tl cs) [] 0 of EOk items k \<Rightarrow> EOk (True, items) (Suc k) | EErr \<Rightarrow> EErr | EUnsup \<Rightarrow> EUnsup)
      else (case set_loop cs [] 0 of EOk items k \<Rightarrow> EOk (False, items) k | EErr \<Rightarrow> EErr | EUnsup \<Rightarrow> EUnsup))"


text \<open>A quantifier \<^verbatim>\<open>{m,n}\<close> after \<^verbatim>\<open>{\<close>: the bounds and the characters
  it takes, or \<open>None\<close> when the brace is a literal (\<^verbatim>\<open>{}\<close>, \<^verbatim>\<open>{x\<close>, a
  missing \<^verbatim>\<open>}\<close>).\<close>

definition brace_spec :: "string \<Rightarrow> (nat \<times> nat option \<times> nat) option" where
  "brace_spec cs =
     (if cs \<noteq> [] \<and> hd cs = CHR ''}'' then None
      else
        let lo_ds = takeWhile is_digit cs; r1 = drop (length lo_ds) cs;
            comma = (r1 \<noteq> [] \<and> hd r1 = CHR '','');
            hi_ds = (if comma then takeWhile is_digit (tl r1) else lo_ds);
            r2 = (if comma then drop (length hi_ds) (tl r1) else r1)
        in if r2 \<noteq> [] \<and> hd r2 = CHR ''}''
           then Some (if lo_ds = [] then 0 else decimal_val lo_ds,
                      if hi_ds = [] then None else Some (decimal_val hi_ds),
                      length lo_ds + (if comma then Suc (length hi_ds) else 0) + 1)
           else None)"

datatype qmode = QGreedy | QLazy | QPossessive

definition quant_suffix :: "string \<Rightarrow> qmode \<times> nat" where
  "quant_suffix cs =
     (if cs \<noteq> [] \<and> hd cs = CHR ''?'' then (QLazy, 1)
      else if cs \<noteq> [] \<and> hd cs = CHR ''+'' then (QPossessive, 1) else (QGreedy, 0))"

fun rx_pow :: "nat \<Rightarrow> rx \<Rightarrow> rx" where
  "rx_pow 0 r = REmpty"
| "rx_pow (Suc n) r = RSeq r (rx_pow n r)"

fun opt_chain :: "bool \<Rightarrow> nat \<Rightarrow> rx \<Rightarrow> rx" where
  "opt_chain g 0 r = REmpty"
| "opt_chain g (Suc n) r =
     (if g then RAlt (RSeq r (opt_chain g n r)) REmpty else RAlt REmpty (RSeq r (opt_chain g n r)))"

text \<open>\<open>r{lo,hi}\<close> with a greedy, lazy or possessive mode; \<open>hi = None\<close> is no upper
  bound, so \<^verbatim>\<open>*\<close> is \<open>{0,}\<close>, \<^verbatim>\<open>+\<close> is \<open>{1,}\<close> and \<^verbatim>\<open>?\<close> is \<open>{0,1}\<close>.\<close>

definition repeat_rx :: "nat \<Rightarrow> nat option \<Rightarrow> qmode \<Rightarrow> rx \<Rightarrow> rx" where
  "repeat_rx lo hi m r =
     (let g = (m \<noteq> QLazy);
          body = RSeq (rx_pow lo r) (case hi of None \<Rightarrow> RStar g r | Some h \<Rightarrow> opt_chain g (h - lo) r)
      in if m = QPossessive then RAtomic body else body)"

fun alt_rx :: "rx list \<Rightarrow> rx" where
  "alt_rx [] = REmpty"
| "alt_rx [r] = r"
| "alt_rx (r # rs) = RAlt r (alt_rx rs)"

definition seq_rx :: "(rx \<times> itag) list \<Rightarrow> rx" where
  "seq_rx items = foldr (\<lambda>it acc. RSeq (fst it) acc) (rev items) REmpty"

text \<open>An open group of the parser: top level, a group, or an atomic group, with the
  alternatives closed so far and the items of the current one, last first.\<close>

datatype gkind = GTop | GGroup | GAtomic

type_synonym frame = "gkind \<times> rx list \<times> (rx \<times> itag) list"

fun push_item :: "rx \<times> itag \<Rightarrow> frame list \<Rightarrow> frame list" where
  "push_item it [] = []"
| "push_item it ((k, alts, items) # rest) = (k, alts, it # items) # rest"

fun close_frame :: "frame \<Rightarrow> rx" where
  "close_frame (k, alts, items) =
     (let r = alt_rx (alts @ [seq_rx items]) in if k = GAtomic then RAtomic r else r)"

definition is_ident :: "string \<Rightarrow> bool" where
  "is_ident nm = (nm \<noteq> [] \<and> (is_ascii_letter (hd nm) \<or> hd nm = CHR ''_'') \<and>
                   list_all (\<lambda>c. is_ascii_letter c \<or> is_digit c \<or> c = CHR ''_'') nm)"

text \<open>What follows \<^verbatim>\<open>(\<close>: the kind of group, its name if any, and the characters
  of the \<^verbatim>\<open>?\<close> extension.\<close>

definition group_open :: "string \<Rightarrow> (gkind \<times> string option) eres" where
  "group_open cs =
     (if cs = [] \<or> hd cs \<noteq> CHR ''?'' then EOk (GGroup, None) 0
      else case tl cs of
        [] \<Rightarrow> EErr
      | d # t \<Rightarrow>
          if d = CHR '':'' then EOk (GGroup, None) 2
          else if d = CHR ''>'' then EOk (GAtomic, None) 2
          else if d = CHR ''P'' then
            (if t \<noteq> [] \<and> hd t = CHR ''<'' then
               (let nm = takeWhile (\<lambda>c. c \<noteq> CHR ''>'') (tl t)
                in if CHR ''>'' \<notin> set (tl t) \<or> nm = [] then EErr
                   else if \<not> list_all (\<lambda>c. (of_char c :: nat) < 128) nm then EUnsup
                   else if \<not> is_ident nm then EErr
                   else EOk (GGroup, Some nm) (length nm + 4))
             else if t \<noteq> [] \<and> hd t = CHR ''='' then EUnsup
             else EErr)
          else if d \<in> set ''=!#('' then EUnsup
          else if d = CHR ''<'' then (if t \<noteq> [] \<and> hd t \<in> set ''=!'' then EUnsup else EErr)
          else if d \<in> set ''aiLmsux-'' then EUnsup
          else EErr)"

text \<open>The parser (\<^verbatim>\<open>_parse_sub\<close> and \<^verbatim>\<open>_parse\<close>) as a loop over the pattern with
  an explicit stack of open groups and the names of the named groups so far.\<close>

function parse_loop :: "string \<Rightarrow> string list \<Rightarrow> frame list \<Rightarrow> pres" where
  "parse_loop [] names stk =
     (case stk of [(GTop, alts, items)] \<Rightarrow> POk (close_frame (GTop, alts, items)) | _ \<Rightarrow> PErr)"
| "parse_loop (c # cs) names stk =
     (if stk = [] then PErr
      else if c = CHR ''('' then
        (case group_open cs of
           EErr \<Rightarrow> PErr | EUnsup \<Rightarrow> PUnsup
         | EOk (k, nm) n \<Rightarrow>
             (case nm of
                None \<Rightarrow> parse_loop (drop n cs) names ((k, [], []) # stk)
              | Some x \<Rightarrow> if x \<in> set names then PErr
                          else parse_loop (drop n cs) (x # names) ((k, [], []) # stk)))
      else if c = CHR '')'' then
        (case stk of
           f # g # rest \<Rightarrow> if fst f = GTop then PErr else parse_loop cs names (push_item (close_frame f, IPlain) (g # rest))
         | _ \<Rightarrow> PErr)
      else if c = CHR ''|'' then
        (case stk of
           (k, alts, items) # rest \<Rightarrow> parse_loop cs names ((k, alts @ [seq_rx items], []) # rest)
         | [] \<Rightarrow> PErr)
      else if c \<in> set ''*+?'' \<or> (c = CHR ''{'' \<and> brace_spec cs \<noteq> None) then
        (let (lo, hi, n) = (if c = CHR ''*'' then (0, None, 0) else if c = CHR ''+'' then (1, None, 0)
                            else if c = CHR ''?'' then (0, Some 1, 0) else the (brace_spec cs));
             (m, n2) = quant_suffix (drop n cs)
         in if (case hi of Some h \<Rightarrow> h < lo | None \<Rightarrow> False) then PErr
            else case stk of
              (k, alts, (r, IPlain) # items) # rest \<Rightarrow>
                parse_loop (drop (n + n2) cs) names ((k, alts, (repeat_rx lo hi m r, IRepeat) # items) # rest)
            | _ \<Rightarrow> PErr)
      else if c = CHR ''['' then
        (case parse_set cs of
           EErr \<Rightarrow> PErr | EUnsup \<Rightarrow> PUnsup
         | EOk (neg, items) n \<Rightarrow> parse_loop (drop n cs) names (push_item (RClass neg items, IPlain) stk))
      else if c = bslash then
        (case escape cs of
           EErr \<Rightarrow> PErr | EUnsup \<Rightarrow> PUnsup
         | EOk it n \<Rightarrow> parse_loop (drop n cs) names (push_item it stk))
      else if c = CHR ''.'' then parse_loop cs names (push_item (RAny, IPlain) stk)
      else if c = CHR ''^'' then parse_loop cs names (push_item (RAssert ABol, IAssert) stk)
      else if c = CHR ''$'' then parse_loop cs names (push_item (RAssert AEol, IAssert) stk)
      else parse_loop cs names (push_item (RChar c, IPlain) stk))"
  by pat_completeness auto
termination
  by (relation "measure (\<lambda>(cs, names, stk). length cs)") auto

definition re_compile :: "string \<Rightarrow> pres" where
  "re_compile p = parse_loop p [] [(GTop, [], [])]"

text \<open>\<^verbatim>\<open>re.compile(p).match(t)\<close> followed by \<^verbatim>\<open>match.group()\<close>: \<^verbatim>\<open>re.error\<close>,
  no match, or the matched text; \<open>None\<close> for a pattern outside the model.\<close>

definition py_re_match :: "string \<Rightarrow> string \<Rightarrow> (pyexc + string option) option" where
  "py_re_match p t =
     (case re_compile p of
        POk r \<Rightarrow> Some (Inr (rx_match r t))
      | PErr \<Rightarrow> Some (Inl ReError)
      | PUnsup \<Rightarrow> None)"


section \<open>Reference semantics\<close>

text \<open>Which spans of the text a pattern matches, independently of the order the
  matcher tries them in: \<open>rmatch r s i j\<close> when \<open>r\<close> matches \<open>s[i:j]\<close>. Atomic
  groups have no order-free meaning and are left out (\<open>atomic_free\<close>).\<close>

inductive rmatch :: "rx \<Rightarrow> string \<Rightarrow> nat \<Rightarrow> nat \<Rightarrow> bool" where
  rm_char: "i < length s \<Longrightarrow> s ! i = c \<Longrightarrow> rmatch (RChar c) s i (Suc i)"
| rm_any: "i < length s \<Longrightarrow> s ! i \<noteq> CHR 0x0A \<Longrightarrow> rmatch RAny s i (Suc i)"
| rm_class: "i < length s \<Longrightarrow> class_match neg cs (s ! i) \<Longrightarrow> rmatch (RClass neg cs) s i (Suc i)"
| rm_assert: "i \<le> length s \<Longrightarrow> assert_holds a s i \<Longrightarrow> rmatch (RAssert a) s i i"
| rm_empty: "i \<le> length s \<Longrightarrow> rmatch REmpty s i i"
| rm_seq: "rmatch a s i k \<Longrightarrow> rmatch b s k j \<Longrightarrow> rmatch (RSeq a b) s i j"
| rm_alt1: "rmatch a s i j \<Longrightarrow> rmatch (RAlt a b) s i j"
| rm_alt2: "rmatch b s i j \<Longrightarrow> rmatch (RAlt a b) s i j"
| rm_star0: "i \<le> length s \<Longrightarrow> rmatch (RStar g r) s i i"
| rm_star: "rmatch r s i k \<Longrightarrow> rmatch (RStar g r) s k j \<Longrightarrow> rmatch (RStar g r) s i j"

inductive_cases rmatch_RSeqE: "rmatch (RSeq a b) s i j"
inductive_cases rmatch_RAltE: "rmatch (RAlt a b) s i j"

fun atomic_free :: "rx \<Rightarrow> bool" where
  "atomic_free (RAtomic r) = False"
| "atomic_free (RSeq a b) = (atomic_free a \<and> atomic_free b)"
| "atomic_free (RAlt a b) = (atomic_free a \<and> atomic_free b)"
| "atomic_free (RStar g r) = atomic_free r"
| "atomic_free _ = True"

section \<open>Properties of the matcher\<close>

lemma ends_bounds:
  "i \<le> length s \<Longrightarrow> j \<in> set (ends r s i) \<Longrightarrow> i \<le> j \<and> j \<le> length s"
proof (induction r s i arbitrary: j rule: ends.induct)
  case (6 a b s i)
  from "6.prems"(2) obtain k where k: "k \<in> set (ends a s i)" and j: "j \<in> set (ends b s k)"
    by auto
  from "6.IH"(1) [OF "6.prems"(1) k] have "i \<le> k \<and> k \<le> length s" .
  with "6.IH"(2) [OF k _ j] show ?case by simp
next
  case (7 a b s i)
  then show ?case by auto
next
  case (8 g r s i)
  from "8.prems"(2) have "j = i \<or> (\<exists>k \<in> set (ends r s i).
      j \<in> set (if i < k \<and> k \<le> length s then ends (RStar g r) s k else [k]))"
    by (simp only: ends_RStar_mem)
  then show ?case
  proof
    assume "j = i" with "8.prems"(1) show ?thesis by simp
  next
    assume "\<exists>k \<in> set (ends r s i). j \<in> set (if i < k \<and> k \<le> length s then ends (RStar g r) s k else [k])"
    then obtain k where k: "k \<in> set (ends r s i)"
      and j: "j \<in> set (if i < k \<and> k \<le> length s then ends (RStar g r) s k else [k])" by blast
    from "8.IH"(1) [OF "8.prems"(1) k] have ik: "i \<le> k \<and> k \<le> length s" .
    show ?thesis
    proof (cases "i < k")
      case True
      with ik j "8.IH"(2) [OF k _ _ ] show ?thesis by fastforce
    next
      case False
      with ik j show ?thesis by simp
    qed
  qed
next
  case (9 r s i)
  then show ?case by (auto dest: in_set_takeD)
qed (simp_all split: if_splits)

lemma rmatch_bounds: "rmatch r s i j \<Longrightarrow> i \<le> j \<and> j \<le> length s"
  by (induction rule: rmatch.induct) auto


lemma ends_sound:
  "atomic_free r \<Longrightarrow> i \<le> length s \<Longrightarrow> j \<in> set (ends r s i) \<Longrightarrow> rmatch r s i j"
proof (induction r s i arbitrary: j rule: ends.induct)
  case (6 a b s i)
  from "6.prems"(3) obtain k where k: "k \<in> set (ends a s i)" and j: "j \<in> set (ends b s k)"
    by auto
  have "k \<le> length s" using ends_bounds [OF "6.prems"(2) k] by simp
  with "6.IH" k j "6.prems"(1,2) show ?case by (auto intro: rm_seq)
next
  case (7 a b s i)
  then show ?case by (auto intro: rm_alt1 rm_alt2)
next
  case (8 g r s i)
  from "8.prems"(3) consider "j = i"
    | k where "k \<in> set (ends r s i)" "j \<in> set (if i < k \<and> k \<le> length s then ends (RStar g r) s k else [k])"
    by (auto simp only: ends_RStar_mem)
  then show ?case
  proof cases
    case 1 with "8.prems"(2) show ?thesis by (simp add: rm_star0)
  next
    case (2 k)
    have ik: "i \<le> k \<and> k \<le> length s" using ends_bounds [OF "8.prems"(2) 2(1)] .
    have rk: "rmatch r s i k" using "8.IH"(1) "8.prems" 2(1) by simp
    show ?thesis
    proof (cases "i < k")
      case True
      with ik 2 "8.IH"(2) [OF 2(1)] "8.prems"(1) have "rmatch (RStar g r) s k j" by simp
      with rk show ?thesis by (rule rm_star)
    next
      case False
      with ik 2(2) have "j = i" by simp
      with "8.prems"(2) show ?thesis by (simp add: rm_star0)
    qed
  qed
next
  case (9 r s i)
  then show ?case by simp
qed (auto split: if_splits intro: rmatch.intros)

lemma ends_complete:
  "rmatch r s i j \<Longrightarrow> atomic_free r \<Longrightarrow> j \<in> set (ends r s i)"
proof (induction rule: rmatch.induct)
  case (rm_seq a s i k b j)
  then show ?case by force
next
  case (rm_star0 i s g r)
  then show ?case by (simp add: ends_RStar_mem)
next
  case (rm_star r s i k g j)
  show ?case
  proof (cases "i < k")
    case True
    have "k \<le> length s" using rmatch_bounds [OF rm_star.hyps(1)] by simp
    moreover have "k \<in> set (ends r s i)" and "j \<in> set (ends (RStar g r) s k)"
      using rm_star by simp_all
    ultimately show ?thesis
      using True by (subst ends_RStar_mem) (intro disjI2 bexI [of _ k], simp_all)
  next
    case False
    with rmatch_bounds [OF rm_star.hyps(1)] have "k = i" by simp
    with rm_star show ?thesis by simp
  qed
qed auto

lemma ends_iff_rmatch:
  "atomic_free r \<Longrightarrow> i \<le> length s \<Longrightarrow> j \<in> set (ends r s i) \<longleftrightarrow> rmatch r s i j"
  using ends_sound ends_complete by blast


section \<open>Patterns without metacharacters\<close>

definition re_special :: string where
  "re_special = ''.^$*+?{[|()'' @ [bslash]"

definition lit_rx :: "string \<Rightarrow> rx" where
  "lit_rx p = foldr (\<lambda>c acc. RSeq (RChar c) acc) p REmpty"

lemma parse_loop_literal:
  "list_all (\<lambda>c. c \<notin> set re_special) p \<Longrightarrow>
     parse_loop p names [(GTop, alts, items)] =
       POk (close_frame (GTop, alts, rev (map (\<lambda>c. (RChar c, IPlain)) p) @ items))"
  by (induction p arbitrary: items) (simp_all add: re_special_def)

lemma re_compile_literal:
  "list_all (\<lambda>c. c \<notin> set re_special) p \<Longrightarrow> re_compile p = POk (lit_rx p)"
  by (simp add: re_compile_def parse_loop_literal seq_rx_def lit_rx_def foldr_map comp_def)

lemma ends_lit_rx:
  "ends (lit_rx p) t i = (if take (length p) (drop i t) = p then [i + length p] else [])"
proof (induction p arbitrary: i)
  case Nil
  then show ?case by (simp add: lit_rx_def)
next
  case (Cons c p)
  have "take (Suc (length p)) (drop i t) = c # p \<longleftrightarrow>
          i < length t \<and> t ! i = c \<and> take (length p) (drop (Suc i) t) = p"
    by (cases "i < length t") (simp_all add: Cons_nth_drop_Suc [symmetric])
  with Cons show ?case by (simp add: lit_rx_def)
qed


section \<open>Properties of the path matcher's regular expressions\<close>

text \<open>C27: \<^verbatim>\<open>re.match\<close> does what the path matcher's contract says
  (\<open>\<section>\<close>4.3): on a pattern without atomic parts, it finds no match exactly when no
  prefix of the text matches the pattern, and a match it returns is a prefix of the text
  that the pattern matches.\<close>

theorem re_match_language:
  assumes "re_compile p = POk r" and "atomic_free r"
  shows "(py_re_match p t = Some (Inr None) \<longleftrightarrow> (\<forall>j. \<not> rmatch r t 0 j)) \<and>
         (\<forall>m. py_re_match p t = Some (Inr (Some m)) \<longrightarrow> prefix m t \<and> rmatch r t 0 (length m))"
proof (rule conjI)
  show "py_re_match p t = Some (Inr None) \<longleftrightarrow> (\<forall>j. \<not> rmatch r t 0 j)"
    using assms ends_iff_rmatch [OF assms(2), of 0 t]
    by (auto simp: py_re_match_def rx_match_def split: list.splits) blast
  show "\<forall>m. py_re_match p t = Some (Inr (Some m)) \<longrightarrow> prefix m t \<and> rmatch r t 0 (length m)"
  proof (intro allI impI)
    fix m assume m: "py_re_match p t = Some (Inr (Some m))"
    then obtain j js where e: "ends r t 0 = j # js" and mj: "m = take j t"
      using assms(1) by (auto simp: py_re_match_def rx_match_def split: list.splits)
    have "j \<le> length t" using ends_bounds [of 0 t j r] e by simp
    with mj have "length m = j" by simp
    with e mj ends_sound [OF assms(2), of 0 t j] show "prefix m t \<and> rmatch r t 0 (length m)"
      by (simp add: take_is_prefix)
  qed
qed

theorem re_match_language_witness:
  "re_compile ''(a|ab)c'' = POk (RSeq (RAlt (RSeq (RChar CHR ''a'') REmpty)
      (RSeq (RChar CHR ''a'') (RSeq (RChar CHR ''b'') REmpty))) (RSeq (RChar CHR ''c'') REmpty)) \<and>
   atomic_free (RSeq (RAlt (RSeq (RChar CHR ''a'') REmpty)
      (RSeq (RChar CHR ''a'') (RSeq (RChar CHR ''b'') REmpty))) (RSeq (RChar CHR ''c'') REmpty)) \<and>
   py_re_match ''(a|ab)c'' ''abcd'' = Some (Inr (Some ''abc'')) \<and>
   prefix ''abc'' ''abcd'' \<and>
   rmatch (RSeq (RAlt (RSeq (RChar CHR ''a'') REmpty)
      (RSeq (RChar CHR ''a'') (RSeq (RChar CHR ''b'') REmpty))) (RSeq (RChar CHR ''c'') REmpty)) ''abcd'' 0 3"
proof -
  let ?r = "RSeq (RAlt (RSeq (RChar CHR ''a'') REmpty)
      (RSeq (RChar CHR ''a'') (RSeq (RChar CHR ''b'') REmpty))) (RSeq (RChar CHR ''c'') REmpty)"
  have c: "re_compile ''(a|ab)c'' = POk ?r" by code_simp
  have a: "atomic_free ?r" by simp
  have m: "py_re_match ''(a|ab)c'' ''abcd'' = Some (Inr (Some ''abc''))" by code_simp
  from re_match_language [OF c a, of "''abcd''"] m have "prefix ''abc'' ''abcd'' \<and> rmatch ?r ''abcd'' 0 (length ''abc'')"
    by blast
  with c a m show ?thesis by (simp add: numeral_3_eq_3)
qed

text \<open>C28: a path pattern without metacharacters is matched literally: it matches
  exactly when it is a prefix of the working directory, and the match is the pattern
  itself. The witness is the spec's example (\<open>\<section>\<close>9): \<^verbatim>\<open>/home/user/proj\<close>
  against \<^verbatim>\<open>/home/user/proj/sub\<close> gives \<^verbatim>\<open>/home/user/proj\<close>, \<^verbatim>\<open>/other\<close> gives
  no match.\<close>

theorem re_literal_match:
  assumes "list_all (\<lambda>c. c \<notin> set re_special) p"
  shows "py_re_match p t = Some (Inr (if take (length p) t = p then Some p else None))"
  using assms by (simp add: py_re_match_def re_compile_literal rx_match_def ends_lit_rx)

theorem re_literal_match_witness:
  "list_all (\<lambda>c. c \<notin> set re_special) ''/home/user/proj'' \<and>
   py_re_match ''/home/user/proj'' ''/home/user/proj/sub'' = Some (Inr (Some ''/home/user/proj'')) \<and>
   list_all (\<lambda>c. c \<notin> set re_special) ''/other'' \<and>
   py_re_match ''/other'' ''/home/user/proj/sub'' = Some (Inr None)"
proof -
  have h1: "list_all (\<lambda>c. c \<notin> set re_special) ''/home/user/proj''" by (simp add: re_special_def)
  have h2: "list_all (\<lambda>c. c \<notin> set re_special) ''/other''" by (simp add: re_special_def)
  from re_literal_match [OF h1, of "''/home/user/proj/sub''"] re_literal_match [OF h2, of "''/home/user/proj/sub''"] h1 h2
  show ?thesis by simp
qed

text \<open>The guard \<open>i < j \<and> j \<le> length s\<close> in the star equation of \<open>ends\<close>, which makes
  its termination visible, cuts nothing: \<open>ends\<close> satisfies the loop of \<^verbatim>\<open>_sre\<close>
  as written, which goes on after every iteration that moved and stops after one that
  matched the empty string.\<close>

lemma ends_star_unguarded:
  assumes "i \<le> length s"
  shows "ends (RStar g r) s i =
           (let more = concat (map (\<lambda>j. if j \<noteq> i then ends (RStar g r) s j else [j]) (ends r s i))
            in if g then more @ [i] else i # more)"
proof -
  have "map (\<lambda>j. if i < j \<and> j \<le> length s then ends (RStar g r) s j else [j]) (ends r s i) =
        map (\<lambda>j. if j \<noteq> i then ends (RStar g r) s j else [j]) (ends r s i)"
  proof (rule map_cong [OF refl])
    fix j assume "j \<in> set (ends r s i)"
    with ends_bounds [OF assms] have "i \<le> j \<and> j \<le> length s" by blast
    then show "(if i < j \<and> j \<le> length s then ends (RStar g r) s j else [j]) =
               (if j \<noteq> i then ends (RStar g r) s j else [j])" by auto
  qed
  moreover have "ends (RStar g r) s i =
     (let more = concat (map (\<lambda>j. if i < j \<and> j \<le> length s then ends (RStar g r) s j else [j]) (ends r s i))
      in if g then more @ [i] else i # more)"
    by (rule ends.simps(8))
  ultimately show ?thesis by (simp only:)
qed

end
