(* ===== verification/Orchestrator.thy ===== *)
theory Orchestrator
  imports Steps Cli Regex
begin

text \<open>
  The executor and the orchestrator of \<^verbatim>\<open>src/builder.py\<close>: \<^verbatim>\<open>error\<close>
  (lines 11--13), \<^verbatim>\<open>get_path\<close> (lines 45--51), \<^verbatim>\<open>execute_command\<close>
  (lines 70--75), \<^verbatim>\<open>build\<close> and \<^verbatim>\<open>test\<close> (lines 78--115),
  \<^verbatim>\<open>get_system_name\<close> and \<^verbatim>\<open>main\<close> (lines 118--169).
  The program's mutable state is two dictionary objects, the computed variables and the
  environment, that every function receives by reference and extends in place; they are
  the fields of the record \<open>st\<close>, with the events the run has produced. The outside
  world (working directory, process environment, home directories, the shell that runs
  a command and the \<^verbatim>\<open>re\<close> module's matcher) is a record \<open>world\<close> read by the
  functions. A function returns the state and either a value or how the run stopped:
  \<^verbatim>\<open>exit(n)\<close> or an uncaught exception. The theory ends with the invariant of the
  variables dictionary, the exit statuses, example inputs (among them a world whose
  \<^verbatim>\<open>re.match\<close> is the model of theory \<open>Regex\<close>) and the properties of the orchestrator.
\<close>

section \<open>State, world and effects\<close>

datatype event =
    Stdout string
  | Stderr string
  | Spawn string string sdict

datatype halt = Exit int | Crash pyexc

record st =
  variables :: sdict
  environment :: sdict
  out :: "event list"

text \<open>\<open>re_match w p s\<close> is \<^verbatim>\<open>re.compile(p).match(s)\<close>: \<^verbatim>\<open>re.error\<close>, no match,
  or the matched text (\<^verbatim>\<open>match.group()\<close>). \<open>shell w c d e\<close> is
  \<^verbatim>\<open>subprocess.call(c, cwd=d, env=e, shell=True)\<close>: the exit status, or the
  \<^verbatim>\<open>OSError\<close> it raises.\<close>

record world =
  cwd :: string
  environ :: sdict
  homes :: home_info
  shell :: "string \<Rightarrow> string \<Rightarrow> sdict \<Rightarrow> pyexc + int"
  re_match :: "string \<Rightarrow> string \<Rightarrow> pyexc + string option"

type_synonym 'a run = "(halt + 'a) \<times> st"

definition emit :: "event \<Rightarrow> st \<Rightarrow> st" where
  "emit e s = s\<lparr>out := out s @ [e]\<rparr>"

definition crash :: "pyexc \<Rightarrow> st \<Rightarrow> 'a run" where
  "crash e s = (Inl (Crash e), s)"

text \<open>\<^verbatim>\<open>error(text)\<close>: the message on standard error, then \<^verbatim>\<open>exit(1)\<close>.\<close>

definition error :: "string \<Rightarrow> st \<Rightarrow> 'a run" where
  "error text s = (Inl (Exit 1), emit (Stderr (''ERROR: '' @ text)) s)"

section \<open>Executor\<close>

definition execute_command :: "world \<Rightarrow> string \<Rightarrow> string \<Rightarrow> sdict \<Rightarrow> st \<Rightarrow> unit run" where
  "execute_command w cmd path env s =
     (let s1 = emit (Stdout cmd) s;
          env' = dict_merge (environ w) env
      in case shell w cmd path env' of
           Inl e \<Rightarrow> crash e s1
         | Inr retcode \<Rightarrow>
             let s2 = emit (Spawn cmd path env') s1
             in if retcode \<noteq> 0 then error (''Execution of '' @ [dquote] @ cmd @ [dquote] @ '' failed.'') s2 else (Inr (), s2))"

section \<open>Path matcher\<close>

definition get_path :: "world \<Rightarrow> yaml \<Rightarrow> sdict \<Rightarrow> st \<Rightarrow> string option run" where
  "get_path w root user_variables s =
     (case py_contains ''path'' root of
        Inl e \<Rightarrow> crash e s
      | Inr False \<Rightarrow> error (''No path in '' @ py_str root) s
      | Inr True \<Rightarrow>
          (case py_getitem root (YStr ''path'') of
             Inl e \<Rightarrow> crash e s
           | Inr p \<Rightarrow>
               let path = expanduser (homes w) (replace_with_variables (py_str p) (variables s) user_variables)
               in case re_match w path (cwd w) of Inl e \<Rightarrow> crash e s | Inr m \<Rightarrow> (Inr m, s)))"

section \<open>Phases\<close>

text \<open>\<^verbatim>\<open>build\<close> and \<^verbatim>\<open>test\<close> are the same code over the key \<^verbatim>\<open>build\<close> or
  \<^verbatim>\<open>test\<close>: skip when the key is absent, extract the project's variables and
  environment again into the shared dictionaries, assemble the command, run it in the
  matched path.\<close>

definition run_phase :: "string \<Rightarrow> world \<Rightarrow> yaml \<Rightarrow> string \<Rightarrow> sdict \<Rightarrow> st \<Rightarrow> unit run" where
  "run_phase key w proj_root path user_variables s =
     (case py_contains key proj_root of
        Inl e \<Rightarrow> crash e s
      | Inr False \<Rightarrow> (Inr (), s)
      | Inr True \<Rightarrow>
          (case extract_variables proj_root (variables s) user_variables of
             Inl e \<Rightarrow> crash e s
           | Inr vars \<Rightarrow>
               let s1 = s\<lparr>variables := vars\<rparr>
               in case extract_environment proj_root (environment s1) (variables s1) user_variables of
                    Inl e \<Rightarrow> crash e s1
                  | Inr env \<Rightarrow>
                      let s2 = s1\<lparr>environment := env\<rparr>
                      in case py_getitem proj_root (YStr key) of
                           Inl e \<Rightarrow> crash e s2
                         | Inr node \<Rightarrow>
                             (case py_iter node of
                                Inl e \<Rightarrow> crash e s2
                              | Inr steps \<Rightarrow>
                                  execute_command w (pipeline_command steps (variables s2) user_variables)
                                    path (environment s2) s2)))"

definition build :: "world \<Rightarrow> yaml \<Rightarrow> string \<Rightarrow> sdict \<Rightarrow> st \<Rightarrow> unit run" where
  "build = run_phase ''build''"

definition test :: "world \<Rightarrow> yaml \<Rightarrow> string \<Rightarrow> sdict \<Rightarrow> st \<Rightarrow> unit run" where
  "test = run_phase ''test''"

section \<open>Orchestrator\<close>

text \<open>The body of the project loop up to the match test (lines 155--157): look the
  project up, extend the shared variables with its own, match its path.\<close>

definition probe :: "world \<Rightarrow> yaml \<Rightarrow> yaml \<Rightarrow> sdict \<Rightarrow> st \<Rightarrow> (yaml \<times> string option) run" where
  "probe w projects p user_variables s =
     (case py_getitem projects p of
        Inl e \<Rightarrow> crash e s
      | Inr project \<Rightarrow>
          (case extract_variables project (variables s) user_variables of
             Inl e \<Rightarrow> crash e s
           | Inr vars \<Rightarrow>
               (case get_path w project user_variables (s\<lparr>variables := vars\<rparr>) of
                  (Inl h, s') \<Rightarrow> (Inl h, s')
                | (Inr path, s') \<Rightarrow> (Inr (project, path), s'))))"

text \<open>The matched project: build unless \<^verbatim>\<open>--no-build\<close>, then test if
  \<^verbatim>\<open>--test\<close>, then return.\<close>

definition run_project :: "world \<Rightarrow> cli \<Rightarrow> yaml \<Rightarrow> string \<Rightarrow> sdict \<Rightarrow> st \<Rightarrow> unit run" where
  "run_project w args project path user_variables s =
     (case (if no_build args then (Inr (), s) else build w project path user_variables s) of
        (Inl h, s1) \<Rightarrow> (Inl h, s1)
      | (Inr _, s1) \<Rightarrow> if test_flag args then test w project path user_variables s1 else (Inr (), s1))"

fun project_loop :: "world \<Rightarrow> cli \<Rightarrow> yaml \<Rightarrow> yaml list \<Rightarrow> sdict \<Rightarrow> st \<Rightarrow> unit run" where
  "project_loop w args projects [] user_variables s =
     error ''No matching configuration entry found.'' s"
| "project_loop w args projects (p # ps) user_variables s =
     (case probe w projects p user_variables s of
        (Inl h, s1) \<Rightarrow> (Inl h, s1)
      | (Inr (project, path), s1) \<Rightarrow>
          if path = None \<or> path = Some [] then project_loop w args projects ps user_variables s1
          else run_project w args project (the path) user_variables s1)"

definition init_state :: "cli \<Rightarrow> st" where
  "init_state args = \<lparr>variables = [(''os'', operating_system args), (''bt'', build_type args)],
                      environment = [], out = []\<rparr>"

text \<open>The rest of \<^verbatim>\<open>main\<close> once the configuration is loaded (lines 144--169):
  the basic variables, the global variables and environment, the loop over projects.\<close>

definition main_body :: "world \<Rightarrow> cli \<Rightarrow> sdict \<Rightarrow> yaml \<Rightarrow> unit run" where
  "main_body w args user_variables config =
     (let s0 = init_state args in
      case extract_variables config (variables s0) user_variables of
        Inl e \<Rightarrow> crash e s0
      | Inr vars \<Rightarrow>
          let s1 = s0\<lparr>variables := vars\<rparr>
          in case extract_environment config [] (variables s1) user_variables of
               Inl e \<Rightarrow> crash e s1
             | Inr env \<Rightarrow>
                 let s2 = s1\<lparr>environment := env\<rparr>
                 in case py_getitem config (YStr ''projects'') of
                      Inl e \<Rightarrow> crash e s2
                    | Inr projects \<Rightarrow>
                        (case py_iter projects of
                           Inl e \<Rightarrow> crash e s2
                         | Inr ps \<Rightarrow> project_loop w args projects ps user_variables s2))"

text \<open>\<^verbatim>\<open>main\<close> after argument parsing, on the loaded document: the user
  variables (lines 134--138), then the body.\<close>

definition main :: "world \<Rightarrow> cli \<Rightarrow> yaml \<Rightarrow> unit run" where
  "main w args config =
     (case parse_user_variables (variable args) of
        Inl e \<Rightarrow> crash e (init_state args)
      | Inr user_variables \<Rightarrow> main_body w args user_variables config)"

text \<open>The process's exit status: 0 when \<^verbatim>\<open>main\<close> returns, the argument of
  \<^verbatim>\<open>exit\<close>, 1 for an uncaught exception.\<close>

definition exit_status :: "unit run \<Rightarrow> int" where
  "exit_status r = (case fst r of Inr _ \<Rightarrow> 0 | Inl (Exit n) \<Rightarrow> n | Inl (Crash e) \<Rightarrow> 1)"

text \<open>The invariant of the variables dictionary: its keys are distinct and the first two are
  \<^verbatim>\<open>os\<close> and \<^verbatim>\<open>bt\<close>, the order \<^verbatim>\<open>main\<close> creates them in.\<close>

definition vars_inv :: "st \<Rightarrow> bool" where
  "vars_inv s \<longleftrightarrow> distinct (dict_keys (variables s)) \<and> take 2 (dict_keys (variables s)) = [''os'', ''bt'']"

section \<open>Characteristic equations\<close>

lemma project_loop_halt:
  "probe w P p u s = (Inl h, s1) \<Longrightarrow> project_loop w a P (p # ps) u s = (Inl h, s1)"
  by simp

lemma project_loop_skip:
  "probe w P p u s = (Inr (proj, path), s1) \<Longrightarrow> path = None \<or> path = Some [] \<Longrightarrow>
     project_loop w a P (p # ps) u s = project_loop w a P ps u s1"
  by auto

lemma project_loop_match:
  "probe w P p u s = (Inr (proj, Some m), s1) \<Longrightarrow> m \<noteq> [] \<Longrightarrow>
     project_loop w a P (p # ps) u s = run_project w a proj m u s1"
  by simp

lemma run_project_build_halt:
  "\<not> no_build a \<Longrightarrow> build w proj path u s = (Inl h, s1) \<Longrightarrow>
     run_project w a proj path u s = (Inl h, s1)"
  by (simp add: run_project_def)

lemma execute_command_ok:
  "shell w cmd path (dict_merge (environ w) env) = Inr 0 \<Longrightarrow>
     execute_command w cmd path env s =
       (Inr (), s\<lparr>out := out s @ [Stdout cmd, Spawn cmd path (dict_merge (environ w) env)]\<rparr>)"
  by (simp add: execute_command_def emit_def)

lemma execute_command_fail:
  "shell w cmd path (dict_merge (environ w) env) = Inr rc \<Longrightarrow> rc \<noteq> 0 \<Longrightarrow>
     execute_command w cmd path env s =
       (Inl (Exit 1), s\<lparr>out := out s @ [Stdout cmd, Spawn cmd path (dict_merge (environ w) env),
          Stderr (''ERROR: Execution of '' @ [dquote] @ cmd @ [dquote] @ '' failed.'')]\<rparr>)"
  by (simp add: execute_command_def emit_def error_def)

text \<open>Projects the loop passes over: each is looked up, its variables extracted and its
  path does not match (or matches the empty prefix); the state the loop then continues
  from.\<close>

fun skip_all :: "world \<Rightarrow> yaml \<Rightarrow> yaml list \<Rightarrow> sdict \<Rightarrow> st \<Rightarrow> st option" where
  "skip_all w P [] u s = Some s"
| "skip_all w P (p # ps) u s =
     (case probe w P p u s of
        (Inr (proj, path), s1) \<Rightarrow> if path = None \<or> path = Some [] then skip_all w P ps u s1 else None
      | (Inl h, s1) \<Rightarrow> None)"

lemma probe_out:
  "probe w P p u s = (Inr r, s1) \<Longrightarrow> out s1 = out s"
  by (auto simp: probe_def get_path_def crash_def error_def emit_def Let_def
      split: sum.splits bool.splits option.splits prod.splits)

lemma skip_all_loop:
  "skip_all w P ps u s = Some s' \<Longrightarrow>
     project_loop w a P ps u s = error ''No matching configuration entry found.'' s' \<and> out s' = out s"
proof (induction ps arbitrary: s)
  case Nil
  then show ?case by simp
next
  case (Cons p ps)
  then obtain proj path s1 where pr: "probe w P p u s = (Inr (proj, path), s1)"
    and sk: "path = None \<or> path = Some []" and rest: "skip_all w P ps u s1 = Some s'"
    by (auto split: prod.splits sum.splits if_splits)
  from Cons.IH [OF rest] pr sk probe_out [OF pr] show ?case
    by (simp add: project_loop_skip)
qed

lemma probe_no_match:
  assumes "py_getitem P p = Inr proj" "extract_variables proj (variables s) u = Inr vars"
    and "get_path w proj u (s\<lparr>variables := vars\<rparr>) = (Inr path, s1)"
  shows "probe w P p u s = (Inr (proj, path), s1)"
  using assms by (simp add: probe_def)

lemma get_path_state:
  "get_path w proj u s = (Inr m, s1) \<Longrightarrow> s1 = s"
  by (auto simp: get_path_def crash_def error_def Let_def split: sum.splits bool.splits)

lemma get_path_literal:
  assumes "py_contains ''path'' root = Inr True" "py_getitem root (YStr ''path'') = Inr (YStr p)"
    "CHR ''{'' \<notin> set p" "p = [] \<or> hd p \<noteq> CHR ''~''"
  shows "get_path w root u s = (case re_match w p (cwd w) of Inl e \<Rightarrow> crash e s | Inr m \<Rightarrow> (Inr m, s))"
  using assms by (simp add: get_path_def replace_with_variables_def subst_vars_no_brace expanduser_def)

lemma skip_all_prefix:
  "skip_all w P pre u s = Some s1 \<Longrightarrow> project_loop w a P (pre @ qs) u s = project_loop w a P qs u s1"
proof (induction pre arbitrary: s)
  case Nil then show ?case by simp
next
  case (Cons q pre)
  then obtain proj path s' where pr: "probe w P q u s = (Inr (proj, path), s')"
    and sk: "path = None \<or> path = Some []" and rest: "skip_all w P pre u s' = Some s1"
    by (auto split: prod.splits sum.splits if_splits)
  from Cons.IH [OF rest] project_loop_skip [OF pr sk] show ?case by simp
qed

lemma run_phase_ok:
  assumes "py_contains key proj = Inr True"
    and "extract_variables proj (variables s) u = Inr vars"
    and "extract_environment proj (environment s) vars u = Inr env"
    and "py_getitem proj (YStr key) = Inr node" and "py_iter node = Inr steps"
    and "shell w (pipeline_command steps vars u) path (dict_merge (environ w) env) = Inr 0"
  shows "run_phase key w proj path u s =
           (Inr (), s\<lparr>variables := vars, environment := env,
              out := out s @ [Stdout (pipeline_command steps vars u),
                              Spawn (pipeline_command steps vars u) path (dict_merge (environ w) env)]\<rparr>)"
  using assms by (simp add: run_phase_def execute_command_ok)

section \<open>The invariant of the variables dictionary\<close>

lemma vars_inv_extract:
  assumes "vars_inv s" "extract_variables root (variables s) u = Inr v'"
  shows "vars_inv (s\<lparr>variables := v'\<rparr>)"
  using extract_variables_cases [OF assms(2)]
proof
  assume "v' = variables s" with assms(1) show ?thesis by (simp add: vars_inv_def)
next
  assume "\<exists>kvs. v' = store_variables kvs (variables s) u"
  then obtain kvs where v: "v' = store_variables kvs (variables s) u" by blast
  obtain ks where ks: "keys_after (dict_keys (variables s)) (map fst kvs) = dict_keys (variables s) @ ks"
    using keys_after_prefix by blast
  have "length (take 2 (dict_keys (variables s))) = 2"
    using assms(1) by (simp add: vars_inv_def)
  then have "2 \<le> length (dict_keys (variables s))" by simp
  then have "take 2 (dict_keys (variables s) @ ks) = take 2 (dict_keys (variables s))" by simp
  then have t: "take 2 (dict_keys v') = [''os'', ''bt'']"
    using assms(1) ks by (simp add: vars_inv_def v dict_keys_store_variables)
  have "distinct (dict_keys v')"
    unfolding v by (rule distinct_store_variables) (use assms(1) in \<open>simp add: vars_inv_def\<close>)
  with t show ?thesis by (simp add: vars_inv_def)
qed

lemma vars_inv_same: "variables s' = variables s \<Longrightarrow> vars_inv s' = vars_inv s"
  by (simp add: vars_inv_def)

lemma execute_command_variables: "variables (snd (execute_command w c p e s)) = variables s"
  by (auto simp: execute_command_def Let_def emit_def error_def crash_def split: sum.splits)

lemma get_path_variables: "get_path w r u s = (x, s') \<Longrightarrow> variables s' = variables s"
  by (auto simp: get_path_def Let_def emit_def error_def crash_def split: sum.splits bool.splits)


lemma run_phase_variables:
  "variables (snd (run_phase k w r p u s)) = variables s \<or>
   extract_variables r (variables s) u = Inr (variables (snd (run_phase k w r p u s)))"
  unfolding run_phase_def
  by (simp add: crash_def execute_command_variables Let_def split: sum.split bool.split)

lemma vars_inv_of_extract:
  "vars_inv s \<Longrightarrow> variables s' = variables s \<or> extract_variables r (variables s) u = Inr (variables s') \<Longrightarrow> vars_inv s'"
  using vars_inv_extract [of s r u "variables s'"] by (auto simp: vars_inv_def)

lemma run_phase_inv: "vars_inv s \<Longrightarrow> vars_inv (snd (run_phase k w r p u s))"
  by (rule vars_inv_of_extract [OF _ run_phase_variables])

lemma probe_variables:
  "variables (snd (probe w P p u s)) = variables s \<or>
   (\<exists>proj. extract_variables proj (variables s) u = Inr (variables (snd (probe w P p u s))))"
  unfolding probe_def
  by (auto simp: crash_def dest: get_path_variables split: sum.split prod.split)

lemma probe_inv: "vars_inv s \<Longrightarrow> vars_inv (snd (probe w P p u s))"
  using probe_variables [of w P p u s] vars_inv_of_extract by blast


lemma build_inv: "vars_inv s \<Longrightarrow> vars_inv (snd (build w proj path u s))"
  unfolding build_def by (rule run_phase_inv)

lemma test_inv: "vars_inv s \<Longrightarrow> vars_inv (snd (test w proj path u s))"
  unfolding test_def by (rule run_phase_inv)

lemma run_project_inv: "vars_inv s \<Longrightarrow> vars_inv (snd (run_project w a proj path u s))"
proof -
  assume i: "vars_inv s"
  define b where "b = (if no_build a then (Inr (), s) else build w proj path u s)"
  have i1: "vars_inv (snd b)"
    unfolding b_def using build_inv [OF i] i by simp
  have "run_project w a proj path u s =
          (case b of (Inl h, s1) \<Rightarrow> (Inl h, s1)
           | (Inr _, s1) \<Rightarrow> if test_flag a then test w proj path u s1 else (Inr (), s1))"
    unfolding run_project_def b_def ..
  then show ?thesis
    using i1 test_inv [of "snd b" w proj path u]
    by (cases b; cases "fst b") auto
qed


lemma project_loop_inv: "vars_inv s \<Longrightarrow> vars_inv (snd (project_loop w a P ps u s))"
proof (induction ps arbitrary: s)
  case Nil
  then show ?case by (simp add: error_def emit_def vars_inv_def)
next
  case (Cons p ps)
  obtain r s1 where pr: "probe w P p u s = (r, s1)" by fastforce
  have i1: "vars_inv s1" using probe_inv [OF Cons.prems, of w P p u] pr by simp
  show ?case
  proof (cases r)
    case (Inl h) with pr i1 show ?thesis by simp
  next
    case (Inr x)
    then obtain project path where x: "x = (project, path)" by fastforce
    show ?thesis
      using pr Inr x Cons.IH [OF i1] run_project_inv [OF i1] by simp
  qed
qed

lemma init_state_inv: "vars_inv (init_state a)"
  by (simp add: init_state_def vars_inv_def dict_keys_def)

lemma crash_inv: "vars_inv s \<Longrightarrow> vars_inv (snd (crash e s))"
  by (simp add: crash_def emit_def vars_inv_def)

lemma vars_inv_environment [simp]: "vars_inv (s\<lparr>environment := e\<rparr>) = vars_inv s"
  by (simp add: vars_inv_def)

section \<open>Exit statuses\<close>

text \<open>A result that stops the run with \<^verbatim>\<open>exit(n)\<close> has \<open>n = 1\<close>: the only call of
  \<^verbatim>\<open>exit\<close> is in \<^verbatim>\<open>error\<close>.\<close>

lemma exit_error: "error t s = (Inl (Exit n), s') \<Longrightarrow> n = 1"
  by (simp add: error_def)

lemma exit_execute_command: "execute_command w c p e s = (Inl (Exit n), s') \<Longrightarrow> n = 1"
  by (auto simp: execute_command_def Let_def error_def crash_def split: sum.splits if_splits)

lemma exit_get_path: "get_path w r u s = (Inl (Exit n), s') \<Longrightarrow> n = 1"
  by (auto simp: get_path_def Let_def error_def crash_def split: sum.splits bool.splits)

lemma exit_run_phase: "run_phase k w r p u s = (Inl (Exit n), s') \<Longrightarrow> n = 1"
  by (auto simp: run_phase_def Let_def crash_def dest: exit_execute_command split: sum.splits bool.splits)

lemma exit_probe: "probe w P p u s = (Inl (Exit n), s') \<Longrightarrow> n = 1"
  by (auto simp: probe_def crash_def dest: exit_get_path split: sum.splits prod.splits)

lemma exit_run_project: "run_project w a proj path u s = (Inl (Exit n), s') \<Longrightarrow> n = 1"
  by (auto simp: run_project_def build_def test_def dest: exit_run_phase split: prod.splits sum.splits if_splits)

lemma exit_project_loop: "project_loop w a P ps u s = (Inl (Exit n), s') \<Longrightarrow> n = 1"
proof (induction ps arbitrary: s)
  case Nil then show ?case by (simp add: error_def)
next
  case (Cons p ps)
  obtain r s1 where pr: "probe w P p u s = (r, s1)" by fastforce
  show ?case
  proof (cases r)
    case (Inl h)
    with pr Cons.prems show ?thesis by (auto dest: exit_probe)
  next
    case (Inr x)
    then obtain proj path where "x = (proj, path)" by fastforce
    with pr Inr Cons.prems Cons.IH show ?thesis
      by (auto dest: exit_run_project split: if_splits)
  qed
qed

lemma exit_main: "main w a config = (Inl (Exit n), s') \<Longrightarrow> n = 1"
  by (auto simp: main_def main_body_def Let_def crash_def dest: exit_project_loop split: sum.splits)

section \<open>Example inputs\<close>

text \<open>What \<^verbatim>\<open>re.match\<close> does with a pattern free of metacharacters: the pattern
  itself if it is a prefix of the text. A world in \<^verbatim>\<open>/tmp/demo\<close> whose shell
  gives each command the status \<open>r\<close> assigns it.\<close>

definition literal_match :: "string \<Rightarrow> string \<Rightarrow> pyexc + string option" where
  "literal_match p t = (if take (length p) t = p then Inr (Some p) else Inr None)"

text \<open>A world whose \<^verbatim>\<open>re.match\<close> is the model of the \<^verbatim>\<open>re\<close> module
  (theory \<open>Regex\<close>); a pattern outside the modelled syntax is taken as
  \<^verbatim>\<open>re.error\<close> here, so this world is used only with patterns inside it.\<close>

definition re_model :: "string \<Rightarrow> string \<Rightarrow> pyexc + string option" where
  "re_model p t = (case py_re_match p t of Some r \<Rightarrow> r | None \<Rightarrow> Inl ReError)"

lemma literal_match_re_model:
  "list_all (\<lambda>c. c \<notin> set re_special) p \<Longrightarrow> literal_match p t = re_model p t"
  by (simp add: literal_match_def re_model_def py_re_match_def re_compile_literal rx_match_def ends_lit_rx)

lemma re_model_agrees:
  "\<forall>p t. py_re_match p t \<noteq> None \<longrightarrow> Some (re_model p t) = py_re_match p t"
  by (auto simp: re_model_def split: option.split)

definition example_world :: "(string \<Rightarrow> int) \<Rightarrow> world" where
  "example_world r = \<lparr>cwd = ''/tmp/demo'', environ = [(''PATH'', ''/usr/bin'')],
     homes = \<lparr>env_home = Some ''/root'', uid_home = None, user_home = (\<lambda>_. None)\<rparr>,
     shell = (\<lambda>c d e. Inr (r c)), re_match = literal_match\<rparr>"

definition example_state :: st where
  "example_state = \<lparr>variables = [(''os'', ''fedora''), (''bt'', ''Release'')], environment = [], out = []\<rparr>"

definition example_projects :: yaml where
  "example_projects = YMap
     [(''other'', YMap [(''path'', YStr ''/srv/other''), (''build'', YList [YStr ''make other''])]),
      (''demo'', YMap [(''path'', YStr ''/tmp/demo''), (''build'', YList [YStr ''make'']),
                       (''test'', YList [YStr ''make check''])]),
      (''also'', YMap [(''path'', YStr ''/tmp''), (''build'', YList [YStr ''make also''])])]"

lemma example_probe_other:
  "probe (example_world r) example_projects (YStr ''other'') [] example_state = (Inr (YMap [(''path'', YStr ''/srv/other''), (''build'', YList [YStr ''make other''])], None), example_state)"
proof -
  have "get_path (example_world r) (YMap [(''path'', YStr ''/srv/other''), (''build'', YList [YStr ''make other''])]) [] example_state =
     (case re_match (example_world r) ''/srv/other'' (cwd (example_world r)) of Inl e \<Rightarrow> crash e example_state | Inr m \<Rightarrow> (Inr m, example_state))"
    by (rule get_path_literal) simp_all
  then show ?thesis
    by (simp add: probe_def example_projects_def extract_variables_def node_entries_def example_world_def literal_match_def)
qed

lemma example_probe_demo:
  "probe (example_world r) example_projects (YStr ''demo'') [] example_state =
     (Inr (YMap [(''path'', YStr ''/tmp/demo''), (''build'', YList [YStr ''make'']), (''test'', YList [YStr ''make check''])], Some ''/tmp/demo''), example_state)"
proof -
  have "get_path (example_world r) (YMap [(''path'', YStr ''/tmp/demo''), (''build'', YList [YStr ''make'']), (''test'', YList [YStr ''make check''])]) [] example_state =
     (case re_match (example_world r) ''/tmp/demo'' (cwd (example_world r)) of Inl e \<Rightarrow> crash e example_state | Inr m \<Rightarrow> (Inr m, example_state))"
    by (rule get_path_literal) simp_all
  then show ?thesis
    by (simp add: probe_def example_projects_def extract_variables_def node_entries_def example_world_def literal_match_def)
qed

definition leak_projects :: yaml where
  "leak_projects = YMap
     [(''a'', YMap [(''variables'', YMap [(''root'', YStr ''/srv'')]), (''path'', YStr ''{root}/a'')]),
      (''b'', YMap [(''path'', YStr ''{root}/demo''), (''build'', YList [YStr ''make''])])]"

section \<open>Properties of the orchestrator\<close>

text \<open>C1: the first project whose path matches is the one run: when every project
  before it is passed over, the run is that project's build and test, and the projects
  after it are never looked at.\<close>

theorem first_match_wins:
  assumes "skip_all w P pre u s = Some s1"
    and "probe w P p u s1 = (Inr (proj, Some m), s2)" and "m \<noteq> []"
  shows "project_loop w a P (pre @ p # ps) u s = run_project w a proj m u s2"
  using assms(1)
proof (induction pre arbitrary: s)
  case Nil
  with assms(2,3) show ?case by simp
next
  case (Cons q pre)
  then obtain proj' path s' where pr: "probe w P q u s = (Inr (proj', path), s')"
    and sk: "path = None \<or> path = Some []" and rest: "skip_all w P pre u s' = Some s1"
    by (auto split: prod.splits sum.splits if_splits)
  from Cons.IH [OF rest] project_loop_skip [OF pr sk] show ?case by simp
qed

theorem first_match_wins_witness:
  "skip_all (example_world (\<lambda>_. 0)) example_projects [YStr ''other''] [] example_state = Some example_state \<and>
   probe (example_world (\<lambda>_. 0)) example_projects (YStr ''demo'') [] example_state =
     (Inr (YMap [(''path'', YStr ''/tmp/demo''), (''build'', YList [YStr ''make'']), (''test'', YList [YStr ''make check''])], Some ''/tmp/demo''), example_state) \<and>
   ''/tmp/demo'' \<noteq> [] \<and>
   project_loop (example_world (\<lambda>_. 0)) default_cli example_projects [YStr ''other'', YStr ''demo'', YStr ''also''] [] example_state =
     run_project (example_world (\<lambda>_. 0)) default_cli
       (YMap [(''path'', YStr ''/tmp/demo''), (''build'', YList [YStr ''make'']), (''test'', YList [YStr ''make check''])])
       ''/tmp/demo'' [] example_state"
proof -
  have sk: "skip_all (example_world (\<lambda>_. 0)) example_projects [YStr ''other''] [] example_state = Some example_state"
    by (simp add: example_probe_other)
  note pr = example_probe_demo [of "\<lambda>_. 0"]
  from first_match_wins [OF sk pr, of "default_cli" "[YStr ''also'']"] sk pr show ?thesis by simp
qed

text \<open>C2: when no project matches, the run stops with status 1 and its only output is
  the message \<^verbatim>\<open>ERROR: No matching configuration entry found.\<close>; no command is
  printed or run.\<close>

theorem no_match_error:
  assumes "skip_all w P ps u s = Some s'"
  shows "exit_status (project_loop w a P ps u s) = 1 \<and>
         out (snd (project_loop w a P ps u s)) = out s @ [Stderr ''ERROR: No matching configuration entry found.'']"
  using skip_all_loop [OF assms] by (simp add: error_def emit_def exit_status_def)

theorem no_match_error_witness:
  "skip_all (example_world (\<lambda>_. 0)) example_projects [YStr ''other''] [] example_state = Some example_state \<and>
   exit_status (project_loop (example_world (\<lambda>_. 0)) default_cli example_projects [YStr ''other''] [] example_state) = 1 \<and>
   out (snd (project_loop (example_world (\<lambda>_. 0)) default_cli example_projects [YStr ''other''] [] example_state)) =
     [Stderr ''ERROR: No matching configuration entry found.'']"
proof -
  have sk: "skip_all (example_world (\<lambda>_. 0)) example_projects [YStr ''other''] [] example_state = Some example_state"
    by (simp add: example_probe_other)
  from no_match_error [OF sk, of default_cli] sk show ?thesis by (simp add: example_state_def)
qed

text \<open>C3: when the build command fails, the run stops with status 1 after printing the
  command, running it and reporting it; the test phase is never reached, whatever the
  flags.\<close>

theorem build_failure_stops:
  assumes "\<not> no_build a" and "py_contains ''build'' proj = Inr True"
    and "extract_variables proj (variables s) u = Inr vars"
    and "extract_environment proj (environment s) vars u = Inr env"
    and "py_getitem proj (YStr ''build'') = Inr node" and "py_iter node = Inr steps"
    and "shell w (pipeline_command steps vars u) path (dict_merge (environ w) env) = Inr rc"
    and "rc \<noteq> 0"
  shows "run_project w a proj path u s =
           (Inl (Exit 1), s\<lparr>variables := vars, environment := env,
              out := out s @ [Stdout (pipeline_command steps vars u),
                              Spawn (pipeline_command steps vars u) path (dict_merge (environ w) env),
                              Stderr (''ERROR: Execution of '' @ [dquote] @ pipeline_command steps vars u @ [dquote] @ '' failed.'')]\<rparr>)"
proof -
  have "build w proj path u s =
           (Inl (Exit 1), s\<lparr>variables := vars, environment := env,
              out := out s @ [Stdout (pipeline_command steps vars u),
                              Spawn (pipeline_command steps vars u) path (dict_merge (environ w) env),
                              Stderr (''ERROR: Execution of '' @ [dquote] @ pipeline_command steps vars u @ [dquote] @ '' failed.'')]\<rparr>)"
    using assms(2-8) by (simp add: build_def run_phase_def execute_command_fail)
  with assms(1) show ?thesis by (rule run_project_build_halt)
qed

theorem build_failure_stops_witness:
  "\<not> no_build (default_cli\<lparr>test_flag := True\<rparr>) \<and>
   run_project (example_world (\<lambda>c. if c = ''make'' then 0 else 2)) (default_cli\<lparr>test_flag := True\<rparr>)
     (YMap [(''path'', YStr ''/tmp/demo''), (''build'', YList [YStr ''make'']), (''test'', YList [YStr ''make check''])])
     ''/tmp/demo'' [] example_state =
   (Inl (Exit 1), example_state\<lparr>variables := [(''os'', ''fedora''), (''bt'', ''Release'')], environment := [],
      out := [Stdout (pipeline_command [YStr ''make''] [(''os'', ''fedora''), (''bt'', ''Release'')] []),
              Spawn (pipeline_command [YStr ''make''] [(''os'', ''fedora''), (''bt'', ''Release'')] []) ''/tmp/demo''
                (dict_merge [(''PATH'', ''/usr/bin'')] []),
              Stderr (''ERROR: Execution of '' @ [dquote] @ pipeline_command [YStr ''make''] [(''os'', ''fedora''), (''bt'', ''Release'')] [] @ [dquote] @ '' failed.'')]\<rparr>)"
proof -
  let ?proj = "YMap [(''path'', YStr ''/tmp/demo''), (''build'', YList [YStr ''make'']), (''test'', YList [YStr ''make check''])]"
  let ?w = "example_world (\<lambda>c. if c = ''make'' then 0 else 2)"
  have pc: "pipeline_command [YStr ''make''] [(''os'', ''fedora''), (''bt'', ''Release'')] [] = banner ''make'' @ '' && make''"
    by (simp add: pipeline_command_def add_step_def replace_with_variables_def subst_vars_no_brace del: subst_vars.simps)
  have bn: "banner ''make'' @ '' && make'' \<noteq> ''make''"
    by (simp add: banner_def)
  have "run_project ?w (default_cli\<lparr>test_flag := True\<rparr>) ?proj ''/tmp/demo'' [] example_state =
   (Inl (Exit 1), example_state\<lparr>variables := [(''os'', ''fedora''), (''bt'', ''Release'')], environment := [],
      out := out example_state @ [Stdout (pipeline_command [YStr ''make''] [(''os'', ''fedora''), (''bt'', ''Release'')] []),
              Spawn (pipeline_command [YStr ''make''] [(''os'', ''fedora''), (''bt'', ''Release'')] []) ''/tmp/demo''
                (dict_merge (environ ?w) []),
              Stderr (''ERROR: Execution of '' @ [dquote] @ pipeline_command [YStr ''make''] [(''os'', ''fedora''), (''bt'', ''Release'')] [] @ [dquote] @ '' failed.'')]\<rparr>)"
    by (rule build_failure_stops [where rc = 2 and node = "YList [YStr ''make'']" and steps = "[YStr ''make'']"])
       (simp_all add: default_cli_def example_state_def extract_variables_def extract_environment_def
         node_entries_def example_world_def pc bn)
  then show ?thesis by (simp add: default_cli_def example_state_def example_world_def)
qed

text \<open>C4: the spec's end-to-end scenario. One project with path \<^verbatim>\<open>/tmp/demo\<close>
  and build step \<^verbatim>\<open>echo hi\<close>, run in \<^verbatim>\<open>/tmp/demo\<close> with no flags: the program
  prints and runs the command made of the step's banner, \<^verbatim>\<open> && \<close> and the step, in
  the matched directory, and returns normally.\<close>

theorem demo_end_to_end:
  assumes "cwd w = ''/tmp/demo''"
    and "re_match w ''/tmp/demo'' ''/tmp/demo'' = Inr (Some ''/tmp/demo'')"
    and "shell w (banner ''echo hi'' @ '' && echo hi'') ''/tmp/demo'' (dict_merge (environ w) []) = Inr 0"
  shows "main w default_cli
           (YMap [(''projects'', YMap [(''demo'', YMap [(''path'', YStr ''/tmp/demo''), (''build'', YList [YStr ''echo hi''])])])]) =
         (Inr (), \<lparr>variables = [(''os'', ''fedora''), (''bt'', ''Release'')], environment = [],
                   out = [Stdout (banner ''echo hi'' @ '' && echo hi''),
                          Spawn (banner ''echo hi'' @ '' && echo hi'') ''/tmp/demo'' (dict_merge (environ w) [])]\<rparr>)"
proof -
  let ?proj = "YMap [(''path'', YStr ''/tmp/demo''), (''build'', YList [YStr ''echo hi''])]"
  let ?s = "\<lparr>variables = [(''os'', ''fedora''), (''bt'', ''Release'')], environment = [], out = []\<rparr>"
  have "get_path w ?proj [] ?s = (case re_match w ''/tmp/demo'' (cwd w) of Inl e \<Rightarrow> crash e ?s | Inr m \<Rightarrow> (Inr m, ?s))"
    by (rule get_path_literal) simp_all
  with assms(1,2) have gp: "get_path w ?proj [] ?s = (Inr (Some ''/tmp/demo''), ?s)"
    by simp
  have pc: "pipeline_command [YStr ''echo hi''] [(''os'', ''fedora''), (''bt'', ''Release'')] [] =
      banner ''echo hi'' @ '' && echo hi''"
    by (simp add: pipeline_command_def add_step_def replace_with_variables_def subst_vars_no_brace del: subst_vars.simps)
  have bld: "build w ?proj ''/tmp/demo'' [] ?s = (Inr (), ?s\<lparr>out := [Stdout (banner ''echo hi'' @ '' && echo hi''),
                          Spawn (banner ''echo hi'' @ '' && echo hi'') ''/tmp/demo'' (dict_merge (environ w) [])]\<rparr>)"
    using assms(3) pc by (simp add: build_def run_phase_def extract_variables_def extract_environment_def
        node_entries_def execute_command_ok)
  show ?thesis
    using gp bld
    by (simp add: main_def main_body_def init_state_def default_cli_def get_system_name_def parse_user_variables_def
        extract_variables_def extract_environment_def node_entries_def probe_def run_project_def)
qed

theorem demo_end_to_end_witness:
  "cwd \<lparr>cwd = ''/tmp/demo'', environ = [(''PATH'', ''/usr/bin'')],
        homes = \<lparr>env_home = Some ''/root'', uid_home = None, user_home = (\<lambda>_. None)\<rparr>,
        shell = (\<lambda>c d e. Inr 0),
        re_match = (\<lambda>p t. if take (length p) t = p then Inr (Some p) else Inr None)\<rparr> = ''/tmp/demo'' \<and>
   exit_status (main \<lparr>cwd = ''/tmp/demo'', environ = [(''PATH'', ''/usr/bin'')],
        homes = \<lparr>env_home = Some ''/root'', uid_home = None, user_home = (\<lambda>_. None)\<rparr>,
        shell = (\<lambda>c d e. Inr 0),
        re_match = (\<lambda>p t. if take (length p) t = p then Inr (Some p) else Inr None)\<rparr> default_cli
      (YMap [(''projects'', YMap [(''demo'', YMap [(''path'', YStr ''/tmp/demo''), (''build'', YList [YStr ''echo hi''])])])])) = 0"
proof -
  let ?w = "\<lparr>cwd = ''/tmp/demo'', environ = [(''PATH'', ''/usr/bin'')],
        homes = \<lparr>env_home = Some ''/root'', uid_home = None, user_home = (\<lambda>_. None)\<rparr>,
        shell = (\<lambda>c d e. Inr 0),
        re_match = (\<lambda>p t. if take (length p) t = p then Inr (Some p) else Inr None)\<rparr>"
  have "main ?w default_cli
           (YMap [(''projects'', YMap [(''demo'', YMap [(''path'', YStr ''/tmp/demo''), (''build'', YList [YStr ''echo hi''])])])]) =
         (Inr (), \<lparr>variables = [(''os'', ''fedora''), (''bt'', ''Release'')], environment = [],
                   out = [Stdout (banner ''echo hi'' @ '' && echo hi''),
                          Spawn (banner ''echo hi'' @ '' && echo hi'') ''/tmp/demo'' (dict_merge (environ ?w) [])]\<rparr>)"
    by (rule demo_end_to_end) simp_all
  then show ?thesis by (simp add: exit_status_def)
qed

text \<open>C13: the project loop extends the shared variables in place: a project passed
  over leaves its variables behind, and the next project's path is resolved against
  them, not against the global variables the spec (\<open>\<section>\<close>4.6) says each project
  extends. In the witness, project \<open>a\<close> sets \<open>root\<close> to \<^verbatim>\<open>/srv\<close>, so project
  \<open>b\<close>'s path \<^verbatim>\<open>{root}/demo\<close> no longer matches \<^verbatim>\<open>/tmp/demo\<close>.\<close>

theorem project_skip_leaks:
  assumes "py_getitem P p = Inr proj" "extract_variables proj (variables s) u = Inr vars"
    and "fst (get_path w proj u (s\<lparr>variables := vars\<rparr>)) = Inr None"
  shows "project_loop w a P (p # ps) u s = project_loop w a P ps u (s\<lparr>variables := vars\<rparr>)"
proof -
  obtain s1 where gp: "get_path w proj u (s\<lparr>variables := vars\<rparr>) = (Inr None, s1)"
    using assms(3) by (cases "get_path w proj u (s\<lparr>variables := vars\<rparr>)") auto
  then have "s1 = s\<lparr>variables := vars\<rparr>" by (rule get_path_state)
  with probe_no_match [OF assms(1,2) gp] show ?thesis by (simp add: project_loop_skip)
qed

theorem project_skip_leaks_witness:
  "py_getitem leak_projects (YStr ''a'') = Inr (YMap [(''variables'', YMap [(''root'', YStr ''/srv'')]), (''path'', YStr ''{root}/a'')]) \<and>
   extract_variables (YMap [(''variables'', YMap [(''root'', YStr ''/srv'')]), (''path'', YStr ''{root}/a'')])
     [(''os'', ''fedora''), (''bt'', ''Release''), (''root'', ''/tmp'')] [] =
     Inr [(''os'', ''fedora''), (''bt'', ''Release''), (''root'', ''/srv'')] \<and>
   fst (get_path (example_world (\<lambda>_. 0)) (YMap [(''variables'', YMap [(''root'', YStr ''/srv'')]), (''path'', YStr ''{root}/a'')]) []
     (example_state\<lparr>variables := [(''os'', ''fedora''), (''bt'', ''Release''), (''root'', ''/srv'')]\<rparr>)) = Inr None \<and>
   project_loop (example_world (\<lambda>_. 0)) default_cli leak_projects [YStr ''a'', YStr ''b''] []
     (example_state\<lparr>variables := [(''os'', ''fedora''), (''bt'', ''Release''), (''root'', ''/tmp'')]\<rparr>) =
   (Inl (Exit 1), example_state\<lparr>variables := [(''os'', ''fedora''), (''bt'', ''Release''), (''root'', ''/srv'')],
                                 out := [Stderr ''ERROR: No matching configuration entry found.'']\<rparr>)"
proof -
  let ?a = "YMap [(''variables'', YMap [(''root'', YStr ''/srv'')]), (''path'', YStr ''{root}/a'')]"
  let ?w = "example_world (\<lambda>_. 0)"
  let ?v0 = "[(''os'', ''fedora''), (''bt'', ''Release''), (''root'', ''/tmp'')]"
  let ?v1 = "[(''os'', ''fedora''), (''bt'', ''Release''), (''root'', ''/srv'')]"
  have g: "py_getitem leak_projects (YStr ''a'') = Inr ?a" by (simp add: leak_projects_def)
  have e: "extract_variables ?a ?v0 [] = Inr ?v1"
    by (simp add: extract_variables_def node_entries_def py_items_def replace_with_variables_def
        placeholder_def str_replace_Cons)
  have pa: "get_path ?w ?a [] (example_state\<lparr>variables := ?v1\<rparr>) = (Inr None, example_state\<lparr>variables := ?v1\<rparr>)"
    by (simp add: get_path_def replace_with_variables_def placeholder_def str_replace_Cons expanduser_def
        example_world_def literal_match_def)
  have pb: "get_path ?w (YMap [(''path'', YStr ''{root}/demo''), (''build'', YList [YStr ''make''])]) []
      (example_state\<lparr>variables := ?v1\<rparr>) = (Inr None, example_state\<lparr>variables := ?v1\<rparr>)"
    by (simp add: get_path_def replace_with_variables_def placeholder_def str_replace_Cons expanduser_def
        example_world_def literal_match_def)
  have rest: "project_loop ?w default_cli leak_projects [YStr ''b''] [] (example_state\<lparr>variables := ?v1\<rparr>) =
      (Inl (Exit 1), example_state\<lparr>variables := ?v1, out := [Stderr ''ERROR: No matching configuration entry found.'']\<rparr>)"
    using pb by (simp add: probe_def leak_projects_def extract_variables_def node_entries_def error_def emit_def example_state_def)
  have e': "extract_variables ?a (variables (example_state\<lparr>variables := ?v0\<rparr>)) [] = Inr ?v1"
    using e by simp
  have pa': "fst (get_path ?w ?a [] ((example_state\<lparr>variables := ?v0\<rparr>)\<lparr>variables := ?v1\<rparr>)) = Inr None"
    using pa by simp
  from project_skip_leaks [OF g e' pa', of default_cli "[YStr ''b'']"] pa rest g e show ?thesis
    by simp
qed
text \<open>C14: a path pattern that matches the empty prefix of the working directory (the
  empty pattern, \<^verbatim>\<open>x?\<close>, \<^verbatim>\<open>.*?\<close>) is a match for \<^verbatim>\<open>re\<close>, but the test
  \<^verbatim>\<open>if not path\<close> treats the empty match text as no match and passes the project
  over.\<close>

theorem empty_match_skipped:
  assumes "py_getitem P p = Inr proj" and "extract_variables proj (variables s) u = Inr vars"
    and "py_contains ''path'' proj = Inr True" and "py_getitem proj (YStr ''path'') = Inr pv"
    and "re_match w (expanduser (homes w) (replace_with_variables (py_str pv) vars u)) (cwd w) = Inr (Some [])"
  shows "project_loop w a P (p # ps) u s = project_loop w a P ps u (s\<lparr>variables := vars\<rparr>)"
proof -
  have "get_path w proj u (s\<lparr>variables := vars\<rparr>) = (Inr (Some []), s\<lparr>variables := vars\<rparr>)"
    using assms(3-5) by (simp add: get_path_def)
  with probe_no_match [OF assms(1,2)] show ?thesis by (simp add: project_loop_skip)
qed

theorem empty_match_skipped_witness:
  "py_getitem (YMap [(''any'', YMap [(''path'', YStr [])])]) (YStr ''any'') = Inr (YMap [(''path'', YStr [])]) \<and>
   extract_variables (YMap [(''path'', YStr [])]) (variables example_state) [] = Inr (variables example_state) \<and>
   py_contains ''path'' (YMap [(''path'', YStr [])]) = Inr True \<and>
   py_getitem (YMap [(''path'', YStr [])]) (YStr ''path'') = Inr (YStr []) \<and>
   re_match (example_world (\<lambda>_. 0)) (expanduser (homes (example_world (\<lambda>_. 0)))
     (replace_with_variables (py_str (YStr [])) (variables example_state) [])) (cwd (example_world (\<lambda>_. 0))) = Inr (Some []) \<and>
   project_loop (example_world (\<lambda>_. 0)) default_cli (YMap [(''any'', YMap [(''path'', YStr [])])]) [YStr ''any''] [] example_state =
   (Inl (Exit 1), example_state\<lparr>out := [Stderr ''ERROR: No matching configuration entry found.'']\<rparr>)"
proof -
  let ?P = "YMap [(''any'', YMap [(''path'', YStr [])])]"
  let ?w = "example_world (\<lambda>_. 0)"
  have g: "py_getitem ?P (YStr ''any'') = Inr (YMap [(''path'', YStr [])])" by simp
  have e: "extract_variables (YMap [(''path'', YStr [])]) (variables example_state) [] = Inr (variables example_state)"
    by (simp add: extract_variables_def node_entries_def)
  have c: "py_contains ''path'' (YMap [(''path'', YStr [])]) = Inr True" by simp
  have gp: "py_getitem (YMap [(''path'', YStr [])]) (YStr ''path'') = Inr (YStr [])" by simp
  have m: "re_match ?w (expanduser (homes ?w) (replace_with_variables (py_str (YStr [])) (variables example_state) []))
      (cwd ?w) = Inr (Some [])"
    by (simp add: example_world_def literal_match_def expanduser_def replace_with_variables_def subst_vars_no_brace
        del: subst_vars.simps)
  from empty_match_skipped [OF g e c gp m, of default_cli "[]"] g e c gp m show ?thesis
    by (simp add: error_def emit_def example_state_def)
qed

text \<open>C15: a project with an empty \<^verbatim>\<open>build\<close> list still prints and runs a command,
  the empty one, although the spec (\<open>\<section>\<close>4.4, \<open>\<section>\<close>8) says an empty step
  list runs nothing and does not invoke the executor.\<close>

theorem empty_build_runs:
  assumes "py_contains ''build'' proj = Inr True"
    and "extract_variables proj (variables s) u = Inr vars"
    and "extract_environment proj (environment s) vars u = Inr env"
    and "py_getitem proj (YStr ''build'') = Inr (YList [])"
    and "shell w [] path (dict_merge (environ w) env) = Inr 0"
  shows "build w proj path u s =
           (Inr (), s\<lparr>variables := vars, environment := env,
                      out := out s @ [Stdout [], Spawn [] path (dict_merge (environ w) env)]\<rparr>)"
  using assms by (simp add: build_def run_phase_def pipeline_command_def execute_command_ok)

theorem empty_build_runs_witness:
  "py_contains ''build'' (YMap [(''path'', YStr ''/tmp/demo''), (''build'', YList [])]) = Inr True \<and>
   extract_variables (YMap [(''path'', YStr ''/tmp/demo''), (''build'', YList [])]) (variables example_state) [] =
     Inr (variables example_state) \<and>
   extract_environment (YMap [(''path'', YStr ''/tmp/demo''), (''build'', YList [])]) (environment example_state)
     (variables example_state) [] = Inr [] \<and>
   py_getitem (YMap [(''path'', YStr ''/tmp/demo''), (''build'', YList [])]) (YStr ''build'') = Inr (YList []) \<and>
   shell (example_world (\<lambda>_. 0)) [] ''/tmp/demo'' (dict_merge (environ (example_world (\<lambda>_. 0))) []) = Inr 0 \<and>
   build (example_world (\<lambda>_. 0)) (YMap [(''path'', YStr ''/tmp/demo''), (''build'', YList [])]) ''/tmp/demo'' [] example_state =
     (Inr (), example_state\<lparr>out := [Stdout [], Spawn [] ''/tmp/demo'' [(''PATH'', ''/usr/bin'')]]\<rparr>)"
proof -
  let ?p = "YMap [(''path'', YStr ''/tmp/demo''), (''build'', YList [])]"
  let ?w = "example_world (\<lambda>_. 0)"
  have c: "py_contains ''build'' ?p = Inr True" by simp
  have e: "extract_variables ?p (variables example_state) [] = Inr (variables example_state)"
    by (simp add: extract_variables_def node_entries_def)
  have n: "extract_environment ?p (environment example_state) (variables example_state) [] = Inr []"
    by (simp add: extract_environment_def node_entries_def example_state_def)
  have g: "py_getitem ?p (YStr ''build'') = Inr (YList [])" by simp
  have sh: "shell ?w [] ''/tmp/demo'' (dict_merge (environ ?w) []) = Inr 0" by (simp add: example_world_def)
  from empty_build_runs [OF c e n g sh] c e n g sh show ?thesis
    by (simp add: example_state_def example_world_def dict_merge_def)
qed

text \<open>C5: Every run of the program, whatever its outcome, leaves a variables dictionary
  whose keys are distinct and start with \<^verbatim>\<open>os\<close>, \<^verbatim>\<open>bt\<close>.\<close>

theorem main_preserves_vars_inv: "vars_inv (snd (main w a config))"
  unfolding main_def main_body_def Let_def
  using init_state_inv [of a]
  by (auto intro!: crash_inv project_loop_inv vars_inv_extract split: sum.split)


text \<open>C17: a \<^verbatim>\<open>-v\<close> argument without \<^verbatim>\<open>=\<close> ends the run with an uncaught
  \<^verbatim>\<open>IndexError\<close> (status 1) before anything is printed or run and before the
  configuration is looked at; the spec does not say what such an argument does.\<close>

theorem main_bad_variable_crashes:
  assumes "variable a = Some vs" and "v \<in> set vs" and "CHR ''='' \<notin> set v"
  shows "main w a config = (Inl (Crash IndexError), init_state a) \<and> exit_status (main w a config) = 1"
  using assms parse_user_loop_index_error [OF assms(2,3)]
  by (simp add: main_def main_body_def parse_user_variables_def crash_def exit_status_def)

theorem main_bad_variable_crashes_witness:
  "variable (default_cli\<lparr>variable := Some [''os=arch'', ''debug'']\<rparr>) = Some [''os=arch'', ''debug''] \<and>
   ''debug'' \<in> set [''os=arch'', ''debug''] \<and> CHR ''='' \<notin> set ''debug'' \<and>
   main (example_world (\<lambda>_. 0)) (default_cli\<lparr>variable := Some [''os=arch'', ''debug'']\<rparr>) example_projects =
     (Inl (Crash IndexError), init_state (default_cli\<lparr>variable := Some [''os=arch'', ''debug'']\<rparr>)) \<and>
   exit_status (main (example_world (\<lambda>_. 0)) (default_cli\<lparr>variable := Some [''os=arch'', ''debug'']\<rparr>) example_projects) = 1"
proof -
  have h: "variable (default_cli\<lparr>variable := Some [''os=arch'', ''debug'']\<rparr>) = Some [''os=arch'', ''debug'']"
    "''debug'' \<in> set [''os=arch'', ''debug'']" "CHR ''='' \<notin> set ''debug''"
    by simp_all
  from main_bad_variable_crashes [OF h, of "example_world (\<lambda>_. 0)" example_projects] h show ?thesis
    by (simp add: exit_status_def)
qed

text \<open>C10: a project without a \<^verbatim>\<open>path\<close> key reached by the loop ends the run with
  status 1 and the message \<^verbatim>\<open>ERROR: No path in\<close> followed by \<^verbatim>\<open>str()\<close> of the
  project; the projects after it are never looked at, even one that would match.\<close>

theorem missing_path_aborts:
  assumes "skip_all w P pre u s = Some s1"
    and "py_getitem P p = Inr proj" and "extract_variables proj (variables s1) u = Inr vars"
    and "py_contains ''path'' proj = Inr False"
  shows "project_loop w a P (pre @ p # ps) u s =
           (Inl (Exit 1), emit (Stderr (''ERROR: No path in '' @ py_str proj)) (s1\<lparr>variables := vars\<rparr>))"
proof -
  have "probe w P p u s1 = (Inl (Exit 1), emit (Stderr (''ERROR: No path in '' @ py_str proj)) (s1\<lparr>variables := vars\<rparr>))"
    using assms(2-4) by (simp add: probe_def get_path_def error_def)
  with skip_all_prefix [OF assms(1)] show ?thesis by simp
qed

theorem missing_path_aborts_witness:
  "skip_all (example_world (\<lambda>_. 0)) (YMap [(''x'', YMap [(''build'', YList [YStr ''make''])]), (''demo'', YMap [(''path'', YStr ''/tmp/demo'')])])
     [] [] example_state = Some example_state \<and>
   py_getitem (YMap [(''x'', YMap [(''build'', YList [YStr ''make''])]), (''demo'', YMap [(''path'', YStr ''/tmp/demo'')])]) (YStr ''x'') =
     Inr (YMap [(''build'', YList [YStr ''make''])]) \<and>
   extract_variables (YMap [(''build'', YList [YStr ''make''])]) (variables example_state) [] = Inr (variables example_state) \<and>
   py_contains ''path'' (YMap [(''build'', YList [YStr ''make''])]) = Inr False \<and>
   project_loop (example_world (\<lambda>_. 0)) default_cli
     (YMap [(''x'', YMap [(''build'', YList [YStr ''make''])]), (''demo'', YMap [(''path'', YStr ''/tmp/demo'')])])
     [YStr ''x'', YStr ''demo''] [] example_state =
     (Inl (Exit 1), example_state\<lparr>out := [Stderr (''ERROR: No path in {'' @ [squote] @ ''build'' @ [squote] @ '': ['' @ [squote] @ ''make'' @ [squote] @ '']}'')]\<rparr>)"
proof -
  let ?P = "YMap [(''x'', YMap [(''build'', YList [YStr ''make''])]), (''demo'', YMap [(''path'', YStr ''/tmp/demo'')])]"
  let ?proj = "YMap [(''build'', YList [YStr ''make''])]"
  have h1: "skip_all (example_world (\<lambda>_. 0)) ?P [] [] example_state = Some example_state" by simp
  have h2: "py_getitem ?P (YStr ''x'') = Inr ?proj" by simp
  have h3: "extract_variables ?proj (variables example_state) [] = Inr (variables example_state)"
    by (simp add: extract_variables_def node_entries_def)
  have h4: "py_contains ''path'' ?proj = Inr False" by simp
  have "py_str ?proj = ''{'' @ [squote] @ ''build'' @ [squote] @ '': ['' @ [squote] @ ''make'' @ [squote] @ '']}''"
    by (simp add: str_repr_def repr_char_def Let_def)
  with missing_path_aborts [OF h1 h2 h3 h4, of default_cli "[YStr ''demo'']"] h1 h2 h3 h4 show ?thesis
    by (simp add: emit_def example_state_def)
qed

text \<open>C9: \<^verbatim>\<open>execute_command\<close> prints the command, then runs it in the given
  directory with \<^verbatim>\<open>os.environ\<close> overlaid by the configured environment (a configured
  name takes its configured value, every other name keeps the process's), and reports
  it and exits 1 exactly when its status is not zero.\<close>

theorem execute_command_environment:
  assumes "distinct (dict_keys env)" and "shell w cmd path (dict_merge (environ w) env) = Inr rc"
  shows "\<exists>e. map_of e = map_of (environ w) ++ map_of env \<and>
           execute_command w cmd path env s =
             (if rc = 0 then (Inr (), s\<lparr>out := out s @ [Stdout cmd, Spawn cmd path e]\<rparr>)
              else (Inl (Exit 1), s\<lparr>out := out s @ [Stdout cmd, Spawn cmd path e,
                      Stderr (''ERROR: Execution of '' @ [dquote] @ cmd @ [dquote] @ '' failed.'')]\<rparr>))"
proof (intro exI conjI)
  show "map_of (dict_merge (environ w) env) = map_of (environ w) ++ map_of env"
    using assms(1) by (rule map_of_dict_merge)
  show "execute_command w cmd path env s =
          (if rc = 0 then (Inr (), s\<lparr>out := out s @ [Stdout cmd, Spawn cmd path (dict_merge (environ w) env)]\<rparr>)
           else (Inl (Exit 1), s\<lparr>out := out s @ [Stdout cmd, Spawn cmd path (dict_merge (environ w) env),
                   Stderr (''ERROR: Execution of '' @ [dquote] @ cmd @ [dquote] @ '' failed.'')]\<rparr>))"
    using assms(2) execute_command_ok [of w cmd path env s] execute_command_fail [of w cmd path env rc s]
    by (cases "rc = 0") simp_all
qed

theorem execute_command_environment_witness:
  "distinct (dict_keys [(''CC'', ''clang''), (''PATH'', ''/opt/bin'')]) \<and>
   shell (example_world (\<lambda>_. 0)) ''make'' ''/tmp/demo'' (dict_merge (environ (example_world (\<lambda>_. 0))) [(''CC'', ''clang''), (''PATH'', ''/opt/bin'')]) = Inr 0 \<and>
   (\<exists>e. map_of e = map_of [(''PATH'', ''/usr/bin'')] ++ map_of [(''CC'', ''clang''), (''PATH'', ''/opt/bin'')] \<and>
        map_of e ''PATH'' = Some ''/opt/bin'' \<and>
        execute_command (example_world (\<lambda>_. 0)) ''make'' ''/tmp/demo'' [(''CC'', ''clang''), (''PATH'', ''/opt/bin'')] example_state =
          (Inr (), example_state\<lparr>out := [Stdout ''make'', Spawn ''make'' ''/tmp/demo'' e]\<rparr>))"
proof -
  have h1: "distinct (dict_keys [(''CC'', ''clang''), (''PATH'', ''/opt/bin'')])" by (simp add: dict_keys_def)
  have h2: "shell (example_world (\<lambda>_. 0)) ''make'' ''/tmp/demo''
      (dict_merge (environ (example_world (\<lambda>_. 0))) [(''CC'', ''clang''), (''PATH'', ''/opt/bin'')]) = Inr 0"
    by (simp add: example_world_def)
  from execute_command_environment [OF h1 h2, of example_state] obtain e where
    e: "map_of e = map_of (environ (example_world (\<lambda>_. 0))) ++ map_of [(''CC'', ''clang''), (''PATH'', ''/opt/bin'')]"
    and x: "execute_command (example_world (\<lambda>_. 0)) ''make'' ''/tmp/demo'' [(''CC'', ''clang''), (''PATH'', ''/opt/bin'')] example_state =
          (Inr (), example_state\<lparr>out := out example_state @ [Stdout ''make'', Spawn ''make'' ''/tmp/demo'' e]\<rparr>)"
    by auto
  have "map_of e ''PATH'' = Some ''/opt/bin''" using e by (simp add: example_world_def)
  with e x h1 h2 show ?thesis by (auto simp: example_world_def example_state_def)
qed

text \<open>C16: \<^verbatim>\<open>get_path\<close> substitutes the variables first and expands \<^verbatim>\<open>~\<close>
  afterwards. On a well-formed path template whose resolved text starts with \<^verbatim>\<open>~/\<close>,
  whether the tilde is written in the template or brought in by a variable's value,
  the pattern given to \<^verbatim>\<open>re\<close> starts with the home directory. The spec
  (\<open>\<section>\<close>4.3) expands \<^verbatim>\<open>~\<close> in the pattern and then substitutes, which
  leaves a tilde from a variable in place: with \<open>base = ~\<close> the pattern
  \<^verbatim>\<open>{base}/src\<close> is matched as \<^verbatim>\<open>/root/src\<close>, not \<^verbatim>\<open>~/src\<close>.\<close>

theorem path_tilde_after_substitution:
  assumes "list_all part_ok ps" "dict_ok user" "dict_ok (variables s)"
    and "map_of kvs ''path'' = Some (YStr (render ps))"
    and "resolve_spec user (variables s) ps = CHR ''~'' # CHR ''/'' # t"
    and "env_home (homes w) = Some h"
  shows "get_path w (YMap kvs) user s =
           (case re_match w (home_join h (CHR ''/'' # t)) (cwd w) of
              Inl e \<Rightarrow> crash e s
            | Inr m \<Rightarrow> (Inr m, s))"
proof -
  have k: "''path'' \<in> set (map fst kvs)"
    using map_of_SomeD [OF assms(4)] by force
  have "expanduser (homes w) (replace_with_variables (render ps) (variables s) user) = home_join h (CHR ''/'' # t)"
    using assms(5,6) by (simp add: replace_render_resolve [OF assms(1-3)] expanduser_def)
  with k assms(4) show ?thesis by (simp add: get_path_def)
qed

theorem path_tilde_after_substitution_witness:
  "list_all part_ok [Ph ''base'', Lit ''/src''] \<and> dict_ok [] \<and>
   dict_ok (variables (example_state\<lparr>variables := [(''base'', ''~'')]\<rparr>)) \<and>
   map_of [(''path'', YStr ''{base}/src'')] ''path'' = Some (YStr (render [Ph ''base'', Lit ''/src''])) \<and>
   resolve_spec [] (variables (example_state\<lparr>variables := [(''base'', ''~'')]\<rparr>)) [Ph ''base'', Lit ''/src''] =
     CHR ''~'' # CHR ''/'' # ''src'' \<and>
   env_home (homes (example_world (\<lambda>_. 0))) = Some ''/root'' \<and>
   get_path (example_world (\<lambda>_. 0)) (YMap [(''path'', YStr ''{base}/src'')]) []
     (example_state\<lparr>variables := [(''base'', ''~'')]\<rparr>) =
     (Inr None, example_state\<lparr>variables := [(''base'', ''~'')]\<rparr>)"
proof -
  have h: "list_all part_ok [Ph ''base'', Lit ''/src'']" "dict_ok []"
    "dict_ok (variables (example_state\<lparr>variables := [(''base'', ''~'')]\<rparr>))"
    "map_of [(''path'', YStr ''{base}/src'')] ''path'' = Some (YStr (render [Ph ''base'', Lit ''/src'']))"
    "resolve_spec [] (variables (example_state\<lparr>variables := [(''base'', ''~'')]\<rparr>)) [Ph ''base'', Lit ''/src''] =
       CHR ''~'' # CHR ''/'' # ''src''"
    "env_home (homes (example_world (\<lambda>_. 0))) = Some ''/root''"
    by (simp_all add: braces_free_def dict_ok_def render_def placeholder_def resolve_spec_def lookup2_def
        example_world_def)
  from path_tilde_after_substitution [OF h] h show ?thesis
    by (simp add: example_world_def literal_match_def home_join_def)
qed

text \<open>C8: with \<^verbatim>\<open>--test\<close> and both phases succeeding, a matched project's build
  command is printed and run, then its test command, both in the matched directory, and
  the run returns normally. Each phase extracts the project's variables and environment
  again on top of the previous phase's: the test phase resolves its steps against
  variables extracted once more than the build's.\<close>

theorem build_then_test:
  assumes "\<not> no_build a" and "test_flag a"
    and "py_contains ''build'' proj = Inr True" and "py_contains ''test'' proj = Inr True"
    and "extract_variables proj (variables s) u = Inr v1" and "extract_environment proj (environment s) v1 u = Inr e1"
    and "py_getitem proj (YStr ''build'') = Inr nb" and "py_iter nb = Inr sb"
    and "shell w (pipeline_command sb v1 u) path (dict_merge (environ w) e1) = Inr 0"
    and "extract_variables proj v1 u = Inr v2" and "extract_environment proj e1 v2 u = Inr e2"
    and "py_getitem proj (YStr ''test'') = Inr nt" and "py_iter nt = Inr st"
    and "shell w (pipeline_command st v2 u) path (dict_merge (environ w) e2) = Inr 0"
  shows "run_project w a proj path u s =
           (Inr (), s\<lparr>variables := v2, environment := e2,
              out := out s @ [Stdout (pipeline_command sb v1 u), Spawn (pipeline_command sb v1 u) path (dict_merge (environ w) e1),
                              Stdout (pipeline_command st v2 u), Spawn (pipeline_command st v2 u) path (dict_merge (environ w) e2)]\<rparr>)"
proof -
  let ?s1 = "s\<lparr>variables := v1, environment := e1,
              out := out s @ [Stdout (pipeline_command sb v1 u), Spawn (pipeline_command sb v1 u) path (dict_merge (environ w) e1)]\<rparr>"
  have b: "build w proj path u s = (Inr (), ?s1)"
    unfolding build_def using assms(3,5,6,7,8,9) by (rule run_phase_ok)
  have t: "test w proj path u ?s1 =
             (Inr (), ?s1\<lparr>variables := v2, environment := e2,
                out := out ?s1 @ [Stdout (pipeline_command st v2 u), Spawn (pipeline_command st v2 u) path (dict_merge (environ w) e2)]\<rparr>)"
    unfolding test_def by (rule run_phase_ok) (use assms(4,10-14) in simp_all)
  from assms(1,2) b t show ?thesis by (simp add: run_project_def)
qed

theorem build_then_test_witness:
  "\<not> no_build (default_cli\<lparr>test_flag := True\<rparr>) \<and> test_flag (default_cli\<lparr>test_flag := True\<rparr>) \<and>
   run_project (example_world (\<lambda>_. 0)) (default_cli\<lparr>test_flag := True\<rparr>)
     (YMap [(''variables'', YMap [(''flags'', YStr ''{flags} -O2'')]), (''path'', YStr ''/tmp/demo''),
            (''build'', YList [YStr ''cc {flags}'']), (''test'', YList [YStr ''run {flags}''])])
     ''/tmp/demo'' [] (example_state\<lparr>variables := [(''flags'', ''-Wall -O2'')]\<rparr>) =
   (Inr (), example_state\<lparr>variables := [(''flags'', ''-Wall -O2 -O2 -O2'')], environment := [],
      out := [Stdout (banner ''cc -Wall -O2 -O2'' @ '' && cc -Wall -O2 -O2''),
              Spawn (banner ''cc -Wall -O2 -O2'' @ '' && cc -Wall -O2 -O2'') ''/tmp/demo'' [(''PATH'', ''/usr/bin'')],
              Stdout (banner ''run -Wall -O2 -O2 -O2'' @ '' && run -Wall -O2 -O2 -O2''),
              Spawn (banner ''run -Wall -O2 -O2 -O2'' @ '' && run -Wall -O2 -O2 -O2'') ''/tmp/demo'' [(''PATH'', ''/usr/bin'')]]\<rparr>)"
proof -
  let ?p = "YMap [(''variables'', YMap [(''flags'', YStr ''{flags} -O2'')]), (''path'', YStr ''/tmp/demo''),
            (''build'', YList [YStr ''cc {flags}'']), (''test'', YList [YStr ''run {flags}''])]"
  let ?a = "default_cli\<lparr>test_flag := True\<rparr>"
  let ?w = "example_world (\<lambda>_. 0)"
  let ?s = "example_state\<lparr>variables := [(''flags'', ''-Wall -O2'')]\<rparr>"
  have nv: "node_entries ''variables'' ?p = Inr (Some [(''flags'', YStr ''{flags} -O2'')])"
    by (rule node_entries_present) simp_all
  have ne: "node_entries ''environment'' ?p = Inr None"
    by (rule node_entries_absent) simp
  have x1: "extract_variables ?p (variables ?s) [] = Inr [(''flags'', ''-Wall -O2 -O2'')]"
    using nv by (simp add: extract_variables_def example_state_def replace_with_variables_def placeholder_def str_replace_Cons)
  have x2: "extract_variables ?p [(''flags'', ''-Wall -O2 -O2'')] [] = Inr [(''flags'', ''-Wall -O2 -O2 -O2'')]"
    using nv by (simp add: extract_variables_def replace_with_variables_def placeholder_def str_replace_Cons)
  have e1: "extract_environment ?p (environment ?s) [(''flags'', ''-Wall -O2 -O2'')] [] = Inr []"
    using ne by (simp add: extract_environment_def example_state_def)
  have e2: "extract_environment ?p [] [(''flags'', ''-Wall -O2 -O2 -O2'')] [] = Inr []"
    using ne by (simp add: extract_environment_def)
  have pb: "pipeline_command [YStr ''cc {flags}''] [(''flags'', ''-Wall -O2 -O2'')] [] =
     banner ''cc -Wall -O2 -O2'' @ '' && cc -Wall -O2 -O2''"
    by (simp add: pipeline_command_def add_step_def replace_with_variables_def placeholder_def str_replace_Cons)
  have pt: "pipeline_command [YStr ''run {flags}''] [(''flags'', ''-Wall -O2 -O2 -O2'')] [] =
     banner ''run -Wall -O2 -O2 -O2'' @ '' && run -Wall -O2 -O2 -O2''"
    by (simp add: pipeline_command_def add_step_def replace_with_variables_def placeholder_def str_replace_Cons)
  have cb: "py_contains ''build'' ?p = Inr True" and ct: "py_contains ''test'' ?p = Inr True" by simp_all
  have gb: "py_getitem ?p (YStr ''build'') = Inr (YList [YStr ''cc {flags}''])"
    and gt: "py_getitem ?p (YStr ''test'') = Inr (YList [YStr ''run {flags}''])" by simp_all
  have ib: "py_iter (YList [YStr ''cc {flags}'']) = Inr [YStr ''cc {flags}'']"
    and it: "py_iter (YList [YStr ''run {flags}'']) = Inr [YStr ''run {flags}'']" by simp_all
  have sh: "shell ?w c d e = Inr 0" for c d e by (simp add: example_world_def)
  have dm: "dict_merge (environ ?w) [] = [(''PATH'', ''/usr/bin'')]" by (simp add: example_world_def dict_merge_def)
  have "run_project ?w ?a ?p ''/tmp/demo'' [] ?s =
           (Inr (), ?s\<lparr>variables := [(''flags'', ''-Wall -O2 -O2 -O2'')], environment := [],
              out := out ?s @ [Stdout (pipeline_command [YStr ''cc {flags}''] [(''flags'', ''-Wall -O2 -O2'')] []),
                Spawn (pipeline_command [YStr ''cc {flags}''] [(''flags'', ''-Wall -O2 -O2'')] []) ''/tmp/demo'' (dict_merge (environ ?w) []),
                Stdout (pipeline_command [YStr ''run {flags}''] [(''flags'', ''-Wall -O2 -O2 -O2'')] []),
                Spawn (pipeline_command [YStr ''run {flags}''] [(''flags'', ''-Wall -O2 -O2 -O2'')] []) ''/tmp/demo'' (dict_merge (environ ?w) [])]\<rparr>)"
    by (rule build_then_test [OF _ _ cb ct x1 e1 gb ib sh x2 e2 gt it sh]) (simp_all add: default_cli_def)
  then show ?thesis by (simp add: pb pt dm default_cli_def example_state_def)
qed


text \<open>C29: the path is used as a regular expression without escaping, and the build
  runs in the text the pattern matched, not in the working directory. With \<^verbatim>\<open>re\<close>
  as in CPython 3.11, a project at \<^verbatim>\<open>/src/c++\<close> run from \<^verbatim>\<open>/src/c++\<close> matches
  (\<^verbatim>\<open>c++\<close> is a possessive \<^verbatim>\<open>c+\<close>), but the match is \<^verbatim>\<open>/src/c\<close>, and
  the build and tests are run in \<^verbatim>\<open>/src/c\<close>, another directory.\<close>

theorem plusplus_path_runs_elsewhere:
  assumes "re_match w = re_model"
    and "cwd w = ''/src/c++''"
  shows "project_loop w a (YMap [(''cpp'', YMap [(''path'', YStr ''/src/c++''), (''build'', YList [YStr ''make''])])])
           [YStr ''cpp''] u s =
         run_project w a (YMap [(''path'', YStr ''/src/c++''), (''build'', YList [YStr ''make''])]) ''/src/c'' u s"
proof -
  let ?proj = "YMap [(''path'', YStr ''/src/c++''), (''build'', YList [YStr ''make''])]"
  have m: "py_re_match ''/src/c++'' ''/src/c++'' = Some (Inr (Some ''/src/c''))" by code_simp
  with assms have r: "re_match w ''/src/c++'' (cwd w) = Inr (Some ''/src/c'')" by (simp add: re_model_def)
  have "get_path w ?proj u s = (case re_match w ''/src/c++'' (cwd w) of Inl e \<Rightarrow> crash e s | Inr m \<Rightarrow> (Inr m, s))"
    by (rule get_path_literal) simp_all
  with r have g: "get_path w ?proj u s = (Inr (Some ''/src/c''), s)" by simp
  have x: "extract_variables ?proj (variables s) u = Inr (variables s)"
    by (simp add: extract_variables_def node_entries_def)
  have "probe w (YMap [(''cpp'', ?proj)]) (YStr ''cpp'') u s = (Inr (?proj, Some ''/src/c''), s)"
    using g x by (simp add: probe_def)
  then show ?thesis by (rule project_loop_match) simp
qed

theorem plusplus_path_runs_elsewhere_witness:
  "re_match ((example_world (\<lambda>_. 0))\<lparr>cwd := ''/src/c++'', re_match := re_model\<rparr>) = re_model \<and>
   cwd ((example_world (\<lambda>_. 0))\<lparr>cwd := ''/src/c++'', re_match := re_model\<rparr>) = ''/src/c++'' \<and>
   project_loop ((example_world (\<lambda>_. 0))\<lparr>cwd := ''/src/c++'', re_match := re_model\<rparr>) default_cli
     (YMap [(''cpp'', YMap [(''path'', YStr ''/src/c++''), (''build'', YList [YStr ''make''])])]) [YStr ''cpp''] [] example_state =
   (Inr (), example_state\<lparr>out := [Stdout (banner ''make'' @ '' && make''),
                                    Spawn (banner ''make'' @ '' && make'') ''/src/c'' [(''PATH'', ''/usr/bin'')]]\<rparr>)"
proof -
  let ?w = "(example_world (\<lambda>_. 0))\<lparr>cwd := ''/src/c++'', re_match := re_model\<rparr>"
  let ?proj = "YMap [(''path'', YStr ''/src/c++''), (''build'', YList [YStr ''make''])]"
  have h1: "re_match ?w = re_model" by simp
  have h2: "cwd ?w = ''/src/c++''" by simp
  have pc: "pipeline_command [YStr ''make''] (variables example_state) [] = banner ''make'' @ '' && make''"
    by (simp add: example_state_def pipeline_command_def add_step_def replace_with_variables_def
        subst_vars_no_brace del: subst_vars.simps)
  have "run_project ?w default_cli ?proj ''/src/c'' [] example_state =
          (Inr (), example_state\<lparr>variables := variables example_state, environment := environment example_state,
             out := out example_state @ [Stdout (pipeline_command [YStr ''make''] (variables example_state) []),
               Spawn (pipeline_command [YStr ''make''] (variables example_state) []) ''/src/c'' (dict_merge (environ ?w) (environment example_state))]\<rparr>)"
    unfolding run_project_def build_def
    by (subst run_phase_ok [where node = "YList [YStr ''make'']" and steps = "[YStr ''make'']"])
       (simp_all add: default_cli_def example_world_def extract_variables_def extract_environment_def node_entries_def example_state_def)
  with plusplus_path_runs_elsewhere [OF h1 h2, of default_cli "[]" example_state] h1 h2 pc
  show ?thesis by (simp add: example_state_def example_world_def dict_merge_def)
qed


text \<open>C30: once the command line is parsed and the configuration loaded, the exit
  status of \<^verbatim>\<open>main\<close> is always 0 or 1, and it is 0 exactly when \<^verbatim>\<open>main\<close>
  returns normally: every \<^verbatim>\<open>exit\<close> of the program is \<^verbatim>\<open>exit(1)\<close> in
  \<^verbatim>\<open>error\<close>, and an uncaught exception also gives 1.\<close>

theorem exit_status_bounds:
  "exit_status (main w a config) \<in> {0, 1} \<and>
   (exit_status (main w a config) = 0 \<longleftrightarrow> fst (main w a config) = Inr ())"
proof (cases "main w a config")
  case (Pair r s')
  show ?thesis
  proof (cases r)
    case (Inl h)
    show ?thesis
    proof (cases h)
      case (Exit n)
      with Pair Inl exit_main [of w a config n s'] show ?thesis by (simp add: exit_status_def)
    next
      case (Crash e)
      with Pair Inl show ?thesis by (simp add: exit_status_def)
    qed
  next
    case (Inr x)
    with Pair show ?thesis by (simp add: exit_status_def)
  qed
qed

text \<open>C31: a configuration document that is not a mapping (an empty file, which
  \<^verbatim>\<open>yaml.safe_load\<close> gives as \<^verbatim>\<open>None\<close>, a number, a string or a list) ends the
  run with an uncaught \<^verbatim>\<open>TypeError\<close> before anything is printed, whatever the
  command line and the world. The spec requires a root mapping and says nothing of other
  documents.\<close>

theorem main_config_not_mapping:
  assumes "parse_user_variables (variable a) = Inr u" and "\<forall>kvs. cfg \<noteq> YMap kvs"
  shows "main w a cfg = (Inl (Crash TypeError), init_state a)"
  using assms
  by (cases cfg) (auto simp: main_def main_body_def extract_variables_def extract_environment_def
      node_entries_def crash_def init_state_def Let_def split: bool.split)

theorem main_config_not_mapping_witness:
  "parse_user_variables (variable default_cli) = Inr [] \<and> (\<forall>kvs. YNull \<noteq> YMap kvs) \<and>
   main (example_world (\<lambda>_. 0)) default_cli YNull = (Inl (Crash TypeError), init_state default_cli)"
proof -
  have h: "parse_user_variables (variable default_cli) = Inr []" "\<forall>kvs. YNull \<noteq> YMap kvs"
    by (simp_all add: parse_user_variables_def default_cli_def)
  from main_config_not_mapping [OF h] h show ?thesis by simp
qed

end
