(* ===== verification/Schema.thy ===== *)
theory Schema
  imports Orchestrator
begin

text \<open>
  The configuration schema of the spec (section 3) as a type discipline on the loaded
  YAML document, and what it guarantees about the code of \<^verbatim>\<open>src/builder.py\<close>.
  \<^item> \<open>config_ok\<close>: the root is a mapping with optional \<^verbatim>\<open>variables\<close> and
    \<^verbatim>\<open>environment\<close> mappings of scalars and a \<^verbatim>\<open>projects\<close> mapping of project specs.
  \<^item> \<open>project_ok\<close>: a project spec is a mapping whose optional keys are a string
    \<^verbatim>\<open>path\<close>, the two mappings and \<^verbatim>\<open>build\<close>/\<^verbatim>\<open>test\<close> sequences of scalars.
  Type soundness: for a well-typed document the dictionary and list operations of the code
  never raise. The only exceptions left come from the interfaces: \<^verbatim>\<open>re.error\<close> from
  the pattern, \<^verbatim>\<open>OSError\<close> from the shell, and \<^verbatim>\<open>IndexError\<close> from a \<^verbatim>\<open>-v\<close>
  argument without \<^verbatim>\<open>=\<close>.
  Progress: when those interfaces cannot fail, every run ends in one of the two final
  states of the orchestrator, Done or NoMatch.
  The lemmas follow the functions bottom-up, each stating which exceptions it can raise.
\<close>

section \<open>The schema\<close>

fun is_scalar :: "yaml \<Rightarrow> bool" where
  "is_scalar (YList _) = False"
| "is_scalar (YMap _) = False"
| "is_scalar _ = True"

fun is_str :: "yaml \<Rightarrow> bool" where
  "is_str (YStr _) = True"
| "is_str _ = False"

fun mapping_of :: "(yaml \<Rightarrow> bool) \<Rightarrow> yaml \<Rightarrow> bool" where
  "mapping_of P (YMap kvs) = (distinct (map fst kvs) \<and> list_all (\<lambda>kv. P (snd kv)) kvs)"
| "mapping_of P _ = False"

fun sequence_of :: "(yaml \<Rightarrow> bool) \<Rightarrow> yaml \<Rightarrow> bool" where
  "sequence_of P (YList xs) = list_all P xs"
| "sequence_of P _ = False"

definition optional_key :: "string \<Rightarrow> (yaml \<Rightarrow> bool) \<Rightarrow> (string \<times> yaml) list \<Rightarrow> bool" where
  "optional_key k P kvs = (case map_of kvs k of None \<Rightarrow> True | Some v \<Rightarrow> P v)"

definition project_ok :: "yaml \<Rightarrow> bool" where
  "project_ok pr =
     (case pr of
        YMap kvs \<Rightarrow>
          distinct (map fst kvs) \<and> optional_key ''path'' is_str kvs \<and>
          optional_key ''variables'' (mapping_of is_scalar) kvs \<and>
          optional_key ''environment'' (mapping_of is_scalar) kvs \<and>
          optional_key ''build'' (sequence_of is_scalar) kvs \<and>
          optional_key ''test'' (sequence_of is_scalar) kvs
      | _ \<Rightarrow> False)"

definition config_ok :: "yaml \<Rightarrow> bool" where
  "config_ok c =
     (case c of
        YMap kvs \<Rightarrow>
          distinct (map fst kvs) \<and>
          optional_key ''variables'' (mapping_of is_scalar) kvs \<and>
          optional_key ''environment'' (mapping_of is_scalar) kvs \<and>
          (case map_of kvs ''projects'' of None \<Rightarrow> False | Some ps \<Rightarrow> mapping_of project_ok ps)
      | _ \<Rightarrow> False)"

text \<open>Every project names its path, the case in which no project ends the run with
  the missing-path error.\<close>

definition paths_given :: "yaml \<Rightarrow> bool" where
  "paths_given c =
     (case c of
        YMap kvs \<Rightarrow>
          (case map_of kvs ''projects'' of
             Some (YMap ps) \<Rightarrow>
               list_all (\<lambda>kv. case snd kv of YMap pkvs \<Rightarrow> ''path'' \<in> set (map fst pkvs) | _ \<Rightarrow> False) ps
           | _ \<Rightarrow> False)
      | _ \<Rightarrow> False)"

text \<open>The contracts of the two interfaces of the world: \<^verbatim>\<open>re.compile\<close> and
  \<^verbatim>\<open>match\<close> raise only \<^verbatim>\<open>re.error\<close>, \<^verbatim>\<open>subprocess.call\<close> only
  \<^verbatim>\<open>OSError\<close>.\<close>

definition re_errors_only :: "world \<Rightarrow> bool" where
  "re_errors_only w \<longleftrightarrow> (\<forall>p t e. re_match w p t = Inl e \<longrightarrow> e = ReError)"

definition shell_errors_only :: "world \<Rightarrow> bool" where
  "shell_errors_only w \<longleftrightarrow> (\<forall>c d env e. shell w c d env = Inl e \<longrightarrow> e = OSError)"

text \<open>The conditions of progress: every command succeeds and every pattern compiles.\<close>

definition shell_succeeds :: "world \<Rightarrow> bool" where
  "shell_succeeds w \<longleftrightarrow> (\<forall>c d env. shell w c d env = Inr 0)"

definition re_total :: "world \<Rightarrow> bool" where
  "re_total w \<longleftrightarrow> (\<forall>p t e. re_match w p t \<noteq> Inl e)"


section \<open>Well-typed nodes\<close>

lemma node_entries_typed:
  assumes "optional_key k (mapping_of P) kvs"
  shows "\<exists>r. node_entries k (YMap kvs) = Inr r"
proof (cases "map_of kvs k")
  case None
  then have "k \<notin> set (map fst kvs)" by (auto simp: map_of_eq_None_iff)
  then show ?thesis by (simp add: node_entries_absent)
next
  case (Some v)
  with assms obtain ents where "v = YMap ents" "distinct (map fst ents)"
    by (cases v) (auto simp: optional_key_def)
  with Some show ?thesis using node_entries_present by blast
qed

lemma extract_variables_typed:
  "optional_key ''variables'' (mapping_of P) kvs \<Longrightarrow> \<exists>v. extract_variables (YMap kvs) vars u = Inr v"
  by (auto simp: extract_variables_def dest!: node_entries_typed split: option.split)

lemma extract_environment_typed:
  "optional_key ''environment'' (mapping_of P) kvs \<Longrightarrow> \<exists>v. extract_environment (YMap kvs) env vars u = Inr v"
  by (auto simp: extract_environment_def dest!: node_entries_typed split: option.split)

lemma project_ok_YMap:
  "project_ok pr \<Longrightarrow> \<exists>kvs. pr = YMap kvs \<and> distinct (map fst kvs) \<and>
     optional_key ''path'' is_str kvs \<and>
     optional_key ''variables'' (mapping_of is_scalar) kvs \<and>
     optional_key ''environment'' (mapping_of is_scalar) kvs \<and>
     optional_key ''build'' (sequence_of is_scalar) kvs \<and> optional_key ''test'' (sequence_of is_scalar) kvs"
  by (cases pr) (auto simp: project_ok_def)

text \<open>A key that is present is read back and iterated without error.\<close>

lemma present_key_typed:
  assumes "optional_key k (sequence_of P) kvs" "k \<in> set (map fst kvs)"
  shows "\<exists>node steps. py_getitem (YMap kvs) (YStr k) = Inr node \<and> py_iter node = Inr steps"
proof -
  obtain v where v: "map_of kvs k = Some v" using assms(2) by (cases "map_of kvs k") (auto simp: map_of_eq_None_iff)
  with assms(1) obtain xs where "v = YList xs" by (cases v) (auto simp: optional_key_def)
  with v show ?thesis by simp
qed

section \<open>The exceptions each function can raise\<close>

lemma map_of_present: "k \<in> set (map fst kvs) \<Longrightarrow> \<exists>v. map_of kvs k = Some v"
  by (cases "map_of kvs k") (auto simp: map_of_eq_None_iff)

lemma parse_user_loop_crash: "parse_user_loop vs d = Inl e \<Longrightarrow> e = IndexError"
  by (induction vs arbitrary: d) (auto simp: Let_def split: if_splits)

lemma parse_user_variables_crash: "parse_user_variables vs = Inl e \<Longrightarrow> e = IndexError"
  by (auto simp: parse_user_variables_def dest: parse_user_loop_crash split: option.splits)

lemma execute_command_crash:
  assumes "shell_errors_only w"
    and "execute_command w cmd path env s = (Inl (Crash e), s')"
  shows "e = OSError"
  using assms by (auto simp: shell_errors_only_def execute_command_def crash_def error_def Let_def
      split: sum.splits if_splits)

lemma get_path_crash:
  assumes "project_ok pr" "re_errors_only w"
    and "get_path w pr u s = (Inl (Crash e), s')"
  shows "e = ReError"
proof -
  obtain kvs where pr: "pr = YMap kvs" using project_ok_YMap [OF assms(1)] by blast
  show ?thesis
    using assms(2,3) map_of_present [of "''path''" kvs]
    by (auto simp: re_errors_only_def pr get_path_def crash_def error_def Let_def split: sum.splits bool.splits option.splits)
qed

lemma run_phase_crash:
  assumes "project_ok pr" "key = ''build'' \<or> key = ''test''"
    and "shell_errors_only w"
    and "run_phase key w pr path u s = (Inl (Crash e), s')"
  shows "e = OSError"
proof -
  obtain kvs where pr: "pr = YMap kvs"
      and vs: "optional_key ''variables'' (mapping_of is_scalar) kvs"
      and en: "optional_key ''environment'' (mapping_of is_scalar) kvs"
      and seq: "optional_key key (sequence_of is_scalar) kvs"
    using project_ok_YMap [OF assms(1)] assms(2) by blast
  show ?thesis
  proof (cases "key \<in> set (map fst kvs)")
    case False
    with assms(4) pr show ?thesis by (simp add: run_phase_def)
  next
    case True
    obtain vars where v: "extract_variables pr (variables s) u = Inr vars"
      using extract_variables_typed [OF vs] pr by blast
    obtain env where e: "extract_environment pr (environment s) vars u = Inr env"
      using extract_environment_typed [OF en] pr by blast
    obtain node steps where n: "py_getitem pr (YStr key) = Inr node" "py_iter node = Inr steps"
      using present_key_typed [OF seq True] pr by blast
    from assms(4) True pr v e n
    have "execute_command w (pipeline_command steps vars u) path env
            (s\<lparr>variables := vars, environment := env\<rparr>) = (Inl (Crash e), s')"
      by (simp add: run_phase_def)
    then show ?thesis by (rule execute_command_crash [OF assms(3)])
  qed
qed

lemma run_project_crash:
  assumes "project_ok proj" "shell_errors_only w"
    and "run_project w a proj path u s = (Inl (Crash e), s')"
  shows "e = OSError"
  using assms(3)
  by (auto simp: run_project_def build_def test_def split: prod.splits sum.splits if_splits
      dest: run_phase_crash [OF assms(1) disjI1 [OF refl] assms(2)] run_phase_crash [OF assms(1) disjI2 [OF refl] assms(2)])

lemma probe_project:
  "probe w P p u s = (Inr (proj, path), s1) \<Longrightarrow> py_getitem P p = Inr proj"
  by (auto simp: probe_def crash_def split: sum.splits prod.splits)

lemma project_of_key:
  assumes "mapping_of project_ok (YMap ps)" "p \<in> set (map (\<lambda>kv. YStr (fst kv)) ps)"
  shows "\<exists>proj. py_getitem (YMap ps) p = Inr proj \<and> project_ok proj"
proof -
  obtain k where p: "p = YStr k" "k \<in> set (map fst ps)" using assms(2) by auto
  obtain proj where m: "map_of ps k = Some proj" using map_of_present [OF p(2)] by blast
  then have kp: "(k, proj) \<in> set ps" by (rule map_of_SomeD)
  from assms(1) have "\<forall>kv\<in>set ps. project_ok (snd kv)" by (simp add: list_all_iff)
  from bspec [OF this kp] have "project_ok proj" by simp
  with m p show ?thesis by simp
qed

lemma probe_crash:
  assumes "mapping_of project_ok (YMap ps)" "p \<in> set (map (\<lambda>kv. YStr (fst kv)) ps)"
    and "re_errors_only w"
    and "probe w (YMap ps) p u s = (Inl (Crash e), s')"
  shows "e = ReError"
proof -
  obtain proj where g: "py_getitem (YMap ps) p = Inr proj" and ok: "project_ok proj"
    using project_of_key [OF assms(1,2)] by blast
  obtain kvs where pr: "proj = YMap kvs" and vs: "optional_key ''variables'' (mapping_of is_scalar) kvs"
    using project_ok_YMap [OF ok] by blast
  obtain vars where v: "extract_variables proj (variables s) u = Inr vars"
    using extract_variables_typed [OF vs] pr by blast
  from assms(4) g v have "get_path w proj u (s\<lparr>variables := vars\<rparr>) = (Inl (Crash e), s')"
    by (simp add: probe_def split: prod.splits sum.splits)
  then show ?thesis by (rule get_path_crash [OF ok assms(3)])
qed

lemma project_loop_crash:
  assumes "mapping_of project_ok (YMap ps)" "set qs \<subseteq> set (map (\<lambda>kv. YStr (fst kv)) ps)"
    and "re_errors_only w"
    and "shell_errors_only w"
    and "project_loop w a (YMap ps) qs u s = (Inl (Crash e), s')"
  shows "e = ReError \<or> e = OSError"
  using assms(2,5)
proof (induction qs arbitrary: s)
  case Nil then show ?case by (simp add: error_def)
next
  case (Cons q qs)
  have q: "q \<in> set (map (\<lambda>kv. YStr (fst kv)) ps)" using Cons.prems(1) by simp
  obtain r s1 where pr: "probe w (YMap ps) q u s = (r, s1)" by fastforce
  show ?case
  proof (cases r)
    case (Inl h)
    with pr Cons.prems(2) have "probe w (YMap ps) q u s = (Inl (Crash e), s')" by simp
    then show ?thesis using probe_crash [OF assms(1) q assms(3)] by blast
  next
    case (Inr x)
    then obtain proj path where x: "x = (proj, path)" by fastforce
    have ok: "project_ok proj"
      using project_of_key [OF assms(1) q] probe_project [of w "YMap ps" q u s proj path s1] pr Inr x by auto
    show ?thesis
    proof (cases "path = None \<or> path = Some []")
      case True
      with pr Inr x Cons.prems Cons.IH [of s1] show ?thesis by auto
    next
      case False
      with pr Inr x Cons.prems(2) have "run_project w a proj (the path) u s1 = (Inl (Crash e), s')"
        by auto
      then show ?thesis using run_project_crash [OF ok assms(4)] by blast
    qed
  qed
qed

lemma config_ok_YMap:
  "config_ok cfg \<Longrightarrow> \<exists>kvs ps. cfg = YMap kvs \<and>
     optional_key ''variables'' (mapping_of is_scalar) kvs \<and>
     optional_key ''environment'' (mapping_of is_scalar) kvs \<and>
     map_of kvs ''projects'' = Some (YMap ps) \<and> mapping_of project_ok (YMap ps)"
proof -
  assume ok: "config_ok cfg"
  then obtain kvs where c: "cfg = YMap kvs" by (cases cfg) (auto simp: config_ok_def)
  with ok obtain pv where p: "map_of kvs ''projects'' = Some pv" "mapping_of project_ok pv"
    by (auto simp: config_ok_def split: option.splits)
  then obtain ps where "pv = YMap ps" by (cases pv) auto
  with ok c p show ?thesis by (auto simp: config_ok_def)
qed

lemma main_body_crash:
  assumes "config_ok cfg"
    and "re_errors_only w"
    and "shell_errors_only w"
    and "main_body w a u cfg = (Inl (Crash e), s')"
  shows "e = ReError \<or> e = OSError"
proof -
  obtain kvs ps where c: "cfg = YMap kvs"
      and vs: "optional_key ''variables'' (mapping_of is_scalar) kvs"
      and en: "optional_key ''environment'' (mapping_of is_scalar) kvs"
      and p: "map_of kvs ''projects'' = Some (YMap ps)" and ok: "mapping_of project_ok (YMap ps)"
    using config_ok_YMap [OF assms(1)] by blast
  obtain vars where v: "extract_variables cfg (variables (init_state a)) u = Inr vars"
    using extract_variables_typed [OF vs] c by blast
  obtain env where e: "extract_environment cfg [] vars u = Inr env"
    using extract_environment_typed [OF en] c by blast
  from assms(4) c v e p
  have "project_loop w a (YMap ps) (map (\<lambda>kv. YStr (fst kv)) ps) u
          ((init_state a)\<lparr>variables := vars, environment := env\<rparr>) = (Inl (Crash e), s')"
    by (simp add: main_body_def)
  then show ?thesis using project_loop_crash [OF ok _ assms(2,3)] by blast
qed

text \<open>C36: type soundness of the configuration schema. On a document that conforms
  to the spec's schema, the dictionary and list operations of the code never raise:
  \<^verbatim>\<open>main\<close> ends neither in \<^verbatim>\<open>TypeError\<close> nor in \<^verbatim>\<open>KeyError\<close>, whatever
  the command line, provided the pattern matcher and the shell raise only their own
  exceptions.\<close>

theorem config_ok_no_type_error:
  assumes "config_ok cfg"
    and "re_errors_only w"
    and "shell_errors_only w"
  shows "fst (main w a cfg) \<noteq> Inl (Crash TypeError) \<and> fst (main w a cfg) \<noteq> Inl (Crash KeyError)"
proof -
  have "e = IndexError \<or> e = ReError \<or> e = OSError" if r: "main w a cfg = (Inl (Crash e), s')" for e s'
  proof (cases "parse_user_variables (variable a)")
    case (Inl x)
    with r show ?thesis by (auto simp: main_def crash_def dest: parse_user_variables_crash)
  next
    case (Inr u)
    with r have "main_body w a u cfg = (Inl (Crash e), s')" by (simp add: main_def)
    then show ?thesis using main_body_crash [OF assms] by blast
  qed
  then show ?thesis by (metis pyexc.distinct prod.collapse)
qed

section \<open>Progress\<close>

lemma get_path_progress:
  assumes "project_ok pr" "pr = YMap kvs" "''path'' \<in> set (map fst kvs)" "re_total w"
  shows "\<exists>m. get_path w pr u s = (Inr m, s)"
proof -
  obtain v where "map_of kvs ''path'' = Some v" using map_of_present [OF assms(3)] by blast
  with assms show ?thesis
    by (auto simp: re_total_def get_path_def Let_def split: sum.split)
qed

lemma run_phase_progress:
  assumes "project_ok pr" "key = ''build'' \<or> key = ''test''" "shell_succeeds w"
  shows "\<exists>s'. run_phase key w pr path u s = (Inr (), s')"
proof -
  obtain kvs where pr: "pr = YMap kvs"
      and vs: "optional_key ''variables'' (mapping_of is_scalar) kvs"
      and en: "optional_key ''environment'' (mapping_of is_scalar) kvs"
      and seq: "optional_key key (sequence_of is_scalar) kvs"
    using project_ok_YMap [OF assms(1)] assms(2) by blast
  show ?thesis
  proof (cases "key \<in> set (map fst kvs)")
    case False
    with pr show ?thesis by (simp add: run_phase_def)
  next
    case True
    obtain vars where v: "extract_variables pr (variables s) u = Inr vars"
      using extract_variables_typed [OF vs] pr by blast
    obtain env where e: "extract_environment pr (environment s) vars u = Inr env"
      using extract_environment_typed [OF en] pr by blast
    obtain node steps where n: "py_getitem pr (YStr key) = Inr node" "py_iter node = Inr steps"
      using present_key_typed [OF seq True] pr by blast
    have c: "py_contains key pr = Inr True" using True pr by simp
    from assms(3) have "shell w (pipeline_command steps vars u) path (dict_merge (environ w) env) = Inr 0"
      by (simp add: shell_succeeds_def)
    from run_phase_ok [OF c v e n this] show ?thesis by blast
  qed
qed

lemma run_project_progress:
  assumes "project_ok proj" "shell_succeeds w"
  shows "\<exists>s'. run_project w a proj path u s = (Inr (), s')"
proof -
  have b: "\<exists>s'. build w proj path u s = (Inr (), s')" for s
    unfolding build_def using run_phase_progress [OF assms(1) _ assms(2)] by blast
  have t: "\<exists>s'. test w proj path u s = (Inr (), s')" for s
    unfolding test_def using run_phase_progress [OF assms(1) _ assms(2)] by blast
  show ?thesis
  proof (cases "no_build a")
    case True with t show ?thesis by (auto simp: run_project_def)
  next
    case False
    then obtain s1 where "build w proj path u s = (Inr (), s1)" using b by blast
    with False t show ?thesis by (auto simp: run_project_def)
  qed
qed

lemma paths_given_project:
  assumes "list_all (\<lambda>kv. case snd kv of YMap pkvs \<Rightarrow> ''path'' \<in> set (map fst pkvs) | _ \<Rightarrow> False) ps"
    and "py_getitem (YMap ps) p = Inr proj"
  shows "\<exists>kvs. proj = YMap kvs \<and> ''path'' \<in> set (map fst kvs)"
proof -
  obtain k where "p = YStr k" "map_of ps k = Some proj"
    using assms(2) by (cases p) (auto split: option.splits)
  then have "(k, proj) \<in> set ps" by (simp add: map_of_SomeD)
  with assms(1) have "case proj of YMap pkvs \<Rightarrow> ''path'' \<in> set (map fst pkvs) | _ \<Rightarrow> False"
    by (fastforce simp: list_all_iff)
  then show ?thesis by (cases proj) auto
qed

lemma project_loop_progress:
  assumes "mapping_of project_ok (YMap ps)" "set qs \<subseteq> set (map (\<lambda>kv. YStr (fst kv)) ps)"
    and "list_all (\<lambda>kv. case snd kv of YMap pkvs \<Rightarrow> ''path'' \<in> set (map fst pkvs) | _ \<Rightarrow> False) ps"
    and "re_total w" "shell_succeeds w"
  shows "\<exists>s'. project_loop w a (YMap ps) qs u s = (Inr (), s') \<or>
             project_loop w a (YMap ps) qs u s = error ''No matching configuration entry found.'' s'"
  using assms(2)
proof (induction qs arbitrary: s)
  case Nil then show ?case by auto
next
  case (Cons q qs)
  have q: "q \<in> set (map (\<lambda>kv. YStr (fst kv)) ps)" using Cons.prems by simp
  obtain proj where g: "py_getitem (YMap ps) q = Inr proj" and ok: "project_ok proj"
    using project_of_key [OF assms(1) q] by blast
  obtain kvs where pr: "proj = YMap kvs" "''path'' \<in> set (map fst kvs)"
    using paths_given_project [OF assms(3) g] by blast
  obtain vars where v: "extract_variables proj (variables s) u = Inr vars"
    using extract_variables_typed project_ok_YMap [OF ok] by blast
  obtain m where m: "get_path w proj u (s\<lparr>variables := vars\<rparr>) = (Inr m, s\<lparr>variables := vars\<rparr>)"
    using get_path_progress [OF ok pr assms(4)] by blast
  have p: "probe w (YMap ps) q u s = (Inr (proj, m), s\<lparr>variables := vars\<rparr>)"
    using g v m by (simp add: probe_def)
  show ?case
  proof (cases "m = None \<or> m = Some []")
    case True
    with p Cons.IH [of "s\<lparr>variables := vars\<rparr>"] Cons.prems show ?thesis
      by (simp add: project_loop_skip)
  next
    case False
    then obtain y where y: "m = Some y" "y \<noteq> []" by auto
    obtain s' where "run_project w a proj y u (s\<lparr>variables := vars\<rparr>) = (Inr (), s')"
      using run_project_progress [OF ok assms(5)] by blast
    with project_loop_match [OF p [unfolded y(1)] y(2)] show ?thesis by auto
  qed
qed

text \<open>C37: progress of the orchestrator. For a well-typed document in which every
  project names its path, with \<^verbatim>\<open>-v\<close> arguments of the form \<^verbatim>\<open>name=value\<close>, a
  shell in which every command succeeds and patterns that compile, every run reaches
  one of the two final states of the spec's state machine: Done (\<^verbatim>\<open>main\<close>
  returns) or NoMatch (exit status 1 with the no-match message last).\<close>

theorem main_progress:
  assumes "config_ok cfg" "paths_given cfg"
    and "list_all (\<lambda>v. CHR ''='' \<in> set v) (case variable a of None \<Rightarrow> [] | Some vs \<Rightarrow> vs)"
    and "re_total w" "shell_succeeds w"
  shows "fst (main w a cfg) = Inr () \<or>
         (fst (main w a cfg) = Inl (Exit 1) \<and>
          last (out (snd (main w a cfg))) = Stderr ''ERROR: No matching configuration entry found.'')"
proof -
  obtain u where u: "parse_user_variables (variable a) = Inr u"
    using assms(3) by (cases "variable a") (auto simp: parse_user_variables_def parse_user_loop_ok)
  obtain kvs ps where c: "cfg = YMap kvs"
      and vs: "optional_key ''variables'' (mapping_of is_scalar) kvs"
      and en: "optional_key ''environment'' (mapping_of is_scalar) kvs"
      and p: "map_of kvs ''projects'' = Some (YMap ps)" and ok: "mapping_of project_ok (YMap ps)"
    using config_ok_YMap [OF assms(1)] by blast
  have pg: "list_all (\<lambda>kv. case snd kv of YMap pkvs \<Rightarrow> ''path'' \<in> set (map fst pkvs) | _ \<Rightarrow> False) ps"
    using assms(2) c p by (simp add: paths_given_def)
  obtain vars where v: "extract_variables cfg (variables (init_state a)) u = Inr vars"
    using extract_variables_typed [OF vs] c by blast
  obtain env where e: "extract_environment cfg [] vars u = Inr env"
    using extract_environment_typed [OF en] c by blast
  have m: "main w a cfg = project_loop w a (YMap ps) (map (\<lambda>kv. YStr (fst kv)) ps) u
             ((init_state a)\<lparr>variables := vars, environment := env\<rparr>)"
    using u c v e p by (simp add: main_def main_body_def)
  from project_loop_progress [OF ok _ pg assms(4,5)] obtain s' where
    "project_loop w a (YMap ps) (map (\<lambda>kv. YStr (fst kv)) ps) u
       ((init_state a)\<lparr>variables := vars, environment := env\<rparr>) = (Inr (), s') \<or>
     project_loop w a (YMap ps) (map (\<lambda>kv. YStr (fst kv)) ps) u
       ((init_state a)\<lparr>variables := vars, environment := env\<rparr>) =
       error ''No matching configuration entry found.'' s'"
    by blast
  with m show ?thesis by (auto simp: error_def emit_def)
qed

section \<open>Witnesses\<close>

definition typed_config :: yaml where
  "typed_config = YMap
     [(''variables'', YMap [(''dir'', YStr ''/tmp''), (''jobs'', YInt 4)]),
      (''projects'', YMap
         [(''demo'', YMap [(''path'', YStr ''{dir}/demo''), (''build'', YList [YStr ''make -j{jobs}'']),
                          (''test'', YList [YStr ''make check''])]),
          (''other'', YMap [(''path'', YStr ''/srv'')])])]"

lemma typed_config_ok: "config_ok typed_config" "paths_given typed_config"
  by (simp_all add: typed_config_def config_ok_def project_ok_def optional_key_def paths_given_def)

lemma example_world_contracts:
  "re_errors_only (example_world r)" "shell_errors_only (example_world r)" "re_total (example_world r)"
  "shell_succeeds (example_world (\<lambda>_. 0))"
  by (simp_all add: re_errors_only_def shell_errors_only_def re_total_def shell_succeeds_def example_world_def
      literal_match_def)

theorem config_ok_no_type_error_witness:
  "fst (main (example_world (\<lambda>_. 0)) (default_cli\<lparr>variable := Some [''x=1'']\<rparr>) typed_config) \<noteq> Inl (Crash TypeError) \<and>
   fst (main (example_world (\<lambda>_. 0)) (default_cli\<lparr>variable := Some [''x=1'']\<rparr>) typed_config) \<noteq> Inl (Crash KeyError)"
  by (rule config_ok_no_type_error [OF typed_config_ok(1) example_world_contracts(1,2)])

theorem main_progress_witness:
  "fst (main (example_world (\<lambda>_. 0)) (default_cli\<lparr>test_flag := True\<rparr>) typed_config) = Inr () \<or>
   (fst (main (example_world (\<lambda>_. 0)) (default_cli\<lparr>test_flag := True\<rparr>) typed_config) = Inl (Exit 1) \<and>
    last (out (snd (main (example_world (\<lambda>_. 0)) (default_cli\<lparr>test_flag := True\<rparr>) typed_config))) =
      Stderr ''ERROR: No matching configuration entry found.'')"
proof -
  have v: "list_all (\<lambda>v. CHR ''='' \<in> set v)
             (case variable (default_cli\<lparr>test_flag := True\<rparr>) of None \<Rightarrow> [] | Some vs \<Rightarrow> vs)"
    by (simp add: default_cli_def)
  show ?thesis
    by (rule main_progress [OF typed_config_ok v example_world_contracts(3,4)])
qed

end
