(* ===== verification/Argparse.thy ===== *)
theory Argparse
  imports Cli Regex
begin

text \<open>
  The command-line parser that \<^verbatim>\<open>main\<close> builds (lines 124--131 of
  \<^verbatim>\<open>src/builder.py\<close>) and its \<^verbatim>\<open>parse_args()\<close>, after CPython 3.11's
  \<^verbatim>\<open>argparse\<close>. The parser has no positional arguments. Its options are the help
  option and the six options of the code. Parsing runs in two passes, as in
  \<^verbatim>\<open>_parse_known_args\<close>:
  \<^item> \<open>classify\<close> (\<^verbatim>\<open>_parse_optional\<close>, \<^verbatim>\<open>_get_option_tuples\<close>) marks each argument as an
    option or an argument. An ambiguous abbreviation is an error at once.
  \<^item> \<open>consume\<close> (\<^verbatim>\<open>consume_optional\<close>, \<^verbatim>\<open>take_action\<close>) walks the marked
    arguments and applies each option. An argument no option takes goes to the extras.
    Extras are an error at the end.
  Unique prefixes of long options are accepted. Single-dash flags may be clustered
  (\<^verbatim>\<open>-nt\<close>), and single-dash options may carry their value (\<^verbatim>\<open>-vX\<close>).
  The result is the namespace, the help request (exit status 0), or an error message
  (exit status 2).
\<close>

section \<open>The parser\<close>

text \<open>The actions of the parser, in the order \<^verbatim>\<open>add_argument\<close> creates them; the
  help action comes first.\<close>

datatype action = AHelp | ANoBuild | ATest | AVariable | AConfig | AOs | ABt

text \<open>\<^verbatim>\<open>_option_string_actions\<close>, in insertion order.\<close>

definition option_string_actions :: "(string \<times> action) list" where
  "option_string_actions =
     [(''-h'', AHelp), (''--help'', AHelp), (''--no-build'', ANoBuild), (''-n'', ANoBuild),
      (''--test'', ATest), (''-t'', ATest), (''--variable'', AVariable), (''-v'', AVariable),
      (''--config'', AConfig), (''-c'', AConfig), (''--operating-system'', AOs), (''-os'', AOs),
      (''--build-type'', ABt), (''-bt'', ABt)]"

text \<open>The number of arguments an action takes: none for \<^verbatim>\<open>store_true\<close> and help,
  one for \<^verbatim>\<open>append\<close> and \<^verbatim>\<open>store\<close>.\<close>

fun nargs :: "action \<Rightarrow> nat" where
  "nargs AHelp = 0"
| "nargs ANoBuild = 0"
| "nargs ATest = 0"
| "nargs _ = 1"

text \<open>\<^verbatim>\<open>_get_action_name\<close>: the option strings joined by a slash.\<close>

definition action_name :: "action \<Rightarrow> string" where
  "action_name a = py_join ''/'' (map fst (filter (\<lambda>oa. snd oa = a) option_string_actions))"

definition argerr :: "action \<Rightarrow> string \<Rightarrow> string" where
  "argerr a m = ''argument '' @ action_name a @ '': '' @ m"

text \<open>The namespace: the fields of \<open>cli\<close> and the configuration file.\<close>

record namespace = cli +
  config :: string

text \<open>The defaults, set before parsing; the default of \<^verbatim>\<open>--config\<close> is expanded
  when the parser is built.\<close>

definition parser_defaults :: "home_info \<Rightarrow> namespace" where
  "parser_defaults h =
     \<lparr>no_build = False, test_flag = False, variable = None,
      operating_system = get_system_name, build_type = ''Release'',
      config = expanduser h ''~/.builder-config.yml''\<rparr>"

section \<open>Classifying the arguments\<close>

text \<open>\<^verbatim>\<open>s.partition('=')\<close>: the text before the first \<^verbatim>\<open>=\<close>, whether there is
  one, and the text after it.\<close>

definition py_partition :: "char \<Rightarrow> string \<Rightarrow> string \<times> bool \<times> string" where
  "py_partition c s =
     (if c \<in> set s then (takeWhile (\<lambda>x. x \<noteq> c) s, True, tl (dropWhile (\<lambda>x. x \<noteq> c) s))
      else (s, False, []))"

text \<open>An option occurrence: the action (none for an unknown option), the option
  string, the separator before an explicit argument and the explicit argument.\<close>

datatype otuple = OTuple "action option" string "string option" "string option"

text \<open>\<^verbatim>\<open>_negative_number_matcher\<close>, \<^verbatim>\<open>^-\d+$|^-\d*\.\d+$\<close>; \<^verbatim>\<open>$\<close> also
  matches before a final newline.\<close>

definition is_negative_number :: "string \<Rightarrow> bool" where
  "is_negative_number s =
     (let t = (if s \<noteq> [] \<and> last s = CHR 0x0A then butlast s else s)
      in case t of
           CHR ''-'' # r \<Rightarrow>
             (r \<noteq> [] \<and> list_all is_digit r) \<or>
             (case dropWhile is_digit r of CHR ''.'' # f \<Rightarrow> f \<noteq> [] \<and> list_all is_digit f | _ \<Rightarrow> False)
         | _ \<Rightarrow> False)"

text \<open>\<^verbatim>\<open>_get_option_tuples\<close>: after two dashes, every option string the text
  before \<^verbatim>\<open>=\<close> is a prefix of. After one dash, the option named by the first two
  characters, with the rest as its explicit argument, and every option string the whole
  text is a prefix of.\<close>

definition get_option_tuples :: "string \<Rightarrow> otuple list" where
  "get_option_tuples s =
     (if s ! 1 = CHR ''-'' then
        (let (pre, sep, ea) = py_partition CHR ''='' s
         in map (\<lambda>(ostr, a). OTuple (Some a) ostr (if sep then Some ''='' else None) (if sep then Some ea else None))
              (filter (\<lambda>(ostr, a). take (length pre) ostr = pre) option_string_actions))
      else
        concat (map (\<lambda>(ostr, a). if ostr = take 2 s then [OTuple (Some a) ostr (Some []) (Some (drop 2 s))]
                              else if take (length s) ostr = s then [OTuple (Some a) ostr None None]
                              else [])
                 option_string_actions))"

definition otuple_string :: "otuple \<Rightarrow> string" where
  "otuple_string t = (case t of OTuple _ ostr _ _ \<Rightarrow> ostr)"

text \<open>\<^verbatim>\<open>_parse_optional\<close>: \<open>None\<close> for an argument, an option occurrence, or the
  error of an ambiguous abbreviation.\<close>

definition parse_optional :: "string \<Rightarrow> string + otuple option" where
  "parse_optional s =
     (if s = [] \<or> hd s \<noteq> CHR ''-'' then Inr None
      else case map_of option_string_actions s of
        Some a \<Rightarrow> Inr (Some (OTuple (Some a) s None None))
      | None \<Rightarrow>
          if length s = 1 then Inr None
          else let (ostr, sep, ea) = py_partition CHR ''='' s
          in case (if sep then map_of option_string_actions ostr else None) of
               Some a \<Rightarrow> Inr (Some (OTuple (Some a) ostr (Some ''='') (Some ea)))
             | None \<Rightarrow>
                 let ts = get_option_tuples s
                 in if 1 < length ts then
                      Inl (''ambiguous option: '' @ s @ '' could match '' @ py_join '', '' (map otuple_string ts))
                    else if length ts = 1 then Inr (Some (hd ts))
                    else if is_negative_number s then Inr None
                    else if CHR '' '' \<in> set s then Inr None
                    else Inr (Some (OTuple None s None None)))"

text \<open>The pattern of an argument: an option, an argument, or the first \<^verbatim>\<open>--\<close>,
  after which every argument is an argument.\<close>

datatype pat = PA | PO otuple | PDash

fun classify :: "string list \<Rightarrow> string + pat list" where
  "classify [] = Inr []"
| "classify (s # ss) =
     (if s = ''--'' then Inr (PDash # map (\<lambda>_. PA) ss)
      else case parse_optional s of
        Inl m \<Rightarrow> Inl m
      | Inr None \<Rightarrow> map_sum id (Cons PA) (classify ss)
      | Inr (Some t) \<Rightarrow> map_sum id (Cons (PO t)) (classify ss))"

section \<open>Consuming the options\<close>

text \<open>\<^verbatim>\<open>take_action\<close>: help stops the parse (\<^verbatim>\<open>print_help(); exit()\<close>), the
  flags are set, \<^verbatim>\<open>-v\<close> appends to its list, the other options store.\<close>

fun apply_action :: "action \<Rightarrow> string list \<Rightarrow> namespace \<Rightarrow> namespace option" where
  "apply_action AHelp args ns = None"
| "apply_action ANoBuild args ns = Some (ns\<lparr>no_build := True\<rparr>)"
| "apply_action ATest args ns = Some (ns\<lparr>test_flag := True\<rparr>)"
| "apply_action AVariable args ns =
     Some (ns\<lparr>variable := Some (case variable ns of None \<Rightarrow> [hd args] | Some vs \<Rightarrow> vs @ [hd args])\<rparr>)"
| "apply_action AConfig args ns = Some (ns\<lparr>config := hd args\<rparr>)"
| "apply_action AOs args ns = Some (ns\<lparr>operating_system := hd args\<rparr>)"
| "apply_action ABt args ns = Some (ns\<lparr>build_type := hd args\<rparr>)"

fun apply_actions :: "(action \<times> string list) list \<Rightarrow> namespace \<Rightarrow> namespace option" where
  "apply_actions [] ns = Some ns"
| "apply_actions ((a, args) # acts) ns =
     (case apply_action a args ns of None \<Rightarrow> None | Some ns' \<Rightarrow> apply_actions acts ns')"

text \<open>The loop of \<^verbatim>\<open>consume_optional\<close> over an explicit argument: a single-dash
  flag passes the rest of its text on as the next single-dash option; an option with an
  argument takes the explicit argument. The loop ends with an error, with the actions
  and the text left over as an extra, or with an action that takes its argument from the
  next command-line argument.\<close>

datatype lres = LErr string | LDone "(action \<times> string list) list" "string option"
  | LNext action "(action \<times> string list) list"

function explicit_loop ::
  "action \<Rightarrow> string \<Rightarrow> string option \<Rightarrow> string \<Rightarrow> (action \<times> string list) list \<Rightarrow> lres" where
  "explicit_loop a ostr sep ea acc =
     (if nargs a = 0 \<and> ostr ! 1 \<noteq> CHR ''-'' \<and> ea \<noteq> [] then
        (if sep = Some ''='' \<or> hd ea = CHR ''-'' then LErr (argerr a (''ignored explicit argument '' @ str_repr ea))
         else
           let acc' = acc @ [(a, [])]; o' = [hd ostr, hd ea]
           in case map_of option_string_actions o' of
                Some a' \<Rightarrow>
                  (if tl ea = [] then LNext a' acc'
                   else if hd (tl ea) = CHR ''='' then explicit_loop a' o' (Some ''='') (tl (tl ea)) acc'
                   else explicit_loop a' o' (Some []) (tl ea) acc')
              | None \<Rightarrow> LDone acc' (Some (hd ostr # ea)))
      else if nargs a = 1 then LDone (acc @ [(a, [ea])]) None
      else LErr (argerr a (''ignored explicit argument '' @ str_repr ea)))"
  by pat_completeness auto
termination
  by (relation "measure (\<lambda>(a, ostr, sep, ea, acc). length ea)") (auto simp: length_greater_0_conv)

declare explicit_loop.simps [simp del]

text \<open>\<^verbatim>\<open>_match_argument\<close> for an option without explicit argument: a flag takes
  nothing; an option with an argument takes the next command-line argument if it is
  one, and fails otherwise (\<^verbatim>\<open>--\<close> is never an option's argument).\<close>

definition next_args :: "action \<Rightarrow> (string \<times> pat) list \<Rightarrow> string list option" where
  "next_args a rest =
     (if nargs a = 0 then Some []
      else case rest of (x, PA) # _ \<Rightarrow> Some [x] | _ \<Rightarrow> None)"

datatype aresult = AOk namespace | AHelpShown | AErr string

text \<open>The walk over the arguments. An unknown option and every argument no option
  takes are extras; extras are an error once all options are consumed.\<close>

function consume :: "(string \<times> pat) list \<Rightarrow> namespace \<Rightarrow> string list \<Rightarrow> aresult" where
  "consume [] ns ex =
     (if ex = [] then AOk ns else AErr (''unrecognized arguments: '' @ py_join '' '' ex))"
| "consume ((s, p) # rest) ns ex =
     (case p of
        PO (OTuple None ostr sep ea) \<Rightarrow> consume rest ns (ex @ [s])
      | PO (OTuple (Some a) ostr sep ea) \<Rightarrow>
          (case (case ea of None \<Rightarrow> LNext a [] | Some e \<Rightarrow> explicit_loop a ostr sep e []) of
             LErr m \<Rightarrow> AErr m
           | LDone acts x \<Rightarrow>
               (case apply_actions acts ns of
                  None \<Rightarrow> AHelpShown
                | Some ns' \<Rightarrow> consume rest ns' (ex @ (case x of None \<Rightarrow> [] | Some y \<Rightarrow> [y])))
           | LNext a' acts \<Rightarrow>
               (case next_args a' rest of
                  None \<Rightarrow> AErr (argerr a' ''expected one argument'')
                | Some xs \<Rightarrow>
                    (case apply_actions (acts @ [(a', xs)]) ns of
                       None \<Rightarrow> AHelpShown
                     | Some ns' \<Rightarrow> consume (drop (length xs) rest) ns' ex)))
      | _ \<Rightarrow> consume rest ns (ex @ [s]))"
  by pat_completeness auto
termination
  by (relation "measure (\<lambda>(l, ns, ex). length l)") auto

text \<open>\<^verbatim>\<open>parser.parse_args(argv, namespace)\<close>: classify, then consume starting
  from the namespace.\<close>

definition parse_with :: "namespace \<Rightarrow> string list \<Rightarrow> aresult" where
  "parse_with ns argv =
     (case classify argv of
        Inl m \<Rightarrow> AErr m
      | Inr ps \<Rightarrow> consume (zip argv ps) ns [])"

text \<open>\<^verbatim>\<open>parser.parse_args()\<close>: the namespace starts with the defaults.\<close>

definition parse_args :: "home_info \<Rightarrow> string list \<Rightarrow> aresult" where
  "parse_args h argv = parse_with (parser_defaults h) argv"

section \<open>Printing a namespace\<close>

text \<open>The command line that asks for a namespace: each flag that is set, each
  \<^verbatim>\<open>-v\<close> value and the three stored options, every value after \<open>=\<close>.\<close>

definition to_argv :: "namespace \<Rightarrow> string list" where
  "to_argv ns =
     (if no_build ns then [''--no-build''] else []) @ (if test_flag ns then [''--test''] else []) @
     map (\<lambda>v. ''--variable='' @ v) (case variable ns of None \<Rightarrow> [] | Some vs \<Rightarrow> vs) @
     [''--config='' @ config ns, ''--operating-system='' @ operating_system ns,
      ''--build-type='' @ build_type ns]"

text \<open>\<open>consume\<close> reads the text of an argument only where it is an argument or an
  unknown option: two walks that differ only in the text of known options agree.\<close>

definition same_but_options :: "(string \<times> pat) \<Rightarrow> (string \<times> pat) \<Rightarrow> bool" where
  "same_but_options x y \<longleftrightarrow> snd x = snd y \<and>
     (fst x = fst y \<or> (case snd x of PO (OTuple (Some _) _ _ _) \<Rightarrow> True | _ \<Rightarrow> False))"

section \<open>Lemmas\<close>

lemma option_string_key:
  "map_of option_string_actions k = Some a \<Longrightarrow>
     k \<noteq> [] \<and> hd k = CHR ''-'' \<and> CHR ''='' \<notin> set k \<and> CHR '' '' \<notin> set k \<and> 1 < length k \<and> k \<noteq> ''--''"
  by (auto simp: option_string_actions_def split: if_splits)

lemma parse_optional_exact:
  "map_of option_string_actions k = Some a \<Longrightarrow> parse_optional k = Inr (Some (OTuple (Some a) k None None))"
  using option_string_key [of k a] by (simp add: parse_optional_def)

lemma py_partition_at:
  "c \<notin> set n \<Longrightarrow> py_partition c (n @ c # v) = (n, True, v)"
  by (induction n) (auto simp: py_partition_def)

lemma parse_optional_explicit:
  assumes "map_of option_string_actions k = Some a"
  shows "parse_optional (k @ CHR ''='' # v) = Inr (Some (OTuple (Some a) k (Some ''='') (Some v)))"
proof -
  have k: "k \<noteq> []" "hd k = CHR ''-''" "CHR ''='' \<notin> set k"
    using option_string_key [OF assms] by simp_all
  have "map_of option_string_actions (k @ CHR ''='' # v) = None"
    using option_string_key [of "k @ CHR ''='' # v"] by (cases "map_of option_string_actions (k @ CHR ''='' # v)") auto
  with k assms show ?thesis
    by (simp add: parse_optional_def py_partition_at)
qed

lemma explicit_loop_store:
  "nargs a = 1 \<Longrightarrow> explicit_loop a k sep v acc = LDone (acc @ [(a, [v])]) None"
  by (subst explicit_loop.simps) simp

lemma parse_with_Cons:
  "s \<noteq> ''--'' \<Longrightarrow> parse_optional s = Inr (Some t) \<Longrightarrow>
     parse_with ns (s # ss) = (case classify ss of Inl m \<Rightarrow> AErr m | Inr ps \<Rightarrow> consume ((s, PO t) # zip ss ps) ns [])"
  by (simp add: parse_with_def split: sum.split)

text \<open>An option given with its value after \<open>=\<close>, and a flag, each apply their action and
  leave the rest of the command line to be parsed from the new namespace.\<close>

lemma parse_with_store:
  assumes "map_of option_string_actions k = Some a" "nargs a = 1"
  shows "parse_with ns ((k @ CHR ''='' # v) # ss) =
           (case apply_action a [v] ns of None \<Rightarrow> AHelpShown | Some ns' \<Rightarrow> parse_with ns' ss)"
proof -
  have "k @ CHR ''='' # v \<noteq> ''--''"
    using option_string_key [OF assms(1)] by (auto dest: arg_cong [where f = length])
  moreover have "explicit_loop a k (Some ''='') v [] = LDone [(a, [v])] None"
    using explicit_loop_store [OF assms(2)] by simp
  moreover obtain ns' where "apply_action a [v] ns = Some ns'" using assms(2) by (cases a) simp_all
  ultimately show ?thesis
    using assms by (simp add: parse_with_Cons parse_optional_explicit parse_with_def split: sum.split)
qed

lemma parse_with_flag:
  assumes "map_of option_string_actions k = Some a" "nargs a = 0" "a \<noteq> AHelp"
  shows "parse_with ns (k # ss) =
           (case apply_action a [] ns of None \<Rightarrow> AHelpShown | Some ns' \<Rightarrow> parse_with ns' ss)"
proof -
  have "k \<noteq> ''--''" using option_string_key [OF assms(1)] by auto
  moreover have "apply_action a [] ns \<noteq> None" using assms(3) by (cases a) simp_all
  ultimately show ?thesis
    using assms by (auto simp add: parse_with_Cons parse_optional_exact next_args_def parse_with_def split: sum.split)
qed

lemma parse_with_Nil: "parse_with ns [] = AOk ns"
  by (simp add: parse_with_def)

lemma parse_with_variables:
  "parse_with ns (map (\<lambda>v. ''--variable='' @ v) vs @ ss) =
     parse_with (if vs = [] then ns else ns\<lparr>variable := Some (case variable ns of None \<Rightarrow> vs | Some us \<Rightarrow> us @ vs)\<rparr>) ss"
proof (induction vs arbitrary: ns)
  case Nil then show ?case by simp
next
  case (Cons v vs)
  have k: "map_of option_string_actions ''--variable'' = Some AVariable" by (simp add: option_string_actions_def)
  have "parse_with ns ((''--variable'' @ CHR ''='' # v) # map (\<lambda>v. ''--variable='' @ v) vs @ ss) =
        parse_with (ns\<lparr>variable := Some (case variable ns of None \<Rightarrow> [v] | Some us \<Rightarrow> us @ [v])\<rparr>) (map (\<lambda>v. ''--variable='' @ v) vs @ ss)"
    by (simp add: parse_with_store [OF k, simplified] split: option.split)
  with Cons.IH show ?case by (simp split: option.split)
qed

text \<open>C32: printing a namespace as a command line and parsing it gives the
  namespace back, whatever its values hold (dashes, \<open>=\<close>, spaces), provided the
  \<^verbatim>\<open>-v\<close> list is absent or non-empty, as parsing always leaves it.\<close>

theorem parse_args_roundtrip:
  assumes "variable ns \<noteq> Some []"
  shows "parse_args h (to_argv ns) = AOk ns"
proof -
  have c: "map_of option_string_actions ''--config'' = Some AConfig"
      and o: "map_of option_string_actions ''--operating-system'' = Some AOs"
      and b: "map_of option_string_actions ''--build-type'' = Some ABt"
      and n: "map_of option_string_actions ''--no-build'' = Some ANoBuild"
      and t: "map_of option_string_actions ''--test'' = Some ATest"
    by (simp_all add: option_string_actions_def)
  have tail: "parse_with m [''--config='' @ config ns, ''--operating-system='' @ operating_system ns,
                  ''--build-type='' @ build_type ns] =
              AOk (m\<lparr>config := config ns, operating_system := operating_system ns, build_type := build_type ns\<rparr>)" for m
    using parse_with_store [OF c, simplified] parse_with_store [OF o, simplified] parse_with_store [OF b, simplified]
    by (simp add: parse_with_Nil)
  show ?thesis
    using assms
    by (cases "no_build ns"; cases "test_flag ns"; cases "variable ns")
       (simp_all add: parse_args_def to_argv_def parse_with_flag [OF n, simplified] parse_with_flag [OF t, simplified]
           parse_with_variables [simplified] tail [simplified] parser_defaults_def)
qed

lemma classify_append:
  "''--'' \<notin> set xs \<Longrightarrow>
     classify (xs @ ys) = (case classify xs of Inl m \<Rightarrow> Inl m | Inr ps \<Rightarrow> map_sum id ((@) ps) (classify ys))"
proof (induction xs)
  case Nil then show ?case by (cases "classify ys") simp_all
next
  case (Cons x xs) then show ?case by (cases "classify ys") (auto split: sum.split option.split)
qed

lemma classify_length: "classify xs = Inr ps \<Longrightarrow> length ps = length xs"
proof (induction xs arbitrary: ps)
  case Nil then show ?case by simp
next
  case (Cons x xs) then show ?case by (cases "classify xs") (auto split: if_splits sum.splits option.splits)
qed

lemma long_prefixes_parse:
  "list_all (\<lambda>(ostr, a). take 2 ostr \<noteq> ''--'' \<or>
       list_all (\<lambda>k. parse_optional (take k ostr) = Inr (Some (OTuple (Some a) ostr None None)))
         [3..<Suc (length ostr)])
     option_string_actions"
  by code_simp

lemma parse_optional_abbrev:
  assumes "(''--'' @ name, a) \<in> set option_string_actions" "p \<noteq> []" "take (length p) name = p"
  shows "parse_optional (''--'' @ p) = Inr (Some (OTuple (Some a) (''--'' @ name) None None))"
proof -
  have l: "length p \<le> length name" using arg_cong [where f = length, OF assms(3)] by simp
  have "\<forall>x\<in>set option_string_actions. case x of (ostr, a) \<Rightarrow> take 2 ostr \<noteq> ''--'' \<or>
          list_all (\<lambda>k. parse_optional (take k ostr) = Inr (Some (OTuple (Some a) ostr None None)))
            [3..<Suc (length ostr)]"
    using long_prefixes_parse by (simp only: list_all_iff)
  from bspec [OF this assms(1)]
  have "take 2 (''--'' @ name) \<noteq> ''--'' \<or>
        list_all (\<lambda>k. parse_optional (take k (''--'' @ name)) =
                        Inr (Some (OTuple (Some a) (''--'' @ name) None None)))
          [3..<Suc (length (''--'' @ name))]"
    by (simp only: prod.case)
  moreover have "take 2 (''--'' @ name) = ''--''" by simp
  ultimately have "\<forall>k\<in>set [3..<Suc (length (''--'' @ name))].
                     parse_optional (take k (''--'' @ name)) = Inr (Some (OTuple (Some a) (''--'' @ name) None None))"
    by (simp only: list_all_iff simp_thms)
  moreover have "Suc (Suc (length p)) \<in> set [3..<Suc (length (''--'' @ name))]"
    using assms(2) l by (cases p) auto
  ultimately have "parse_optional (take (Suc (Suc (length p))) (''--'' @ name)) =
                     Inr (Some (OTuple (Some a) (''--'' @ name) None None))"
    by (rule bspec)
  moreover have "take (Suc (Suc (length p))) (''--'' @ name) = ''--'' @ p" using assms(3) by simp
  ultimately show ?thesis by simp
qed

lemma parse_args_help_first:
  "parse_args h (''-h'' # ys) = (case classify ys of Inl m \<Rightarrow> AErr m | Inr _ \<Rightarrow> AHelpShown)"
proof -
  have "map_of option_string_actions ''-h'' = Some AHelp" by (simp add: option_string_actions_def)
  then show ?thesis
    by (simp add: parse_args_def parse_with_def parse_optional_exact next_args_def split: sum.split)
qed

lemma next_args_same:
  "list_all2 same_but_options L L' \<Longrightarrow> next_args a L = next_args a L'"
  by (cases L; cases L') (auto simp: next_args_def same_but_options_def split: pat.split prod.split)

lemma consume_same_but_options:
  "list_all2 same_but_options L L' \<Longrightarrow> consume L ns ex = consume L' ns ex"
proof (induction L ns ex arbitrary: L' rule: consume.induct)
  case (1 ns ex) then show ?case by simp
next
  case (2 s p rest ns ex)
  obtain y rest' where y: "L' = y # rest'" "same_but_options (s, p) y"
      and r: "list_all2 same_but_options rest rest'"
    using "2.prems" by (auto simp: list_all2_Cons1)
  obtain s' where L': "L' = (s', p) # rest'"
      and sp: "s = s' \<or> (case p of PO (OTuple (Some _) _ _ _) \<Rightarrow> True | _ \<Rightarrow> False)"
    using y by (cases y) (auto simp: same_but_options_def)
  have d: "list_all2 same_but_options (drop n rest) (drop n rest')" for n
    using r by (rule list_all2_dropI)
  show ?case
  proof (cases p)
    case PA with 2 L' r sp show ?thesis by simp
  next
    case PDash with 2 L' r sp show ?thesis by simp
  next
    case (PO t)
    obtain ao k sep e where t: "t = OTuple ao k sep e" by (cases t)
    show ?thesis
    proof (cases ao)
      case None with 2 L' r sp PO t show ?thesis by simp
    next
      case (Some a)
      with 2 L' r d PO t show ?thesis
        by (simp add: next_args_same [OF r] split: lres.split option.split)
    qed
  qed
qed

text \<open>C33: a long option may be abbreviated to any non-empty prefix of its name:
  outside the arguments after \<^verbatim>\<open>--\<close>, \<^verbatim>\<open>--var\<close> is parsed exactly as
  \<^verbatim>\<open>--variable\<close>, wherever it stands and whatever surrounds it.\<close>

theorem long_option_prefix:
  assumes "''--'' \<notin> set xs" "(''--'' @ name, a) \<in> set option_string_actions"
    and "p \<noteq> []" "take (length p) name = p"
  shows "parse_args h (xs @ (''--'' @ p) # ys) = parse_args h (xs @ (''--'' @ name) # ys)"
proof -
  define t where "t = OTuple (Some a) (''--'' @ name) None None"
  have np: "name \<noteq> []" using assms(3,4) by auto
  have op: "parse_optional (''--'' @ p) = Inr (Some t)"
    unfolding t_def by (rule parse_optional_abbrev [OF assms(2-4)])
  have on: "parse_optional (''--'' @ name) = Inr (Some t)"
    unfolding t_def by (rule parse_optional_abbrev [OF assms(2) np]) simp
  have cl: "classify (xs @ q # ys) =
             (case classify xs of Inl m \<Rightarrow> Inl m
              | Inr ps \<Rightarrow> map_sum id ((@) ps) (map_sum id (Cons (PO t)) (classify ys)))"
    if "q \<noteq> ''--''" "parse_optional q = Inr (Some t)" for q
    using that by (simp add: classify_append [OF assms(1)] split: sum.split)
  have rel: "list_all2 same_but_options (zip (xs @ (''--'' @ p) # ys) (ps @ PO t # qs))
                                        (zip (xs @ (''--'' @ name) # ys) (ps @ PO t # qs))"
    if "length ps = length xs" "length qs = length ys" for ps qs
    using that by (simp add: list_all2_conv_all_nth nth_append same_but_options_def nth_Cons' t_def)
  have "''--'' @ p \<noteq> ''--''" "''--'' @ name \<noteq> ''--''" using assms(3) np by simp_all
  note c1 = cl [OF this(1) op] and c2 = cl [OF this(2) on]
  show ?thesis
  proof (cases "classify xs")
    case (Inl m) with c1 c2 show ?thesis by (simp add: parse_args_def parse_with_def)
  next
    case (Inr ps)
    show ?thesis
    proof (cases "classify ys")
      case (Inl m) with c1 c2 Inr show ?thesis by (simp add: parse_args_def parse_with_def)
    next
      case (Inr qs)
      have "length ps = length xs" "length qs = length ys"
        using \<open>classify xs = Inr ps\<close> Inr by (simp_all add: classify_length)
      note R = consume_same_but_options [OF rel [OF this]]
      from c1 c2 \<open>classify xs = Inr ps\<close> Inr show ?thesis
        unfolding parse_args_def parse_with_def by (simp only: sum.case map_sum.simps id_apply R)
    qed
  qed
qed

theorem parse_args_roundtrip_witness:
  "variable \<lparr>no_build = True, test_flag = False, variable = Some [''os=arch'', ''-x = y''],
             operating_system = ''-fedora'', build_type = ''Debug'', config = ''--c=f''\<rparr> \<noteq> Some [] \<and>
   parse_args \<lparr>env_home = Some ''/home/u'', uid_home = None, user_home = (\<lambda>_. None)\<rparr>
     [''--no-build'', ''--variable=os=arch'', ''--variable=-x = y'', ''--config=--c=f'',
      ''--operating-system=-fedora'', ''--build-type=Debug''] =
   AOk \<lparr>no_build = True, test_flag = False, variable = Some [''os=arch'', ''-x = y''],
         operating_system = ''-fedora'', build_type = ''Debug'', config = ''--c=f''\<rparr>"
  using parse_args_roundtrip [of "\<lparr>no_build = True, test_flag = False, variable = Some [''os=arch'', ''-x = y''],
             operating_system = ''-fedora'', build_type = ''Debug'', config = ''--c=f''\<rparr>"
      "\<lparr>env_home = Some ''/home/u'', uid_home = None, user_home = (\<lambda>_. None)\<rparr>"]
  by (simp add: to_argv_def)

theorem long_option_prefix_witness:
  "''--'' \<notin> set [''-n''] \<and> (''--'' @ ''variable'', AVariable) \<in> set option_string_actions \<and>
   ''var'' \<noteq> [] \<and> take (length ''var'') ''variable'' = ''var'' \<and>
   parse_args \<lparr>env_home = Some ''/home/u'', uid_home = None, user_home = (\<lambda>_. None)\<rparr>
       [''-n'', ''--var'', ''x=1''] =
   parse_args \<lparr>env_home = Some ''/home/u'', uid_home = None, user_home = (\<lambda>_. None)\<rparr>
       [''-n'', ''--variable'', ''x=1'']"
  using long_option_prefix [of "[''-n'']" "''variable''" AVariable "''var''"
      "\<lparr>env_home = Some ''/home/u'', uid_home = None, user_home = (\<lambda>_. None)\<rparr>" "[''x=1'']"]
  by (simp add: option_string_actions_def)

end
