(* ===== verification/Program.thy ===== *)
theory Program
  imports Schema Argparse
begin

text \<open>
  The whole process of \<^verbatim>\<open>src/builder.py\<close>: \<^verbatim>\<open>main()\<close> called from the script's
  entry point (lines 171--172). It runs in this order:
  \<^item> \<^verbatim>\<open>parser.parse_args()\<close> (lines 124--131, theory \<open>Argparse\<close>), whose help and
    errors end the process before anything else happens;
  \<^item> the loop over the \<^verbatim>\<open>-v\<close> arguments (lines 134--138);
  \<^item> opening and loading the configuration file (lines 141--142), an interface
    \<open>load\<close> of this theory that gives the document or the exception;
  \<^item> the body of \<^verbatim>\<open>main\<close> (lines 144--169, \<open>main_body\<close>).
  The texts argparse prints are those of its \<^verbatim>\<open>HelpFormatter\<close> for a terminal of 80
  columns and the program name \<^verbatim>\<open>builder.py\<close>.
\<close>

section \<open>Messages of the parser\<close>

definition nl :: string where
  "nl = [CHR 0x0A]"

definition usage_text :: string where
  "usage_text = py_join nl
     [''usage: builder.py [-h] [--no-build] [--test] [--variable VARIABLE]'',
      ''                  [--config CONFIG] [--operating-system OPERATING_SYSTEM]'',
      ''                  [--build-type BUILD_TYPE]'']"

definition help_text :: string where
  "help_text = py_join nl
     [usage_text, [], ''Builder script to execute custom builds.'', [], ''options:'',
      ''  -h, --help            show this help message and exit'',
      ''  --no-build, -n        Perform no build.'',
      ''  --test, -t            Execute test steps.'',
      ''  --variable VARIABLE, -v VARIABLE'',
      ''                        Custom variables.'',
      ''  --config CONFIG, -c CONFIG'',
      ''                        Custom configuration file.'',
      ''  --operating-system OPERATING_SYSTEM, -os OPERATING_SYSTEM'',
      ''                        Operating system type.'',
      ''  --build-type BUILD_TYPE, -bt BUILD_TYPE'',
      ''                        Build type.'']"

section \<open>The process\<close>

definition empty_state :: st where
  "empty_state = \<lparr>variables = [], environment = [], out = []\<rparr>"

text \<open>\<open>load path\<close> is \<^verbatim>\<open>with open(path, 'r') as file: yaml.safe_load(file)\<close>:
  the document, or the exception raised (\<^verbatim>\<open>OSError\<close> when the file cannot be
  opened).\<close>

definition program :: "world \<Rightarrow> (string \<Rightarrow> pyexc + yaml) \<Rightarrow> string list \<Rightarrow> unit run" where
  "program w load argv =
     (case parse_args (homes w) argv of
        AHelpShown \<Rightarrow> (Inl (Exit 0), emit (Stdout help_text) empty_state)
      | AErr m \<Rightarrow>
          (Inl (Exit 2), emit (Stderr (''builder.py: error: '' @ m)) (emit (Stderr usage_text) empty_state))
      | AOk ns \<Rightarrow>
          (let args = cli.truncate ns
           in case parse_user_variables (variable args) of
                Inl e \<Rightarrow> crash e (init_state args)
              | Inr user_variables \<Rightarrow>
                  (case load (config ns) of
                     Inl e \<Rightarrow> crash e (init_state args)
                   | Inr cfg \<Rightarrow> main_body w args user_variables cfg)))"

section \<open>Lemmas\<close>

text \<open>Once the arguments are parsed and the file is loaded, the process is
  \<^verbatim>\<open>main\<close> on the parsed arguments, so that every theorem about \<open>main\<close> holds of the
  process.\<close>

lemma program_main:
  assumes "parse_args (homes w) argv = AOk ns" "load (config ns) = Inr cfg"
  shows "program w load argv = main w (cli.truncate ns) cfg"
  using assms by (simp add: program_def main_def split: sum.split)

lemma exit_main_body: "main_body w a u cfg = (Inl (Exit n), s') \<Longrightarrow> n = 1"
  by (auto simp: main_body_def Let_def crash_def dest: exit_project_loop split: sum.splits)

lemma exit_program_ok:
  "parse_args (homes w) argv = AOk ns \<Longrightarrow> program w load argv = (Inl (Exit n), s') \<Longrightarrow> n = 1"
  by (auto simp: program_def Let_def crash_def dest: exit_main_body split: sum.splits)

section \<open>Properties of the process\<close>

text \<open>C34: the exit status of the process is 0, 1 or 2, and it is 2 exactly when the
  command line is rejected by the argument parser; the spec names only 0 and
  non-zero.\<close>

theorem program_exit_status:
  "exit_status (program w load argv) \<in> {0, 1, 2} \<and>
   (exit_status (program w load argv) = 2 \<longleftrightarrow> (\<exists>m. parse_args (homes w) argv = AErr m))"
proof (cases "parse_args (homes w) argv")
  case (AOk ns)
  have "exit_status (program w load argv) \<in> {0, 1}"
  proof (cases "fst (program w load argv)")
    case (Inl h)
    then show ?thesis
      using exit_program_ok [OF AOk, of load] by (cases h) (auto simp: exit_status_def, metis prod.collapse)
  next
    case (Inr x) then show ?thesis by (simp add: exit_status_def)
  qed
  with AOk show ?thesis by auto
qed (simp_all add: program_def exit_status_def)

text \<open>C35: \<^verbatim>\<open>-h\<close> as the first argument prints the help and ends the process with
  status 0 before the configuration is read: nothing is spawned. Only an ambiguous
  option later on the command line, found while the arguments are classified, makes it
  an error instead.\<close>

theorem program_help:
  "program w load (''-h'' # ys) =
     (case classify ys of
        Inl m \<Rightarrow> (Inl (Exit 2), \<lparr>variables = [], environment = [],
                    out = [Stderr usage_text, Stderr (''builder.py: error: '' @ m)]\<rparr>)
      | Inr _ \<Rightarrow> (Inl (Exit 0), \<lparr>variables = [], environment = [], out = [Stdout help_text]\<rparr>))"
  by (simp add: program_def parse_args_help_first emit_def empty_state_def split: sum.split)

theorem program_exit_status_witness:
  "exit_status (program (example_world (\<lambda>_. 0)) (\<lambda>_. Inr typed_config) [''--bogus'']) = 2 \<and>
   exit_status (program (example_world (\<lambda>_. 0)) (\<lambda>_. Inr typed_config) [''--bogus'']) \<in> {0, 1, 2}"
proof -
  have "parse_args (homes (example_world (\<lambda>_. 0))) [''--bogus''] = AErr ''unrecognized arguments: --bogus''"
    by (simp add: parse_args_def parse_with_def parse_optional_def option_string_actions_def
        py_partition_def get_option_tuples_def is_negative_number_def)
  with program_exit_status [of "example_world (\<lambda>_. 0)" "\<lambda>_. Inr typed_config" "[''--bogus'']"]
  show ?thesis by auto
qed

end
