(* ===== verification/Spec2Isabelle.thy ===== *)
theory Spec2Isabelle
  imports Program
begin

text \<open>
  \<^bold>\<open>A verified model of builder-py.\<close>
  The program is the single script \<^verbatim>\<open>src/builder.py\<close>. It reads a YAML
  configuration, picks the first project whose path pattern matches the working
  directory, resolves \<^verbatim>\<open>{name}\<close> placeholders in the project's build and test steps,
  and runs each phase as one shell command. The steps are chained with \<^verbatim>\<open>&&\<close> and
  each is preceded by an \<^verbatim>\<open>echo\<close> banner. This development is a shallow embedding of
  the script: every function of it is a HOL definition with the same name, computed on
  the same data, and the theorems state what the code does.

  \<^bold>\<open>Parts and theories.\<close>
  \<^item> \<open>Prelude\<close>: Python dictionaries as association lists (\<open>pydict\<close>,
    \<open>sdict\<close>). The assignment \<^verbatim>\<open>d[k] = v\<close> is \<^const>\<open>AList.update\<close>: an existing key keeps
    its place and a new key goes last, as in CPython's insertion-ordered dictionaries.
    The theory also holds the shared lemmas on keys, updates and update loops
    (collection \<open>dict_simps\<close>).
  \<^item> \<open>PyRuntime\<close>: the CPython behaviour the script relies on.
    \<^item> Data: the values \<^verbatim>\<open>yaml.safe_load\<close> returns (\<^typ>\<open>yaml\<close>) and the exceptions
      as values (\<^typ>\<open>pyexc\<close>).
    \<^item> Text of values: \<^verbatim>\<open>str()\<close> and \<^verbatim>\<open>repr()\<close> (\<open>py_str\<close>, \<open>py_repr\<close>).
    \<^item> String methods: \<^verbatim>\<open>str.replace\<close> (\<open>str_replace\<close>, a left-to-right scan that does
      not rescan inserted text; an empty pattern inserts at every position), \<^verbatim>\<open>strip\<close>,
      \<^verbatim>\<open>split('=', 1)\<close> and \<^verbatim>\<open>join\<close>.
    \<^item> Containers: membership, subscription and iteration of YAML values, with their
      \<^verbatim>\<open>TypeError\<close>/\<^verbatim>\<open>KeyError\<close> paths, and the merge \<^verbatim>\<open>{**a, **b}\<close> with its
      overlay lemma.
    \<^item> \<^verbatim>\<open>os.path.expanduser\<close>.
  \<^item> \<open>Regex\<close>: the part of the \<^verbatim>\<open>re\<close> module that \<^verbatim>\<open>get_path\<close> calls,
    \<^verbatim>\<open>re.compile(p).match(t).group()\<close> (lines 48--50), after CPython 3.11's
    \<^verbatim>\<open>re/_parser.py\<close> and \<^verbatim>\<open>_sre\<close>.
    \<^item> The parser (\<open>re_compile\<close>) is a loop over the pattern with an explicit stack of
      open groups. It raises \<^verbatim>\<open>re.error\<close> where CPython does.
    \<^item> The matcher \<open>ends\<close> lists the ends of all matches in backtracking order; the first
      is the match. It follows \<^verbatim>\<open>_sre\<close>'s rule that a repeat stops after an empty
      iteration, and atomic groups and possessive quantifiers keep one match.
    \<^item> \<open>rmatch\<close> is the order-free meaning of a pattern, an inductive relation on
      spans of the text. The matcher is proved sound and complete against it.
  \<^item> \<open>Substitution\<close>: \<^verbatim>\<open>replace_with_variables\<close> (lines 23--28) as
    \<open>replace_with_variables\<close>, two passes of \<open>subst_vars\<close>.
  \<^item> \<open>Config\<close>: \<^verbatim>\<open>extract_variables\<close> and \<^verbatim>\<open>extract_environment\<close> (lines 31--42).
    Their loops are \<open>store_variables\<close> and \<open>store_environment\<close>; \<open>node_entries\<close> is the
    membership test and item iteration of the node.
  \<^item> \<open>Steps\<close>: \<^verbatim>\<open>banner\<close> (lines 16--20) and the unused \<^verbatim>\<open>get_build_steps\<close> and
    \<^verbatim>\<open>get_test_steps\<close>. The loop of \<^verbatim>\<open>build\<close>/\<^verbatim>\<open>test\<close> that assembles the command
    (lines 83--95) is \<open>add_step\<close>, \<open>pipeline_loop\<close> and \<open>pipeline_command\<close>.
  \<^item> \<open>Cli\<close>: \<^verbatim>\<open>get_system_name\<close>, the parser's defaults (\<open>default_cli\<close>) and the loop
    over the \<^verbatim>\<open>-v\<close> arguments (\<open>parse_user_variables\<close>, lines 134--138).
  \<^item> \<open>Orchestrator\<close>:
    \<^item> \<^verbatim>\<open>error\<close>, \<^verbatim>\<open>execute_command\<close>, \<^verbatim>\<open>get_path\<close>, \<^verbatim>\<open>build\<close>/\<^verbatim>\<open>test\<close>
      (one function \<open>run_phase\<close>, instantiated twice) and \<^verbatim>\<open>main\<close>.
    \<^item> The loop over projects (\<open>project_loop\<close>, whose body is \<open>probe\<close> followed by
      \<open>run_project\<close>).
    \<^item> \<^verbatim>\<open>main\<close> is the loop over the \<^verbatim>\<open>-v\<close> arguments followed by \<open>main_body\<close>
      (lines 144--169), the part after the configuration is loaded.
  \<^item> \<open>Argparse\<close>: the parser of lines 124--131, after CPython 3.11's \<^verbatim>\<open>argparse\<close>
    for exactly the options it declares. \<open>classify\<close> is \<^verbatim>\<open>_parse_optional\<close> with
    \<^verbatim>\<open>_get_option_tuples\<close> (prefix abbreviations, ambiguity errors, \<^verbatim>\<open>--opt=value\<close>
    and clustered short flags); \<open>consume\<close> and \<open>explicit_loop\<close> are
    \<^verbatim>\<open>consume_optional\<close>, \<open>next_args\<close> the argument matching; \<open>parse_args\<close> gives
    the namespace, the help request or the error message.
  \<^item> \<open>Schema\<close>: the shape of a well-formed configuration document (\<open>config_ok\<close>) and
    the contracts on the world's interfaces that the type-soundness and progress
    theorems assume (\<open>re_errors_only\<close>, \<open>shell_errors_only\<close>, \<open>re_total\<close>,
    \<open>shell_succeeds\<close>).
  \<^item> \<open>Program\<close>: the process, \<open>program\<close>: \<^verbatim>\<open>parse_args\<close>, whose help exits 0 and
    whose errors exit 2 after the usage text; the \<^verbatim>\<open>-v\<close> loop; loading the file, an
    interface \<open>load\<close> giving the document or the exception; then \<open>main_body\<close>.

  \<^bold>\<open>State and effects.\<close>
  \<^item> The script's mutable state is two dictionary objects, \<^verbatim>\<open>variables\<close> and
    \<^verbatim>\<open>environment\<close>. They are passed by reference and extended in place; in
    particular \<^verbatim>\<open>project_vars\<close> is the same object as \<^verbatim>\<open>variables\<close>. The model
    keeps them in the record \<open>st\<close>, one field per object, so that the aliasing is explicit.
  \<^item> \<open>st\<close> also holds the run's trace of events: the lines printed to stdout and stderr,
    and the commands spawned, each with its directory and environment.
  \<^item> The outside world is the record \<open>world\<close>: the working directory, \<^verbatim>\<open>os.environ\<close>,
    the home directories, and two interfaces: the shell, which gives a command's exit
    status, and \<^verbatim>\<open>re.match\<close>.
    \<^item> The orchestrator's theorems hold for any \<^verbatim>\<open>re.match\<close>.
    \<^item> Those that depend on a pattern's meaning take the world whose matcher is the
      \<open>Regex\<close> model (\<open>re_model\<close>).
    \<^item> The literal-prefix matcher of the examples agrees with that model on patterns
      without metacharacters (\<open>literal_match_re_model\<close>).
  \<^item> A function of the script is a function from the state to the new state and either
    its result or a \<open>halt\<close>: \<^verbatim>\<open>exit(n)\<close> or an uncaught exception. Every early exit
    of the code is such a branch. \<open>exit_status\<close> reads the process status off the result.

  \<^bold>\<open>What is proved.\<close>
  \<^item> Orchestrator:
    \<^item> The first project whose path matches non-emptily is the one run, and later
      projects are never examined.
    \<^item> No match ends with status 1 and only the error message.
    \<^item> A failing build stops the run before the test phase.
    \<^item> The spec's end-to-end scenario.
    \<^item> Build runs before test, each extracting the project's variables again.
    \<^item> The executor's environment overlay.
    \<^item> A missing path aborts the run.
    \<^item> Once the arguments are parsed and the file loaded, the exit status is 0 or 1.
    \<^item> A document that is not a mapping ends the run with a \<^verbatim>\<open>TypeError\<close>.
    \<^item> An invariant of the variables dictionary that holds after every run of
      \<open>main\<close>: distinct keys, beginning with \<^verbatim>\<open>os\<close> and \<^verbatim>\<open>bt\<close>. It is proved by
      preservation lemmas for each operation (\<open>vars_inv\<close>). The invariant also
      justifies applying \<^verbatim>\<open>str()\<close> before substitution at the call sites:
      \<^verbatim>\<open>replace_with_variables\<close> converts its argument only when one of the
      dictionaries is non-empty, and \<^verbatim>\<open>variables\<close> never is.
  \<^item> Step planner:
    \<^item> The assembled command equals a reference, the banners and steps joined by
      \<^verbatim>\<open> && \<close>.
    \<^item> The banner shows the step cut to 110 characters and is at most 372 characters
      long; its single quotes are not escaped.
  \<^item> Resolver: \<open>replace_with_variables\<close> refines the spec's single-pass two-tier
    substitution on well-formed templates; outside them it re-expands inserted text.
  \<^item> Extractor: declarations resolved in order against those before them, absent keys, the keys invariant and environment
    lookup.
  \<^item> Command line:
    \<^item> The last \<^verbatim>\<open>-v\<close> value for a name wins.
    \<^item> Printing the user variables as arguments and parsing them back gives the same
      dictionary.
    \<^item> An argument without \<^verbatim>\<open>=\<close> crashes the run.
  \<^item> Argument parser:
    \<^item> Printing a namespace as a command line and parsing it gives the namespace back.
    \<^item> A long option may be abbreviated to any non-empty prefix of its name.
  \<^item> Process: the exit status is 0, 1 or 2, and 2 exactly on a parser error;
    \<^verbatim>\<open>-h\<close> first prints the help and exits 0 unless a later option is ambiguous.
  \<^item> Schema: on a document of the schema, with interfaces that raise only their own
    exceptions, \<open>main\<close> never raises \<^verbatim>\<open>TypeError\<close> or \<^verbatim>\<open>KeyError\<close> (type
    soundness); when in addition every step path is given, every \<^verbatim>\<open>-v\<close> has an
    \<^verbatim>\<open>=\<close>, patterns compile and commands succeed, it returns normally or exits 1
    with the no-match message (progress).
  \<^item> Regular expressions:
    \<^item> \<^verbatim>\<open>re.match\<close> refines the path matcher's contract: no match exactly when no
      prefix is in the pattern's language.
    \<^item> Literal patterns are prefix tests (the spec's example).
  \<^item> Divergences from the spec, each proved as a theorem with a concrete witness:
    \<^item> a project that is passed over leaks its variables to the next project;
    \<^item> \<^verbatim>\<open>build\<close> and \<^verbatim>\<open>test\<close> extract the project's variables again;
    \<^item> an empty match of the path pattern is treated as no match;
    \<^item> an empty build list still spawns a command;
    \<^item> \<^verbatim>\<open>~\<close> is expanded after substitution, also when a variable brings it in;
    \<^item> a path such as \<^verbatim>\<open>/src/c++\<close> is read as a pattern and the build runs in the
      directory the pattern matched, \<^verbatim>\<open>/src/c\<close>.

  \<^bold>\<open>Bounds and fuel.\<close>
  No loop of the script can run forever: every loop iterates over a finite list or
  string. No fuel is needed.
  \<^item> Recursion is structural, except in three functions:
    \<^item> \<open>str_replace\<close> terminates by the length of the text.
    \<^item> The regex parser's loops terminate by the length of the pattern left.
    \<^item> The matcher terminates by the size of the pattern, then the text left.
  \<^item> The guard that makes the matcher's star visibly terminating is proved to cut
    nothing (\<open>ends_star_unguarded\<close>).
  \<^item> The banner bound, 110 characters, is the constant of the code.

  \<^bold>\<open>Evidence of faithfulness beyond the proofs.\<close>
  The \<open>Regex\<close> model was compared with CPython 3.11's \<^verbatim>\<open>re\<close> on over two thousand
  random pairs of pattern and text inside the supported syntax. The comparison covered
  compile errors, no match and match length. It found no disagreement.
  The \<open>Argparse\<close> model was compared with CPython 3.11's \<^verbatim>\<open>argparse\<close>
  configured as in the script on 1800 random command lines (abbreviations, clusters,
  \<^verbatim>\<open>=\<close> forms, \<^verbatim>\<open>--\<close>, negative numbers, missing arguments): namespace, help
  and error message agreed on every one. The usage and help texts are those Python
  prints for a terminal of 80 columns.

  \<^bold>\<open>Not modelled.\<close>
  \<^item> \<^verbatim>\<open>argparse\<close> beyond the script's options: other actions, \<^verbatim>\<open>nargs\<close>
    values and positionals, and help formatting for other terminal widths.
  \<^item> Opening the file and YAML parsing: \<open>load\<close> is an interface of \<open>program\<close>.
  \<^item> The shell's parsing of the command string: the shell is an interface of the world
    that gives the status of the whole string. Whether the string is fail-fast depends on
    how the shell splits it, which quotes, \<^verbatim>\<open>;\<close>, \<^verbatim>\<open>||\<close> or \<^verbatim>\<open>#\<close> in a step
    change; the theorems describe the string itself.
  \<^item> YAML mappings with keys that are not strings. Under \<^verbatim>\<open>variables\<close> or
    \<^verbatim>\<open>environment\<close> the model raises \<^verbatim>\<open>TypeError\<close> when it iterates such a key;
    CPython raises it at the next substitution, so when the run ends first it prints
    its error message instead. Both exit with status 1.
  \<^item> Regex syntax that \<open>re_compile\<close> reports as outside the model (\<open>PUnsup\<close>):
    backreferences, lookaround, comments, conditionals, inline flags and the
    \<^verbatim>\<open>\u \U \N\<close> escapes.
  \<^item> Two approximations in the regex model:
    \<^item> The bounded repeat \<^verbatim>\<open>{m,n}\<close> is unrolled into copies.
    \<^item> \<^verbatim>\<open>\d \w \s\<close> are their ASCII parts.
  \<^item> Floats, dates and non-ASCII text in YAML values.
\<close>

end
